(* ===== verification/Prelude.thy ===== *)
theory Prelude
  imports Complex_Main "HOL-Library.Multiset"
begin

text \<open>
  Shared vocabulary of the development.  The contract analyser
  (\<open>src/ponzi_detector/info_analyze/contract_analyze.py\<close>) builds Python
  dicts by two idioms: plain assignment \<open>m[k] = v\<close> inside a \<open>for\<close> loop,
  and the ``create or append'' idiom
  \<open>if k not in m: m[k] = [x] else: m[k].append(x)\<close>.  A dict is a map
  \<open>'k \<rightharpoonup> 'v\<close>; a \<open>for\<close> loop over a list is \<^const>\<open>fold\<close>.  The lemmas
  below give the closed forms of both idioms run over a list, so that the
  component theories state what each dict holds after its loop.  The
  theory also names the numeric types of the network model (vectors and
  matrices of reals) and the Python errors the model raises.
\<close>

named_theorems dict_simps "closed forms of the Python dict idioms"

type_synonym vec = "real list"
type_synonym mat = "real list list"

text \<open>Exceptions the modelled code can raise (the classes of Python's runtime).\<close>

datatype py_error =
    ZeroDivisionError
  | ShapeMismatch
  | IndexError
  | TypeError
  | ValueError string
  | OverflowError
  | RuntimeError string

text \<open>Sequencing of computations that may raise: the first exception is
  propagated, as Python propagates it.\<close>

definition bind_err :: "'e + 'a \<Rightarrow> ('a \<Rightarrow> 'e + 'b) \<Rightarrow> 'e + 'b" where
  "bind_err r f = (case r of Inl e \<Rightarrow> Inl e | Inr a \<Rightarrow> f a)"

subsection \<open>The create-or-append idiom\<close>

definition dict_append :: "('k \<rightharpoonup> 'v list) \<Rightarrow> 'k \<Rightarrow> 'v \<Rightarrow> ('k \<rightharpoonup> 'v list)" where
  "dict_append m k x =
     (case m k of None \<Rightarrow> m(k \<mapsto> [x]) | Some xs \<Rightarrow> m(k \<mapsto> xs @ [x]))"

text \<open>Appending a list to an optional list; an absent key stays absent
  when nothing is appended.\<close>

fun opt_append :: "'v list option \<Rightarrow> 'v list \<Rightarrow> 'v list option" where
  "opt_append None [] = None"
| "opt_append None ys = Some ys"
| "opt_append (Some xs) ys = Some (xs @ ys)"

fun list_opt :: "'v list \<Rightarrow> 'v list option" where
  "list_opt [] = None"
| "list_opt xs = Some xs"

lemma bind_err_simps [simp]:
  "bind_err (Inl e) f = Inl e"
  "bind_err (Inr a) f = f a"
  by (simp_all add: bind_err_def)

lemma bind_err_eq_Inr:
  "bind_err r f = Inr b \<longleftrightarrow> (\<exists>a. r = Inr a \<and> f a = Inr b)"
  by (cases r) simp_all

lemma opt_append_None [simp]: "opt_append None ys = list_opt ys"
  by (cases ys) simp_all

lemma opt_append_append [simp]:
  "opt_append (opt_append m xs) ys = opt_append m (xs @ ys)"
  by (cases m; cases xs; cases ys) simp_all

lemma opt_append_Nil [simp]: "opt_append m [] = m"
  by (cases m) simp_all

lemma list_opt_eq_None [simp]: "list_opt xs = None \<longleftrightarrow> xs = []"
  by (cases xs) simp_all

lemma list_opt_eq_Some [simp]: "list_opt xs = Some ys \<longleftrightarrow> xs \<noteq> [] \<and> ys = xs"
  by (cases xs) auto

lemma dict_append_lookup [dict_simps]:
  "dict_append m k x k' = (if k' = k then opt_append (m k) [x] else m k')"
  by (cases "m k") (simp_all add: dict_append_def)

lemma fold_dict_append [dict_simps]:
  "fold (\<lambda>a m. dict_append m (key a) (val a)) as m k =
     opt_append (m k) (map val (filter (\<lambda>a. key a = k) as))"
  by (induction as arbitrary: m) (simp_all add: dict_append_lookup)

subsection \<open>Assignment in a loop\<close>

lemma fold_map_upd [dict_simps]:
  "fold (\<lambda>a m. m(key a \<mapsto> val a)) as m = m ++ map_of (rev (map (\<lambda>a. (key a, val a)) as))"
  by (induction as arbitrary: m) (simp_all add: map_add_upd_left)

lemma fold_nested_map_upd [dict_simps]:
  "fold (\<lambda>x. fold (\<lambda>y m. m(key x y \<mapsto> val x y)) (g x)) xs m =
     m ++ map_of (rev (concat (map (\<lambda>x. map (\<lambda>y. (key x y, val x y)) (g x)) xs)))"
  by (induction xs arbitrary: m) (simp_all add: fold_map_upd rev_map comp_def)

lemma fold_skip [simp]: "fold (\<lambda>x m. m) xs m = m"
  by (induction xs) simp_all

lemma fold_concat_map:
  "fold (\<lambda>x. fold f (g x)) xs s = fold f (concat (map g xs)) s"
  by (induction xs arbitrary: s) simp_all

lemma fold_if_skip:
  "fold (\<lambda>a m. if P a then f a m else m) as m = fold f (filter P as) m"
  by (induction as arbitrary: m) simp_all

lemma sum_list_map_filter_mset:
  fixes f :: "'a \<Rightarrow> 'b::comm_monoid_add"
  shows "mset xs = mset ys \<Longrightarrow> sum_list (map f (filter P xs)) = sum_list (map f (filter P ys))"
proof -
  assume "mset xs = mset ys"
  then have "mset (map f (filter P xs)) = mset (map f (filter P ys))" by simp
  then have "sum_mset (mset (map f (filter P xs))) = sum_mset (mset (map f (filter P ys)))" by simp
  then show ?thesis by (simp only: sum_mset_sum_list)
qed

lemma map_of_rev_Some_last:
  "map_of (rev xs) k = Some v \<Longrightarrow> (k, v) \<in> set xs"
  by (auto dest: map_of_SomeD)

end
