(* ===== verification/Slither_Model.thy ===== *)
theory Slither_Model
  imports Prelude
begin

text \<open>
  The part of Slither's intermediate representation that \<open>ContractInfo\<close>
  reads (the \<open>slither.core.declarations\<close> objects of this repository,
  which are outside \<open>src/\<close> and are modelled from the interface the spec
  names in its section 6).  Every object becomes a record holding the
  attributes the analyser reads, with \<open>str(v)\<close> of a state variable being
  its name and \<open>str(v.type)\<close> its type's text.  A node's \<open>expression\<close>
  is optional (\<open>None\<close> for nodes without one).  An entry of
  \<open>function.internal_calls\<close> is either a \<open>Function\<close> of the contract,
  of which the analyser reads \<open>id\<close> and \<open>name\<close>, or a built-in
  \<open>SolidityFunction\<close>, which the \<open>isinstance(.., Function)\<close> test
  rejects.  \<open>can_send_eth()\<close> is Slither's own analysis and is an input
  flag here.
\<close>

record state_variable =
  sv_name :: string
  sv_type :: string
  sv_expression :: "string option"

record sl_node =
  node_expression :: "string option"
  node_state_variables_written :: "state_variable list"

datatype call_target =
    CallFunction nat string
  | CallSolidityFunction string

record sl_structure =
  struct_name :: string
  struct_elems :: "(string \<times> string) list"

record sl_function =
  fn_id :: nat
  fn_name :: string
  is_constructor :: bool
  is_constructor_variables :: bool
  can_send_eth :: bool
  fn_nodes :: "sl_node list"
  fn_state_variables_read :: "state_variable list"
  fn_state_variables_written :: "state_variable list"
  internal_calls :: "call_target list"

record sl_contract =
  contract_name :: string
  structures :: "sl_structure list"
  state_variables :: "state_variable list"
  contract_functions :: "sl_function list"

text \<open>The branch test of \<open>_stat_vars_info_in_contract\<close> (line 48).\<close>

definition is_ctor :: "sl_function \<Rightarrow> bool" where
  "is_ctor f \<longleftrightarrow> is_constructor f \<or> is_constructor_variables f"

end
