(* ===== verification/Py_Text.thy ===== *)
theory Py_Text
  imports Prelude
begin

text \<open>
  The string operations of Python that the contract analyser relies on:
  \<open>str\<close> of a non-negative \<open>int\<close> (decimal digits), \<open>str\<close> of an optional
  expression (\<open>None\<close> prints as \<open>''None''\<close>), the key
  \<open>"{}-{}".format(a, b)\<close> that \<open>_construct_call_graph\<close> uses to
  deduplicate edges, and the substring test \<open>pat in s\<close> that
  \<open>_functions_with_transaction_call\<close> uses to spot value transfers.
  The main facts are the round trip \<open>read_nat (py_str_nat n) = n\<close>, the
  injectivity of the edge key that follows from it, and the equivalence of
  the executable substring test with its specification.
\<close>

subsection \<open>Decimal digits\<close>

definition digit_char :: "nat \<Rightarrow> char" where
  "digit_char d = char_of (48 + d)"

definition digit_val :: "char \<Rightarrow> nat" where
  "digit_val c = of_char c - 48"

fun py_str_nat :: "nat \<Rightarrow> string" where
  "py_str_nat n =
     (if n < 10 then [digit_char n] else py_str_nat (n div 10) @ [digit_char (n mod 10)])"

declare py_str_nat.simps [simp del]

definition read_nat :: "string \<Rightarrow> nat" where
  "read_nat s = foldl (\<lambda>acc c. 10 * acc + digit_val c) 0 s"

text \<open>\<open>"{}-{}".format(from_node, to_node)\<close> (contract\_analyze.py, line 117).\<close>

definition edge_key :: "nat \<Rightarrow> nat \<Rightarrow> string" where
  "edge_key a b = py_str_nat a @ ''-'' @ py_str_nat b"

text \<open>\<open>str\<close> of an optional expression (line 81).\<close>

definition py_str_opt :: "string option \<Rightarrow> string" where
  "py_str_opt e = (case e of None \<Rightarrow> ''None'' | Some s \<Rightarrow> s)"

text \<open>\<open>pat in s\<close> for Python strings: a scan over the start positions.\<close>

fun py_contains :: "string \<Rightarrow> string \<Rightarrow> bool" where
  "py_contains pat [] = (pat = [])"
| "py_contains pat (c # cs) = (take (length pat) (c # cs) = pat \<or> py_contains pat cs)"

subsection \<open>Facts about the string operations\<close>

lemma digit_val_digit_char [simp]: "d < 10 \<Longrightarrow> digit_val (digit_char d) = d"
  by (simp add: digit_val_def digit_char_def)

lemma of_char_digit_char: "d < 10 \<Longrightarrow> of_char (digit_char d) = 48 + d"
  by (simp add: digit_char_def)

lemma digit_char_not_dash [simp]: "d < 10 \<Longrightarrow> CHR ''-'' \<noteq> digit_char d"
proof
  assume "d < 10" and "CHR ''-'' = digit_char d"
  then have "of_char (CHR ''-'') = (48 + d :: nat)"
    by (simp add: of_char_digit_char)
  then show False by simp
qed

lemma read_nat_snoc [simp]: "read_nat (s @ [c]) = 10 * read_nat s + digit_val c"
  by (simp add: read_nat_def)

lemma read_py_str_nat [simp]: "read_nat (py_str_nat n) = n"
proof (induction n rule: py_str_nat.induct)
  case (1 n)
  show ?case
  proof (cases "n < 10")
    case True
    then show ?thesis by (simp add: py_str_nat.simps [of n] read_nat_def)
  next
    case False
    with "1.IH" have "read_nat (py_str_nat (n div 10)) = n div 10" by simp
    with False show ?thesis by (simp add: py_str_nat.simps [of n])
  qed
qed

lemma py_str_nat_inj: "py_str_nat a = py_str_nat b \<longleftrightarrow> a = b"
  by (metis read_py_str_nat)

lemma dash_notin_py_str_nat [simp]: "CHR ''-'' \<notin> set (py_str_nat n)"
proof (induction n rule: py_str_nat.induct)
  case (1 n)
  then show ?case by (subst py_str_nat.simps) auto
qed

lemma py_str_nat_nonempty [simp]: "py_str_nat n \<noteq> []"
  by (subst py_str_nat.simps) simp

subsection \<open>The deduplication key of a call-graph edge\<close>

lemma takeWhile_edge_key:
  "takeWhile (\<lambda>c. c \<noteq> CHR ''-'') (edge_key a b) = py_str_nat a"
  unfolding edge_key_def
  by (subst takeWhile_append2) (auto dest: dash_notin_py_str_nat [of a, THEN notE])

lemma dropWhile_edge_key:
  "dropWhile (\<lambda>c. c \<noteq> CHR ''-'') (edge_key a b) = CHR ''-'' # py_str_nat b"
  unfolding edge_key_def
  by (subst dropWhile_append2) (auto dest: dash_notin_py_str_nat [of a, THEN notE])

lemma edge_key_inj [simp]: "edge_key a b = edge_key c d \<longleftrightarrow> a = c \<and> b = d"
proof
  assume eq: "edge_key a b = edge_key c d"
  then have "takeWhile (\<lambda>c. c \<noteq> CHR ''-'') (edge_key a b) =
             takeWhile (\<lambda>c. c \<noteq> CHR ''-'') (edge_key c d)" by simp
  then have "a = c" by (simp add: takeWhile_edge_key py_str_nat_inj)
  from eq have "dropWhile (\<lambda>c. c \<noteq> CHR ''-'') (edge_key a b) =
                dropWhile (\<lambda>c. c \<noteq> CHR ''-'') (edge_key c d)" by simp
  then have "b = d" by (simp add: dropWhile_edge_key py_str_nat_inj)
  with \<open>a = c\<close> show "a = c \<and> b = d" ..
qed simp

subsection \<open>The substring test\<close>

lemma take_length_eq_iff: "take (length p) s = p \<longleftrightarrow> (\<exists>v. s = p @ v)"
  by (metis append_eq_conv_conj append_take_drop_id)

text \<open>The executable scan that models \<open>pat in s\<close> is equivalent to
  its specification: \<open>pat\<close> occurs in \<open>s\<close> as a contiguous block.\<close>

theorem py_contains_iff: "py_contains pat s \<longleftrightarrow> (\<exists>u v. s = u @ pat @ v)"
proof (induction s)
  case Nil
  then show ?case by simp
next
  case (Cons c cs)
  have "(\<exists>u v. c # cs = u @ pat @ v) \<longleftrightarrow>
        (\<exists>v. c # cs = pat @ v) \<or> (\<exists>u v. cs = u @ pat @ v)"
    by (auto simp: Cons_eq_append_conv)
  with Cons.IH show ?case by (simp only: py_contains.simps take_length_eq_iff)
qed

text \<open>C11. Round trip of the deduplication key: the text before the first
  \<open>-\<close> of \<open>"{}-{}".format(a, b)\<close> reads back as \<open>a\<close> and the text after
  it as \<open>b\<close>, so two keys are equal only for equal pairs of node ids.\<close>

theorem edge_key_roundtrip:
  "read_nat (takeWhile (\<lambda>c. c \<noteq> CHR ''-'') (edge_key a b)) = a \<and>
   read_nat (tl (dropWhile (\<lambda>c. c \<noteq> CHR ''-'') (edge_key a b))) = b"
  by (simp add: takeWhile_edge_key dropWhile_edge_key)

end
