(* ===== verification/Nx_Graph.thy ===== *)
theory Nx_Graph
  imports Prelude "HOL-Library.AList"
begin

text \<open>
  The three operations of \<open>networkx.DiGraph\<close> that \<open>_construct_call_graph\<close>
  uses, as the library documents them: \<open>add_node(n, **attr)\<close> inserts a
  node or updates the attributes of an existing one; \<open>add_edges_from\<close>
  adds each edge in turn, first adding a missing endpoint as a node without
  attributes, and adding an edge that is already present changes nothing
  (a \<open>DiGraph\<close> holds at most one edge per ordered pair).  Nodes are kept
  in insertion order, as networkx's dict does.  A node's attributes are
  \<open>label\<close> and \<open>fid\<close>, or none for a node that only an edge added.
\<close>

type_synonym node_attrs = "(string \<times> nat) option"

record digraph =
  graph_name :: string
  g_nodes :: "(nat \<times> node_attrs) list"
  g_edges :: "(nat \<times> nat) list"

definition nx_digraph :: "string \<Rightarrow> digraph" where
  "nx_digraph name = \<lparr>graph_name = name, g_nodes = [], g_edges = []\<rparr>"

definition node_ids :: "digraph \<Rightarrow> nat list" where
  "node_ids g = map fst (g_nodes g)"

definition nx_add_node :: "nat \<Rightarrow> string \<Rightarrow> nat \<Rightarrow> digraph \<Rightarrow> digraph" where
  "nx_add_node n label fid g = g\<lparr>g_nodes := AList.update n (Some (label, fid)) (g_nodes g)\<rparr>"

definition nx_ensure_node :: "nat \<Rightarrow> digraph \<Rightarrow> digraph" where
  "nx_ensure_node n g =
     (if n \<in> set (node_ids g) then g else g\<lparr>g_nodes := g_nodes g @ [(n, None)]\<rparr>)"

definition nx_add_edge :: "nat \<times> nat \<Rightarrow> digraph \<Rightarrow> digraph" where
  "nx_add_edge e g =
     (let g' = nx_ensure_node (snd e) (nx_ensure_node (fst e) g)
      in if e \<in> set (g_edges g') then g' else g'\<lparr>g_edges := g_edges g' @ [e]\<rparr>)"

definition nx_add_edges_from :: "(nat \<times> nat) list \<Rightarrow> digraph \<Rightarrow> digraph" where
  "nx_add_edges_from es g = fold nx_add_edge es g"

subsection \<open>Facts about the library model\<close>

lemma update_fresh:
  "k \<notin> set (map fst al) \<Longrightarrow> AList.update k v al = al @ [(k, v)]"
  by (induction al) auto

lemma add_node_fresh:
  "n \<notin> set (node_ids g) \<Longrightarrow>
     nx_add_node n l f g = g\<lparr>g_nodes := g_nodes g @ [(n, Some (l, f))]\<rparr>"
  by (simp add: node_ids_def nx_add_node_def update_fresh)

lemma ensure_node_present [simp]: "n \<in> set (node_ids g) \<Longrightarrow> nx_ensure_node n g = g"
  by (simp add: nx_ensure_node_def)

lemma add_edges_from_present:
  assumes "distinct es" and "set es \<inter> set (g_edges g) = {}"
    and "\<forall>(u, v) \<in> set es. u \<in> set (node_ids g) \<and> v \<in> set (node_ids g)"
  shows "nx_add_edges_from es g = g\<lparr>g_edges := g_edges g @ es\<rparr>"
  using assms
proof (induction es arbitrary: g rule: rev_induct)
  case Nil
  then show ?case by (simp add: nx_add_edges_from_def)
next
  case (snoc e es)
  then have IH: "fold nx_add_edge es g = g\<lparr>g_edges := g_edges g @ es\<rparr>"
    by (simp add: nx_add_edges_from_def)
  from snoc.prems have "fst e \<in> set (node_ids g)" "snd e \<in> set (node_ids g)"
    and "e \<notin> set (g_edges g)" "e \<notin> set es"
    by (auto split: prod.splits)
  then show ?case
    by (simp add: nx_add_edges_from_def IH nx_add_edge_def node_ids_def)
qed

end
