(* ===== verification/Example_Contracts.thy ===== *)
theory Example_Contracts
  imports Slither_Model
begin

text \<open>
  Concrete inputs for the witnesses of the analyser's theorems.  \<open>ex_contract\<close>
  is the end-to-end scenario of the spec (section 8): one struct; a state
  variable \<open>X\<close> declared without initialiser and a variable \<open>Y\<close> written
  only by the constructor; \<open>A\<close> can send ether, writes \<open>X\<close>, transfers
  with \<open>msg.sender.transfer(X)\<close> and calls \<open>B\<close> twice (with a built-in
  \<open>require\<close> between the calls); \<open>B\<close> writes \<open>X\<close> but cannot send ether
  and calls \<open>C\<close>.  \<open>ex_payout\<close> is a function with two transfer statements.
\<close>

definition ex_X :: state_variable where
  "ex_X = \<lparr>sv_name = ''X'', sv_type = ''uint256'', sv_expression = None\<rparr>"

definition ex_Y :: state_variable where
  "ex_Y = \<lparr>sv_name = ''Y'', sv_type = ''address'', sv_expression = None\<rparr>"

definition ex_ctor :: sl_function where
  "ex_ctor = \<lparr>fn_id = 1, fn_name = ''constructor'', is_constructor = True,
     is_constructor_variables = False, can_send_eth = False,
     fn_nodes = [\<lparr>node_expression = Some ''Y = msg.sender'', node_state_variables_written = [ex_Y]\<rparr>],
     fn_state_variables_read = [], fn_state_variables_written = [ex_Y], internal_calls = []\<rparr>"

definition ex_A :: sl_function where
  "ex_A = \<lparr>fn_id = 2, fn_name = ''A'', is_constructor = False,
     is_constructor_variables = False, can_send_eth = True,
     fn_nodes = [\<lparr>node_expression = Some ''X = X + 1'', node_state_variables_written = [ex_X]\<rparr>,
                 \<lparr>node_expression = Some ''msg.sender.transfer(X)'', node_state_variables_written = []\<rparr>],
     fn_state_variables_read = [ex_X], fn_state_variables_written = [ex_X],
     internal_calls = [CallFunction 3 ''B'', CallSolidityFunction ''require(bool)'', CallFunction 3 ''B'']\<rparr>"

definition ex_B :: sl_function where
  "ex_B = \<lparr>fn_id = 3, fn_name = ''B'', is_constructor = False,
     is_constructor_variables = False, can_send_eth = False,
     fn_nodes = [\<lparr>node_expression = Some ''X = 0'', node_state_variables_written = [ex_X]\<rparr>],
     fn_state_variables_read = [ex_X], fn_state_variables_written = [ex_X],
     internal_calls = [CallFunction 4 ''C'']\<rparr>"

definition ex_C :: sl_function where
  "ex_C = \<lparr>fn_id = 4, fn_name = ''C'', is_constructor = False,
     is_constructor_variables = False, can_send_eth = False,
     fn_nodes = [], fn_state_variables_read = [], fn_state_variables_written = [],
     internal_calls = []\<rparr>"

definition ex_contract :: sl_contract where
  "ex_contract = \<lparr>contract_name = ''Ponzi'',
     structures = [\<lparr>struct_name = ''Investor'', struct_elems = [(''addr'', ''address'')]\<rparr>],
     state_variables = [ex_X, ex_Y], contract_functions = [ex_ctor, ex_A, ex_B, ex_C]\<rparr>"

definition ex_pay1 :: sl_node where
  "ex_pay1 = \<lparr>node_expression = Some ''first.transfer(1)'', node_state_variables_written = []\<rparr>"

definition ex_pay2 :: sl_node where
  "ex_pay2 = \<lparr>node_expression = Some ''second.send(2)'', node_state_variables_written = []\<rparr>"

definition ex_payout :: sl_function where
  "ex_payout = \<lparr>fn_id = 7, fn_name = ''payout'', is_constructor = False,
     is_constructor_variables = False, can_send_eth = True,
     fn_nodes = [ex_pay1, ex_pay2], fn_state_variables_read = [],
     fn_state_variables_written = [], internal_calls = []\<rparr>"

definition ex_payout_contract :: sl_contract where
  "ex_payout_contract = \<lparr>contract_name = ''Payout'', structures = [],
     state_variables = [], contract_functions = [ex_payout]\<rparr>"

definition ex_empty_contract :: sl_contract where
  "ex_empty_contract = \<lparr>contract_name = ''Empty'', structures = [],
     state_variables = [], contract_functions = []\<rparr>"

lemmas ex_defs = ex_X_def ex_Y_def ex_ctor_def ex_A_def ex_B_def ex_C_def ex_contract_def
  ex_pay1_def ex_pay2_def ex_payout_def ex_payout_contract_def
  ex_empty_contract_def

end
