(* ===== verification/Contract_Info.thy ===== *)
theory Contract_Info
  imports Slither_Model Py_Text Nx_Graph Example_Contracts
begin

text \<open>
  The state of \<open>class ContractInfo\<close>
  (\<open>src/ponzi_detector/info_analyze/contract_analyze.py\<close>) and the three
  extraction passes that fill its dicts: \<open>_struct_info\<close>,
  \<open>_stat_vars_info_in_contract\<close> and \<open>_functions_with_transaction_call\<close>.
  Each pass is a function \<open>contract_info \<Rightarrow> contract_info\<close> that
  returns the object with the fields it assigns updated; each \<open>for\<close> loop
  is a \<^const>\<open>fold\<close>.  The lemmas give the closed form of every dict after
  its pass as a function of the input contract alone: the specification
  lists \<open>stub_decls\<close>, \<open>ctor_decls\<close>, \<open>readers\<close>, \<open>writers\<close>
  and \<open>send_records\<close> are read directly off the contract, with no loop
  state, and the closed-form lemmas say that each loop computes them.
\<close>

subsection \<open>State\<close>

text \<open>A key of \<open>send_function_map\<close>: the dict is written with
  \<open>function.id\<close> (an \<open>int\<close>) and probed with \<open>function.name\<close> (a
  \<open>str\<close>), so its key type is the union of both.\<close>

datatype py_key = KeyInt nat | KeyStr string

text \<open>The two shapes of a \<open>state_var_declare_function_map\<close> entry:
  \<open>{"type", "exp"}\<close> (line 43) and \<open>{"fun", "expr", "full_expr"}\<close>
  (lines 52--56).\<close>

datatype declare_entry =
    DeclStub string string
  | DeclCtor sl_function "string option" string

record send_entry =
  se_id :: nat
  se_name :: string
  se_function :: sl_function
  se_exp :: "string option"
  se_node :: sl_node

record contract_info =
  ci_name :: string
  ci_contract :: sl_contract
  structs_info :: "string \<rightharpoonup> sl_structure"
  send_function_map :: "py_key \<rightharpoonup> send_entry"
  funcid_2_graphid :: "nat \<rightharpoonup> nat"
  call_graph :: "digraph option"
  state_var_declare_function_map :: "string \<rightharpoonup> declare_entry"
  state_var_read_function_map :: "string \<rightharpoonup> sl_function list"
  state_var_write_function_map :: "string \<rightharpoonup> sl_function list"

text \<open>The field initialisations of \<open>__init__\<close> (lines 9--26), before the
  call of \<open>contract_info_analyze\<close>.\<close>

definition init_contract_info :: "sl_contract \<Rightarrow> contract_info" where
  "init_contract_info c =
     \<lparr>ci_name = contract_name c, ci_contract = c,
      structs_info = Map.empty, send_function_map = Map.empty,
      funcid_2_graphid = Map.empty, call_graph = None,
      state_var_declare_function_map = Map.empty,
      state_var_read_function_map = Map.empty,
      state_var_write_function_map = Map.empty\<rparr>"

subsection \<open>\<open>_struct_info\<close>\<close>

definition struct_info :: "contract_info \<Rightarrow> contract_info" where
  "struct_info ci =
     ci\<lparr>structs_info :=
          fold (\<lambda>s m. m(struct_name s \<mapsto> s)) (structures (ci_contract ci)) (structs_info ci)\<rparr>"

subsection \<open>\<open>_stat_vars_info_in_contract\<close>\<close>

text \<open>First loop (lines 40--43): a declaration stub for every state variable
  without an initialiser expression.\<close>

definition declare_stub :: "state_variable \<Rightarrow> (string \<rightharpoonup> declare_entry) \<Rightarrow> (string \<rightharpoonup> declare_entry)" where
  "declare_stub v m =
     (if sv_expression v = None
      then m(sv_name v \<mapsto> DeclStub (sv_type v) (sv_type v @ '' '' @ sv_name v))
      else m)"

text \<open>Constructor branch (lines 48--56): every state variable written by a
  node of a constructor is declared by that node's expression.\<close>

definition ctor_entry :: "sl_function \<Rightarrow> sl_node \<Rightarrow> state_variable \<Rightarrow> declare_entry" where
  "ctor_entry f n v =
     DeclCtor f (node_expression n) (sv_type v @ '' '' @ py_str_opt (node_expression n))"

definition declare_in_constructor ::
  "sl_function \<Rightarrow> (string \<rightharpoonup> declare_entry) \<Rightarrow> (string \<rightharpoonup> declare_entry)" where
  "declare_in_constructor f m =
     fold (\<lambda>n. fold (\<lambda>v m. m(sv_name v \<mapsto> ctor_entry f n v)) (node_state_variables_written n))
       (fn_nodes f) m"

text \<open>Other functions (lines 59--75): the function is appended to the read
  list of every state variable it reads, and to the write list of every
  state variable it writes, the latter only when \<open>can_send_eth()\<close> holds
  (the \<open>continue\<close> of line 70).\<close>

definition record_reads ::
  "sl_function \<Rightarrow> (string \<rightharpoonup> sl_function list) \<Rightarrow> (string \<rightharpoonup> sl_function list)" where
  "record_reads f m = fold (\<lambda>v m. dict_append m (sv_name v) f) (fn_state_variables_read f) m"

definition record_writes ::
  "sl_function \<Rightarrow> (string \<rightharpoonup> sl_function list) \<Rightarrow> (string \<rightharpoonup> sl_function list)" where
  "record_writes f m =
     fold (\<lambda>v m. if \<not> can_send_eth f then m else dict_append m (sv_name v) f)
       (fn_state_variables_written f) m"

definition stat_vars_function :: "sl_function \<Rightarrow> contract_info \<Rightarrow> contract_info" where
  "stat_vars_function f ci =
     (if is_ctor f
      then ci\<lparr>state_var_declare_function_map :=
                declare_in_constructor f (state_var_declare_function_map ci)\<rparr>
      else ci\<lparr>state_var_read_function_map := record_reads f (state_var_read_function_map ci),
              state_var_write_function_map := record_writes f (state_var_write_function_map ci)\<rparr>)"

definition stat_vars_info_in_contract :: "contract_info \<Rightarrow> contract_info" where
  "stat_vars_info_in_contract ci =
     fold stat_vars_function (contract_functions (ci_contract ci))
       (ci\<lparr>state_var_declare_function_map :=
             fold declare_stub (state_variables (ci_contract ci))
               (state_var_declare_function_map ci)\<rparr>)"

subsection \<open>\<open>_functions_with_transaction_call\<close>\<close>

text \<open>The textual test of line 81 on \<open>str(node.expression)\<close>.\<close>

definition is_transfer_expr :: "string option \<Rightarrow> bool" where
  "is_transfer_expr e \<longleftrightarrow>
     py_contains ''.transfer('' (py_str_opt e) \<or> py_contains ''.send('' (py_str_opt e)"

definition send_entry_of :: "sl_function \<Rightarrow> sl_node \<Rightarrow> send_entry" where
  "send_entry_of f n =
     \<lparr>se_id = fn_id f, se_name = fn_name f, se_function = f,
      se_exp = node_expression n, se_node = n\<rparr>"

text \<open>Lines 81--89: the guard of line 82 probes the dict with the function's
  \<^emph>\<open>name\<close> while line 83 stores under its \<^emph>\<open>id\<close>.\<close>

definition send_node_step ::
  "sl_function \<Rightarrow> sl_node \<Rightarrow> (py_key \<rightharpoonup> send_entry) \<Rightarrow> (py_key \<rightharpoonup> send_entry)" where
  "send_node_step f n m =
     (if is_transfer_expr (node_expression n)
      then (if m (KeyStr (fn_name f)) = None then m(KeyInt (fn_id f) \<mapsto> send_entry_of f n) else m)
      else m)"

definition functions_with_transaction_call :: "contract_info \<Rightarrow> contract_info" where
  "functions_with_transaction_call ci =
     ci\<lparr>send_function_map :=
          fold (\<lambda>f. fold (send_node_step f) (fn_nodes f)) (contract_functions (ci_contract ci))
            (send_function_map ci)\<rparr>"

subsection \<open>Specification of the dicts, read off the contract\<close>

definition stub_decls :: "state_variable list \<Rightarrow> (string \<times> declare_entry) list" where
  "stub_decls vs =
     map (\<lambda>v. (sv_name v, DeclStub (sv_type v) (sv_type v @ '' '' @ sv_name v)))
       (filter (\<lambda>v. sv_expression v = None) vs)"

definition ctor_decls_of :: "sl_function \<Rightarrow> (string \<times> declare_entry) list" where
  "ctor_decls_of f =
     concat (map (\<lambda>n. map (\<lambda>v. (sv_name v, ctor_entry f n v)) (node_state_variables_written n))
       (fn_nodes f))"

definition ctor_decls :: "sl_function list \<Rightarrow> (string \<times> declare_entry) list" where
  "ctor_decls fs = concat (map (\<lambda>f. if is_ctor f then ctor_decls_of f else []) fs)"

definition readers :: "sl_function list \<Rightarrow> string \<Rightarrow> sl_function list" where
  "readers fs x =
     concat (map (\<lambda>f. if is_ctor f then []
                     else map (\<lambda>_. f) (filter (\<lambda>v. sv_name v = x) (fn_state_variables_read f))) fs)"

definition writers :: "sl_function list \<Rightarrow> string \<Rightarrow> sl_function list" where
  "writers fs x =
     concat (map (\<lambda>f. if is_ctor f \<or> \<not> can_send_eth f then []
                     else map (\<lambda>_. f) (filter (\<lambda>v. sv_name v = x) (fn_state_variables_written f))) fs)"

definition send_records :: "sl_function list \<Rightarrow> (py_key \<times> send_entry) list" where
  "send_records fs =
     concat (map (\<lambda>f. map (\<lambda>n. (KeyInt (fn_id f), send_entry_of f n))
                        (filter (\<lambda>n. is_transfer_expr (node_expression n)) (fn_nodes f))) fs)"

text \<open>A dict all of whose keys are \<open>int\<close>s.\<close>

definition int_keyed :: "(py_key \<rightharpoonup> 'v) \<Rightarrow> bool" where
  "int_keyed m \<longleftrightarrow> (\<forall>s. m (KeyStr s) = None)"

subsection \<open>Each pass touches only its own fields\<close>

lemma stat_vars_function_frame [simp]:
  "ci_contract (stat_vars_function f ci) = ci_contract ci"
  "structs_info (stat_vars_function f ci) = structs_info ci"
  "send_function_map (stat_vars_function f ci) = send_function_map ci"
  "funcid_2_graphid (stat_vars_function f ci) = funcid_2_graphid ci"
  by (simp_all add: stat_vars_function_def)

lemma fold_stat_vars_frame [simp]:
  "ci_contract (fold stat_vars_function fs ci) = ci_contract ci"
  "structs_info (fold stat_vars_function fs ci) = structs_info ci"
  "send_function_map (fold stat_vars_function fs ci) = send_function_map ci"
  "funcid_2_graphid (fold stat_vars_function fs ci) = funcid_2_graphid ci"
  by (induction fs arbitrary: ci) simp_all

subsection \<open>Closed forms of the passes\<close>

lemma fold_declare_stub:
  "fold declare_stub vs m = m ++ map_of (rev (stub_decls vs))"
proof -
  have "fold declare_stub vs m =
      fold (\<lambda>v m. m(sv_name v \<mapsto> DeclStub (sv_type v) (sv_type v @ '' '' @ sv_name v)))
        (filter (\<lambda>v. sv_expression v = None) vs) m"
    unfolding declare_stub_def [abs_def] by (rule fold_if_skip)
  then show ?thesis by (simp add: fold_map_upd stub_decls_def comp_def)
qed

lemma declare_in_constructor_eq:
  "declare_in_constructor f m = m ++ map_of (rev (ctor_decls_of f))"
  by (simp add: declare_in_constructor_def fold_nested_map_upd ctor_decls_of_def)

lemma record_reads_lookup:
  "record_reads f m x = opt_append (m x) (map (\<lambda>_. f) (filter (\<lambda>v. sv_name v = x) (fn_state_variables_read f)))"
  by (simp add: record_reads_def fold_dict_append)

lemma record_writes_lookup:
  "record_writes f m x =
     (if can_send_eth f
      then opt_append (m x) (map (\<lambda>_. f) (filter (\<lambda>v. sv_name v = x) (fn_state_variables_written f)))
      else m x)"
  by (simp add: record_writes_def fold_dict_append)

lemma fold_stat_vars_declare:
  "state_var_declare_function_map (fold stat_vars_function fs ci) =
     state_var_declare_function_map ci ++ map_of (rev (ctor_decls fs))"
  by (induction fs arbitrary: ci)
    (simp_all add: stat_vars_function_def ctor_decls_def declare_in_constructor_eq)

lemma fold_stat_vars_reads:
  "state_var_read_function_map (fold stat_vars_function fs ci) x =
     opt_append (state_var_read_function_map ci x) (readers fs x)"
  by (induction fs arbitrary: ci)
    (simp_all add: stat_vars_function_def readers_def record_reads_lookup)

lemma fold_stat_vars_writes:
  "state_var_write_function_map (fold stat_vars_function fs ci) x =
     opt_append (state_var_write_function_map ci x) (writers fs x)"
  by (induction fs arbitrary: ci)
    (simp_all add: stat_vars_function_def writers_def record_writes_lookup)

text \<open>Every key of \<open>send_function_map\<close> is an \<open>int\<close>, so the guard of
  line 82 never fails and each matching node overwrites the entry.\<close>

lemma send_node_step_int_keyed:
  "int_keyed m \<Longrightarrow>
     send_node_step f n m =
       (if is_transfer_expr (node_expression n) then m(KeyInt (fn_id f) \<mapsto> send_entry_of f n) else m)"
  by (simp add: send_node_step_def int_keyed_def)

lemma int_keyed_upd [simp]: "int_keyed (m(KeyInt i \<mapsto> v)) = int_keyed m"
  by (simp add: int_keyed_def)

lemma int_keyed_map_add_send:
  "int_keyed m \<Longrightarrow> int_keyed (m ++ map_of (rev (map (\<lambda>n. (KeyInt i, g n)) ns)))"
  by (auto simp: int_keyed_def map_add_def map_of_eq_None_iff split: option.splits)

lemma fold_send_nodes:
  "int_keyed m \<Longrightarrow>
     fold (send_node_step f) ns m =
       m ++ map_of (rev (map (\<lambda>n. (KeyInt (fn_id f), send_entry_of f n))
                           (filter (\<lambda>n. is_transfer_expr (node_expression n)) ns)))
     \<and> int_keyed (fold (send_node_step f) ns m)"
  by (induction ns arbitrary: m)
    (auto simp: send_node_step_int_keyed map_add_upd_left int_keyed_map_add_send)

lemma fold_send_functions:
  "int_keyed m \<Longrightarrow>
     fold (\<lambda>f. fold (send_node_step f) (fn_nodes f)) fs m = m ++ map_of (rev (send_records fs))"
proof (induction fs arbitrary: m)
  case Nil
  then show ?case by (simp add: send_records_def)
next
  case (Cons f fs)
  let ?m' = "fold (send_node_step f) (fn_nodes f) m"
  from fold_send_nodes [OF Cons.prems] have m': "?m' = m ++ map_of (rev (map (\<lambda>n. (KeyInt (fn_id f), send_entry_of f n))
                           (filter (\<lambda>n. is_transfer_expr (node_expression n)) (fn_nodes f))))"
    and k: "int_keyed ?m'" by blast+
  show ?case using Cons.IH [OF k] m' by (simp add: send_records_def map_add_assoc)
qed

subsection \<open>Properties of the extraction passes\<close>

text \<open>C4. \<open>_stat_vars_info_in_contract\<close> appends to the write list of a
  state variable \<open>x\<close> each non-constructor function that can send ether,
  once for every occurrence of \<open>x\<close> in its written variables, in the order
  of the contract's functions; functions that cannot send ether and
  constructors are never appended.\<close>

theorem stat_vars_write_map:
  "state_var_write_function_map (stat_vars_info_in_contract ci) x =
     opt_append (state_var_write_function_map ci x) (writers (contract_functions (ci_contract ci)) x)"
  by (simp add: stat_vars_info_in_contract_def fold_stat_vars_writes)

text \<open>C5. \<open>_stat_vars_info_in_contract\<close> appends to the read list of a state
  variable \<open>x\<close> each non-constructor function, once for every occurrence of
  \<open>x\<close> in its read variables, in the order of the contract's functions.\<close>

theorem stat_vars_read_map:
  "state_var_read_function_map (stat_vars_info_in_contract ci) x =
     opt_append (state_var_read_function_map ci x) (readers (contract_functions (ci_contract ci)) x)"
  by (simp add: stat_vars_info_in_contract_def fold_stat_vars_reads)

text \<open>C6. \<open>_stat_vars_info_in_contract\<close> declares every state variable
  without initialiser by a \<open>{type, exp}\<close> stub and then every state
  variable written by a constructor node by that node's expression, a later
  entry replacing an earlier one for the same name.\<close>

theorem stat_vars_declare_map:
  "state_var_declare_function_map (stat_vars_info_in_contract ci) =
     state_var_declare_function_map ci ++ map_of (rev (stub_decls (state_variables (ci_contract ci))))
       ++ map_of (rev (ctor_decls (contract_functions (ci_contract ci))))"
  by (simp add: stat_vars_info_in_contract_def fold_stat_vars_declare fold_declare_stub)

text \<open>C7. \<open>_functions_with_transaction_call\<close> on a dict whose keys are
  all ids: the guard of line 82 looks the function's name up in a dict keyed
  by ids, so it never stops an update; every node whose text contains
  \<open>.transfer(\<close> or \<open>.send(\<close> overwrites its function's entry, so the entry
  kept is the \<^emph>\<open>last\<close> matching node of the last function with that id,
  and the dict stays keyed by ids only.\<close>

theorem transaction_call_last_match:
  assumes "int_keyed (send_function_map ci)"
  shows "send_function_map (functions_with_transaction_call ci) =
           send_function_map ci ++ map_of (rev (send_records (contract_functions (ci_contract ci)))) \<and>
         int_keyed (send_function_map (functions_with_transaction_call ci))"
proof -
  have "send_function_map (functions_with_transaction_call ci) =
          send_function_map ci ++ map_of (rev (send_records (contract_functions (ci_contract ci))))"
    using fold_send_functions [OF assms] by (simp add: functions_with_transaction_call_def)
  moreover have "int_keyed (send_function_map ci ++ map_of (rev (send_records fs)))" for fs
    using assms by (auto simp: int_keyed_def map_add_def map_of_eq_None_iff send_records_def
        split: option.splits)
  ultimately show ?thesis by simp
qed

theorem transaction_call_last_match_witness:
  "int_keyed (send_function_map (init_contract_info ex_payout_contract)) \<and>
   send_function_map (functions_with_transaction_call (init_contract_info ex_payout_contract)) (KeyInt 7) =
     Some (send_entry_of ex_payout ex_pay2)"
proof -
  have h: "int_keyed (send_function_map (init_contract_info ex_payout_contract))"
    by (simp add: init_contract_info_def int_keyed_def)
  show ?thesis
    using transaction_call_last_match [OF h] h
    by (simp add: init_contract_info_def ex_payout_contract_def ex_payout_def send_records_def
        is_transfer_expr_def ex_pay1_def ex_pay2_def py_str_opt_def)
qed

text \<open>\<open>_struct_info\<close> maps every structure name to the last structure
  of that name in the contract's list.\<close>

theorem struct_info_map:
  "structs_info (struct_info ci) =
     structs_info ci ++ map_of (rev (map (\<lambda>s. (struct_name s, s)) (structures (ci_contract ci))))"
  by (simp add: struct_info_def fold_map_upd)

end
