(* ===== verification/Call_Graph.thy ===== *)
theory Call_Graph
  imports Contract_Info
begin

text \<open>
  \<open>ContractInfo._construct_call_graph\<close> (contract\_analyze.py, lines
  91--121).  The loop's local state (\<open>self.funcid_2_graphid\<close>,
  \<open>call_graph\<close>, \<open>node_id\<close>, \<open>edges\<close>, \<open>duplicate\<close>) is the record
  \<open>cg_state\<close>; \<open>cg_register\<close> is the ``assign a node id if new'' block
  that the code writes twice (lines 102--105 and 111--114); \<open>cg_call\<close> is
  one iteration of the inner loop and \<open>cg_function\<close> one iteration of the
  outer loop.  The abstract specification is stated over function ids:
  \<open>visit_seq\<close> lists the functions in the order the loops meet them,
  \<open>first_seen\<close> keeps the first occurrence of each id, and the call pairs
  are deduplicated the same way.  The refinement theorem says that the
  graph the code builds is that abstract graph with every function id
  replaced by its position in \<open>first_seen\<close>.
\<close>

subsection \<open>The code\<close>

record cg_state =
  cg_ids :: "nat \<rightharpoonup> nat"
  cg_graph :: digraph
  cg_next :: nat
  cg_edges :: "(nat \<times> nat) list"
  cg_dup :: "string set"

definition cg_register :: "nat \<Rightarrow> string \<Rightarrow> cg_state \<Rightarrow> cg_state" where
  "cg_register fid name st =
     (if cg_ids st fid = None
      then st\<lparr>cg_graph := nx_add_node (cg_next st) name fid (cg_graph st),
              cg_ids := (cg_ids st)(fid \<mapsto> cg_next st),
              cg_next := Suc (cg_next st)\<rparr>
      else st)"

definition cg_call :: "nat \<Rightarrow> call_target \<Rightarrow> cg_state \<Rightarrow> cg_state" where
  "cg_call from_node t st =
     (case t of
        CallSolidityFunction _ \<Rightarrow> st
      | CallFunction cid cname \<Rightarrow>
          (let st1 = cg_register cid cname st;
               to_node = the (cg_ids st1 cid);
               k = edge_key from_node to_node
           in if k \<notin> cg_dup st1
              then st1\<lparr>cg_dup := insert k (cg_dup st1),
                       cg_edges := cg_edges st1 @ [(from_node, to_node)]\<rparr>
              else st1))"

definition cg_function :: "sl_function \<Rightarrow> cg_state \<Rightarrow> cg_state" where
  "cg_function f st =
     (let st1 = cg_register (fn_id f) (fn_name f) st;
          from_node = the (cg_ids st1 (fn_id f))
      in fold (cg_call from_node) (internal_calls f) st1)"

definition construct_call_graph :: "contract_info \<Rightarrow> contract_info" where
  "construct_call_graph ci =
     (let c = ci_contract ci;
          st0 = \<lparr>cg_ids = funcid_2_graphid ci, cg_graph = nx_digraph (contract_name c),
                 cg_next = 0, cg_edges = [], cg_dup = {}\<rparr>;
          st = fold cg_function (contract_functions c) st0
      in ci\<lparr>funcid_2_graphid := cg_ids st,
            call_graph := Some (nx_add_edges_from (cg_edges st) (cg_graph st))\<rparr>)"

subsection \<open>The abstract specification\<close>

text \<open>The internal-call targets of a function that are functions
  (the \<open>isinstance\<close> test of line 110), as (id, name) pairs.\<close>

fun callee :: "call_target \<Rightarrow> (nat \<times> string) list" where
  "callee (CallFunction cid cname) = [(cid, cname)]"
| "callee (CallSolidityFunction _) = []"

definition callees :: "sl_function \<Rightarrow> (nat \<times> string) list" where
  "callees f = concat (map callee (internal_calls f))"

definition visit_seq :: "sl_function list \<Rightarrow> (nat \<times> string) list" where
  "visit_seq fs = concat (map (\<lambda>f. (fn_id f, fn_name f) # callees f) fs)"

definition call_pairs :: "sl_function list \<Rightarrow> (nat \<times> nat) list" where
  "call_pairs fs = concat (map (\<lambda>f. map (\<lambda>(cid, _). (fn_id f, cid)) (callees f)) fs)"

text \<open>Keep the first occurrence of each key, in order.\<close>

definition note_first :: "('a \<Rightarrow> 'k) \<Rightarrow> 'a \<Rightarrow> 'a list \<Rightarrow> 'a list" where
  "note_first key x s = (if key x \<in> set (map key s) then s else s @ [x])"

definition first_seen :: "('a \<Rightarrow> 'k) \<Rightarrow> 'a list \<Rightarrow> 'a list" where
  "first_seen key xs = fold (note_first key) xs []"

text \<open>The id a function receives: its position among the first-seen ids.\<close>

definition graph_index :: "(nat \<times> string) list \<Rightarrow> nat \<rightharpoonup> nat" where
  "graph_index s = map_of (zip (map fst s) [0..<length s])"

definition abs_nodes :: "(nat \<times> string) list \<Rightarrow> (nat \<times> node_attrs) list" where
  "abs_nodes s = zip [0..<length s] (map (\<lambda>(f, l). Some (l, f)) s)"

text \<open>The simulation relation between the loop state and the abstract
  state: the first-seen list of (id, name) pairs and the deduplicated list
  of call pairs met so far.\<close>

definition idx_pair :: "(nat \<times> string) list \<Rightarrow> nat \<times> nat \<Rightarrow> nat \<times> nat" where
  "idx_pair s e = (the (graph_index s (fst e)), the (graph_index s (snd e)))"

definition cg_rel :: "cg_state \<Rightarrow> (nat \<times> string) list \<Rightarrow> (nat \<times> nat) list \<Rightarrow> bool" where
  "cg_rel st s es \<longleftrightarrow>
     distinct (map fst s) \<and> cg_ids st = graph_index s \<and> cg_next st = length s \<and>
     g_nodes (cg_graph st) = abs_nodes s \<and> g_edges (cg_graph st) = [] \<and>
     distinct es \<and> (\<forall>e \<in> set es. fst e \<in> set (map fst s) \<and> snd e \<in> set (map fst s)) \<and>
     cg_edges st = map (idx_pair s) es \<and>
     cg_dup st = (\<lambda>e. edge_key (fst (idx_pair s e)) (snd (idx_pair s e))) ` set es"

subsection \<open>Facts about the abstract specification\<close>

lemma set_fold_note_first:
  "set (map key (fold (note_first key) xs s)) = set (map key s) \<union> set (map key xs)"
  by (induction xs arbitrary: s) (auto simp: note_first_def)

lemma distinct_fold_note_first:
  "distinct (map key s) \<Longrightarrow> distinct (map key (fold (note_first key) xs s))"
  by (induction xs arbitrary: s) (auto simp: note_first_def)

lemma set_first_seen_id [simp]: "set (first_seen id xs) = set xs"
  using set_fold_note_first [of id xs "[]"] by (simp add: first_seen_def)

lemma distinct_first_seen_id [simp]: "distinct (first_seen id xs)"
  using distinct_fold_note_first [of id "[]" xs] by (simp add: first_seen_def)

lemma fst_set_first_seen: "set (map fst (first_seen fst xs)) = set (map fst xs)"
  using set_fold_note_first [of fst xs "[]"] by (simp add: first_seen_def)

lemma distinct_first_seen_fst: "distinct (map fst (first_seen fst xs))"
  using distinct_fold_note_first [of fst "[]" xs] by (simp add: first_seen_def)

lemma graph_index_None [simp]: "graph_index s a = None \<longleftrightarrow> a \<notin> set (map fst s)"
  by (simp add: graph_index_def)

lemma graph_index_notin [simp]: "a \<notin> fst ` set s \<Longrightarrow> graph_index s a = None"
  by (simp add: graph_index_def)

lemma graph_index_in:
  assumes "a \<in> fst ` set s" obtains i where "graph_index s a = Some i"
  using assms by (cases "graph_index s a") auto

lemma graph_index_Some: "graph_index s a = Some i \<Longrightarrow> i < length s \<and> fst (s ! i) = a"
  by (auto simp: graph_index_def set_zip dest!: map_of_SomeD)

lemma graph_index_inj:
  "graph_index s a = Some i \<Longrightarrow> graph_index s b = Some i \<Longrightarrow> a = b"
  by (metis graph_index_Some)

lemma dom_graph_index [simp]: "dom (graph_index s) = fst ` set s"
  by (auto simp: dom_def)

lemma graph_index_snoc:
  assumes "a \<notin> set (map fst s)"
  shows "graph_index (s @ [(a, l)]) = (graph_index s)(a \<mapsto> length s)"
proof -
  have "graph_index (s @ [(a, l)]) = [a \<mapsto> length s] ++ graph_index s"
    by (simp add: graph_index_def)
  also have "\<dots> = graph_index s ++ [a \<mapsto> length s]"
    using assms by (intro map_add_comm) auto
  finally show ?thesis by simp
qed

lemma graph_index_note_first:
  "graph_index s a = Some i \<Longrightarrow> graph_index (note_first fst x s) a = Some i"
  by (cases x) (auto simp: note_first_def graph_index_snoc)

lemma abs_nodes_snoc:
  "abs_nodes (s @ [(a, l)]) = abs_nodes s @ [(length s, Some (l, a))]"
  by (simp add: abs_nodes_def)

lemma node_ids_abs_nodes [simp]: "map fst (abs_nodes s) = [0..<length s]"
  by (simp add: abs_nodes_def)

subsection \<open>Simulation of the loop by the specification\<close>

lemma idx_pair_note_first:
  assumes "fst e \<in> fst ` set s" and "snd e \<in> fst ` set s"
  shows "idx_pair (note_first fst x s) e = idx_pair s e"
proof -
  from assms obtain i j where "graph_index s (fst e) = Some i" "graph_index s (snd e) = Some j"
    by (auto elim!: graph_index_in)
  then show ?thesis by (simp add: idx_pair_def graph_index_note_first)
qed

lemma cg_rel_register:
  assumes rel: "cg_rel st s es"
  shows "cg_rel (cg_register fid name st) (note_first fst (fid, name) s) es"
proof (cases "fid \<in> set (map fst s)")
  case True
  with rel show ?thesis by (auto simp: cg_register_def note_first_def cg_rel_def)
next
  case False
  have fresh: "cg_next st \<notin> set (node_ids (cg_graph st))"
    using rel by (simp add: cg_rel_def node_ids_def)
  have keep: "idx_pair (s @ [(fid, name)]) e = idx_pair s e" if "e \<in> set es" for e
    using idx_pair_note_first [of e s "(fid, name)"] that False rel
    by (simp add: cg_rel_def note_first_def)
  from False rel fresh keep show ?thesis
    by (auto simp: cg_register_def note_first_def cg_rel_def add_node_fresh
        graph_index_snoc abs_nodes_snoc)
qed

lemma graph_index_note_first_self:
  "graph_index (note_first fst (fid, name) s) fid \<noteq> None"
  by (simp add: note_first_def)

text \<open>The deduplication test of line 117 decides membership of the
  abstract call pair, because the key and the id assignment are injective.\<close>

lemma edge_key_in_dup:
  assumes rel: "cg_rel st s es"
    and a: "a \<in> fst ` set s" and b: "b \<in> fst ` set s"
  shows "edge_key (fst (idx_pair s (a, b))) (snd (idx_pair s (a, b))) \<in> cg_dup st
           \<longleftrightarrow> (a, b) \<in> set es"
proof -
  have inj: "e = (a, b)" if "e \<in> set es" and "idx_pair s e = idx_pair s (a, b)" for e
  proof -
    from that rel have "fst e \<in> fst ` set s" "snd e \<in> fst ` set s"
      by (auto simp: cg_rel_def)
    then obtain i j where "graph_index s (fst e) = Some i" "graph_index s (snd e) = Some j"
      by (auto elim!: graph_index_in)
    moreover from a b obtain i' j' where "graph_index s a = Some i'" "graph_index s b = Some j'"
      by (auto elim!: graph_index_in)
    ultimately show ?thesis using that(2)
      by (cases e) (auto simp: idx_pair_def dest: graph_index_inj)
  qed
  from rel have "edge_key (fst (idx_pair s (a, b))) (snd (idx_pair s (a, b))) \<in> cg_dup st
      \<longleftrightarrow> (\<exists>e \<in> set es. idx_pair s e = idx_pair s (a, b))"
    by (simp add: cg_rel_def image_iff prod_eq_iff eq_commute)
  also have "\<dots> \<longleftrightarrow> (a, b) \<in> set es"
    using inj by blast
  finally show ?thesis .
qed

lemma graph_index_fold_note_first:
  "graph_index s a = Some i \<Longrightarrow> graph_index (fold (note_first fst) xs s) a = Some i"
  by (induction xs arbitrary: s) (simp_all add: graph_index_note_first)

lemma cg_rel_call:
  assumes rel: "cg_rel st s es" and fr: "graph_index s fid = Some fr"
  shows "cg_rel (cg_call fr t st) (fold (note_first fst) (callee t) s)
           (fold (note_first id) (map (\<lambda>(cid, _). (fid, cid)) (callee t)) es)"
proof (cases t)
  case (CallSolidityFunction x)
  then show ?thesis using rel by (simp add: cg_call_def)
next
  case (CallFunction cid cname)
  let ?s1 = "note_first fst (cid, cname) s"
  define st1 where "st1 = cg_register cid cname st"
  have rel1: "cg_rel st1 ?s1 es"
    unfolding st1_def by (rule cg_rel_register [OF rel])
  have fid1: "graph_index ?s1 fid = Some fr"
    using fr by (rule graph_index_note_first)
  obtain to where to: "graph_index ?s1 cid = Some to"
    using graph_index_note_first_self [of cid cname s] by blast
  have ids1: "cg_ids st1 = graph_index ?s1"
    using rel1 by (simp add: cg_rel_def)
  have pair: "idx_pair ?s1 (fid, cid) = (fr, to)"
    by (simp add: idx_pair_def fid1 to)
  have a: "fid \<in> fst ` set ?s1" and b: "cid \<in> fst ` set ?s1"
    using fid1 to graph_index_None by (metis option.distinct(1) set_map)+
  have dup: "edge_key fr to \<in> cg_dup st1 \<longleftrightarrow> (fid, cid) \<in> set es"
    using edge_key_in_dup [OF rel1 a b] by (simp add: pair)
  have call: "cg_call fr t st =
      (if edge_key fr to \<notin> cg_dup st1
       then st1\<lparr>cg_dup := insert (edge_key fr to) (cg_dup st1),
                cg_edges := cg_edges st1 @ [(fr, to)]\<rparr>
       else st1)"
    by (simp add: cg_call_def CallFunction Let_def st1_def [symmetric] ids1 to)
  show ?thesis
  proof (cases "(fid, cid) \<in> set es")
    case True
    with call dup rel1 show ?thesis
      by (simp add: CallFunction note_first_def)
  next
    case False
    have "cg_rel (st1\<lparr>cg_dup := insert (edge_key fr to) (cg_dup st1),
                     cg_edges := cg_edges st1 @ [(fr, to)]\<rparr>) ?s1 (es @ [(fid, cid)])"
      using rel1 False a b pair by (auto simp: cg_rel_def)
    with call dup False show ?thesis
      by (simp add: CallFunction note_first_def)
  qed
qed

lemma cg_rel_calls:
  assumes "cg_rel st s es" and "graph_index s fid = Some fr"
  shows "cg_rel (fold (cg_call fr) ts st) (fold (note_first fst) (concat (map callee ts)) s)
           (fold (note_first id) (map (\<lambda>(cid, _). (fid, cid)) (concat (map callee ts))) es)"
  using assms
proof (induction ts arbitrary: st s es)
  case Nil
  then show ?case by simp
next
  case (Cons t ts)
  have "cg_rel (cg_call fr t st) (fold (note_first fst) (callee t) s)
          (fold (note_first id) (map (\<lambda>(cid, _). (fid, cid)) (callee t)) es)"
    using Cons.prems by (rule cg_rel_call)
  moreover have "graph_index (fold (note_first fst) (callee t) s) fid = Some fr"
    using Cons.prems(2) by (rule graph_index_fold_note_first)
  ultimately show ?case using Cons.IH by (auto simp: id_def)
qed

lemma cg_rel_function:
  assumes rel: "cg_rel st s es"
  shows "cg_rel (cg_function f st) (fold (note_first fst) ((fn_id f, fn_name f) # callees f) s)
           (fold (note_first id) (map (\<lambda>(cid, _). (fn_id f, cid)) (callees f)) es)"
proof -
  let ?s1 = "note_first fst (fn_id f, fn_name f) s"
  have rel1: "cg_rel (cg_register (fn_id f) (fn_name f) st) ?s1 es"
    using rel by (rule cg_rel_register)
  obtain fr where fr: "graph_index ?s1 (fn_id f) = Some fr"
    using graph_index_note_first_self [of "fn_id f" "fn_name f" s] by blast
  from rel1 fr have "cg_ids (cg_register (fn_id f) (fn_name f) st) (fn_id f) = Some fr"
    by (simp add: cg_rel_def)
  with cg_rel_calls [OF rel1 fr, of "internal_calls f"] show ?thesis
    by (simp add: cg_function_def callees_def)
qed

lemma cg_rel_functions:
  "cg_rel st s es \<Longrightarrow>
     cg_rel (fold cg_function fs st) (fold (note_first fst) (visit_seq fs) s)
       (fold (note_first id) (call_pairs fs) es)"
proof (induction fs arbitrary: st s es)
  case Nil
  then show ?case by (simp add: visit_seq_def call_pairs_def)
next
  case (Cons f fs)
  from Cons.IH [OF cg_rel_function [OF Cons.prems, of f]] show ?case
    by (auto simp: visit_seq_def call_pairs_def id_def)
qed

lemma cg_rel_init:
  "cg_rel \<lparr>cg_ids = Map.empty, cg_graph = nx_digraph name, cg_next = 0, cg_edges = [], cg_dup = {}\<rparr> [] []"
  by (simp add: cg_rel_def graph_index_def abs_nodes_def nx_digraph_def)

lemma idx_pair_inj_on:
  assumes "\<forall>e \<in> set es. fst e \<in> fst ` set s \<and> snd e \<in> fst ` set s"
  shows "inj_on (idx_pair s) (set es)"
proof (rule inj_onI)
  fix e e' assume "e \<in> set es" "e' \<in> set es" and eq: "idx_pair s e = idx_pair s e'"
  with assms obtain i j i' j' where
    "graph_index s (fst e) = Some i" "graph_index s (snd e) = Some j"
    "graph_index s (fst e') = Some i'" "graph_index s (snd e') = Some j'"
    by (metis graph_index_in)
  with eq show "e = e'" by (auto simp: idx_pair_def prod_eq_iff dest: graph_index_inj)
qed

text \<open>The loop of lines 100--119 followed by \<open>add_edges_from\<close> (line 120),
  started from an empty \<open>funcid_2_graphid\<close> as \<open>__init__\<close> leaves it.\<close>

lemma construct_call_graph_eq:
  assumes "funcid_2_graphid ci = Map.empty"
  defines "fs \<equiv> contract_functions (ci_contract ci)"
  defines "S \<equiv> first_seen fst (visit_seq fs)" and "E \<equiv> first_seen id (call_pairs fs)"
  shows "construct_call_graph ci =
           ci\<lparr>funcid_2_graphid := graph_index S,
              call_graph := Some \<lparr>graph_name = contract_name (ci_contract ci),
                                  g_nodes = abs_nodes S, g_edges = map (idx_pair S) E\<rparr>\<rparr>"
proof -
  let ?st0 = "\<lparr>cg_ids = funcid_2_graphid ci, cg_graph = nx_digraph (contract_name (ci_contract ci)),
               cg_next = 0, cg_edges = [], cg_dup = {}\<rparr>"
  let ?st = "fold cg_function fs ?st0"
  have rel: "cg_rel ?st S E"
    using cg_rel_functions [OF cg_rel_init [of "contract_name (ci_contract ci)"], of fs] assms(1)
    by (simp add: S_def E_def first_seen_def)
  have name: "graph_name (cg_graph ?st) = contract_name (ci_contract ci)"
  proof -
    have "graph_name (cg_graph (fold cg_function gs st)) = graph_name (cg_graph st)" for gs st
    proof (induction gs arbitrary: st)
      case (Cons g gs)
      have "graph_name (cg_graph (fold (cg_call fr) ts st')) = graph_name (cg_graph st')" for fr ts st'
        by (induction ts arbitrary: st')
          (simp_all add: cg_call_def cg_register_def nx_add_node_def Let_def split: call_target.splits)
      with Cons show ?case
        by (simp add: cg_function_def cg_register_def nx_add_node_def Let_def)
    qed simp
    then show ?thesis by (simp add: nx_digraph_def)
  qed
  have ends: "\<forall>e \<in> set E. fst e \<in> fst ` set S \<and> snd e \<in> fst ` set S"
    using rel by (simp add: cg_rel_def)
  have dist: "distinct (map (idx_pair S) E)"
    using rel idx_pair_inj_on [OF ends] by (simp add: cg_rel_def distinct_map)
  have in_nodes: "\<forall>(u, v) \<in> set (map (idx_pair S) E). u \<in> set (node_ids (cg_graph ?st)) \<and>
                     v \<in> set (node_ids (cg_graph ?st))"
  proof
    fix x assume "x \<in> set (map (idx_pair S) E)"
    then obtain e where e: "e \<in> set E" and x: "x = idx_pair S e" by auto
    with ends obtain i j where "graph_index S (fst e) = Some i" "graph_index S (snd e) = Some j"
      by (metis graph_index_in)
    with rel x show "case x of (u, v) \<Rightarrow> u \<in> set (node_ids (cg_graph ?st)) \<and> v \<in> set (node_ids (cg_graph ?st))"
      by (auto simp: idx_pair_def cg_rel_def node_ids_def dest!: graph_index_Some)
  qed
  have edges: "nx_add_edges_from (cg_edges ?st) (cg_graph ?st) =
      (cg_graph ?st)\<lparr>g_edges := map (idx_pair S) E\<rparr>"
    using add_edges_from_present [of "map (idx_pair S) E" "cg_graph ?st"] rel dist in_nodes
    by (simp add: cg_rel_def)
  from rel name edges show ?thesis
    by (simp add: construct_call_graph_def fs_def Let_def cg_rel_def)
qed

lemma abs_nodes_member:
  "(i, Some (l, a)) \<in> set (abs_nodes s) \<longleftrightarrow> i < length s \<and> s ! i = (a, l)"
proof
  assume "(i, Some (l, a)) \<in> set (abs_nodes s)"
  then show "i < length s \<and> s ! i = (a, l)"
    by (auto simp: abs_nodes_def set_zip split: prod.splits)
next
  assume "i < length s \<and> s ! i = (a, l)"
  then show "(i, Some (l, a)) \<in> set (abs_nodes s)"
    unfolding abs_nodes_def set_zip by (auto intro!: exI [of _ i])
qed

lemma abs_nodes_unique:
  assumes d: "distinct (map fst s)" and a: "a \<in> fst ` set s"
  shows "\<exists>!i. \<exists>l. (i, Some (l, a)) \<in> set (abs_nodes s)"
proof -
  from a obtain i where i: "i < length s" "fst (s ! i) = a"
    by (auto simp: in_set_conv_nth)
  show ?thesis
  proof (rule ex1I)
    show "\<exists>l. (i, Some (l, a)) \<in> set (abs_nodes s)"
      using i by (auto simp: abs_nodes_member intro: exI [of _ "snd (s ! i)"])
  next
    fix j assume "\<exists>l. (j, Some (l, a)) \<in> set (abs_nodes s)"
    then have j: "j < length s" "fst (s ! j) = a" by (auto simp: abs_nodes_member)
    with i d show "j = i" by (metis length_map nth_eq_iff_index_eq nth_map)
  qed
qed

lemma ran_graph_index:
  "distinct (map fst s) \<Longrightarrow> ran (graph_index s) = {0..<length s}"
  by (simp add: graph_index_def ran_map_of_zip)

lemma inj_on_graph_index: "inj_on (graph_index s) (dom (graph_index s))"
proof (rule inj_onI)
  fix a b assume a: "a \<in> dom (graph_index s)" and eq: "graph_index s a = graph_index s b"
  obtain i where "graph_index s a = Some i" using domD [OF a] by blast
  with eq have "graph_index s b = Some i" by simp
  with \<open>graph_index s a = Some i\<close> show "a = b" by (rule graph_index_inj)
qed

lemmas cg_spec_eval = first_seen_def visit_seq_def call_pairs_def callees_def note_first_def
  idx_pair_def graph_index_def abs_nodes_def

subsection \<open>Properties of \<open>_construct_call_graph\<close>\<close>

text \<open>C1. Refinement: started from the empty \<open>funcid_2_graphid\<close> that
  \<open>__init__\<close> leaves, \<open>_construct_call_graph\<close> gives node ids to
  function ids in the order the loops first meet them (a function of the
  list, or an internal-call target that is a function), labels each node
  with the name under which its id was first met, and adds one edge per
  distinct (caller, callee) pair, in order of first occurrence, between the
  node ids of the two functions.\<close>

theorem construct_call_graph_refinement:
  assumes "funcid_2_graphid ci = Map.empty"
  shows "construct_call_graph ci =
           ci\<lparr>funcid_2_graphid := graph_index (first_seen fst (visit_seq (contract_functions (ci_contract ci)))),
              call_graph := Some
                \<lparr>graph_name = contract_name (ci_contract ci),
                 g_nodes = abs_nodes (first_seen fst (visit_seq (contract_functions (ci_contract ci)))),
                 g_edges = map (idx_pair (first_seen fst (visit_seq (contract_functions (ci_contract ci)))))
                             (first_seen id (call_pairs (contract_functions (ci_contract ci))))\<rparr>\<rparr>"
  using assms by (rule construct_call_graph_eq)

theorem construct_call_graph_refinement_witness:
  "funcid_2_graphid (init_contract_info ex_contract) = Map.empty \<and>
   call_graph (construct_call_graph (init_contract_info ex_contract)) =
     Some \<lparr>graph_name = ''Ponzi'',
           g_nodes = [(0, Some (''constructor'', 1)), (1, Some (''A'', 2)), (2, Some (''B'', 3)),
                      (3, Some (''C'', 4))],
           g_edges = [(1, 2), (2, 3)]\<rparr>"
proof -
  have h: "funcid_2_graphid (init_contract_info ex_contract) = Map.empty"
    by (simp add: init_contract_info_def)
  show ?thesis
    using construct_call_graph_refinement [OF h] h
    by (simp add: init_contract_info_def ex_defs cg_spec_eval)
qed

text \<open>C2. Edge deduplication: the call graph holds exactly one edge for
  every ordered pair (caller, callee) of functions such that the caller's
  \<open>internal_calls\<close> contains the callee, however often the call occurs,
  between the node ids the graph assigns to the two functions.\<close>

theorem construct_call_graph_edges:
  assumes "funcid_2_graphid ci = Map.empty"
  shows "\<exists>g. call_graph (construct_call_graph ci) = Some g \<and> distinct (g_edges g) \<and>
           set (g_edges g) =
             (\<lambda>(a, b). (the (funcid_2_graphid (construct_call_graph ci) a),
                         the (funcid_2_graphid (construct_call_graph ci) b)))
               ` set (call_pairs (contract_functions (ci_contract ci)))"
proof -
  let ?fs = "contract_functions (ci_contract ci)"
  let ?S = "first_seen fst (visit_seq ?fs)" and ?E = "first_seen id (call_pairs ?fs)"
  have rel: "cg_rel (fold cg_function ?fs \<lparr>cg_ids = Map.empty, cg_graph = nx_digraph (contract_name (ci_contract ci)),
               cg_next = 0, cg_edges = [], cg_dup = {}\<rparr>) ?S ?E"
    using cg_rel_functions [OF cg_rel_init] by (simp add: first_seen_def)
  then have ends: "\<forall>e \<in> set ?E. fst e \<in> fst ` set ?S \<and> snd e \<in> fst ` set ?S"
    by (simp add: cg_rel_def)
  have "distinct (map (idx_pair ?S) ?E)"
    using idx_pair_inj_on [OF ends] by (simp add: distinct_map)
  moreover have "idx_pair ?S = (\<lambda>(a, b). (the (graph_index ?S a), the (graph_index ?S b)))"
    by (auto simp: idx_pair_def)
  ultimately show ?thesis
    using construct_call_graph_eq [OF assms] by simp
qed

theorem construct_call_graph_edges_witness:
  "funcid_2_graphid (init_contract_info ex_contract) = Map.empty \<and>
   call_pairs (contract_functions ex_contract) = [(2, 3), (2, 3), (3, 4)] \<and>
   (\<exists>g. call_graph (construct_call_graph (init_contract_info ex_contract)) = Some g \<and>
        distinct (g_edges g) \<and> set (g_edges g) = {(1, 2), (2, 3)})"
proof -
  have h: "funcid_2_graphid (init_contract_info ex_contract) = Map.empty"
    by (simp add: init_contract_info_def)
  show ?thesis
    using construct_call_graph_edges [OF h] h
    by (simp add: init_contract_info_def ex_defs cg_spec_eval construct_call_graph_eq eval_nat_numeral)
qed

text \<open>C3. Node ids: every function of the contract is exactly one node of
  the call graph; the nodes are numbered \<open>0, 1, ...\<close> in insertion order;
  \<open>funcid_2_graphid\<close> is defined exactly on the ids of the functions and
  of their internal-call targets, is injective, and its values are the
  node ids.\<close>

theorem construct_call_graph_nodes:
  assumes "funcid_2_graphid ci = Map.empty"
  shows "\<exists>g. call_graph (construct_call_graph ci) = Some g \<and>
           node_ids g = [0..<length (g_nodes g)] \<and>
           dom (funcid_2_graphid (construct_call_graph ci)) =
             fst ` set (visit_seq (contract_functions (ci_contract ci))) \<and>
           ran (funcid_2_graphid (construct_call_graph ci)) = set (node_ids g) \<and>
           inj_on (funcid_2_graphid (construct_call_graph ci))
             (dom (funcid_2_graphid (construct_call_graph ci))) \<and>
           (\<forall>f \<in> set (contract_functions (ci_contract ci)).
              \<exists>!i. \<exists>l. (i, Some (l, fn_id f)) \<in> set (g_nodes g))"
proof -
  let ?fs = "contract_functions (ci_contract ci)"
  let ?S = "first_seen fst (visit_seq ?fs)"
  have d: "distinct (map fst ?S)" by (rule distinct_first_seen_fst)
  have keys: "fst ` set ?S = fst ` set (visit_seq ?fs)"
    using fst_set_first_seen [of "visit_seq ?fs"] by simp
  have fn_in: "fn_id f \<in> fst ` set ?S" if "f \<in> set ?fs" for f
    using that keys by (force simp: visit_seq_def)
  let ?g = "\<lparr>graph_name = contract_name (ci_contract ci), g_nodes = abs_nodes ?S,
             g_edges = map (idx_pair ?S) (first_seen id (call_pairs ?fs))\<rparr>"
  have cg: "call_graph (construct_call_graph ci) = Some ?g"
    and ids: "funcid_2_graphid (construct_call_graph ci) = graph_index ?S"
    using construct_call_graph_eq [OF assms] by simp_all
  have "node_ids ?g = [0..<length (g_nodes ?g)]"
    by (simp add: node_ids_def abs_nodes_def)
  moreover have "ran (graph_index ?S) = set (node_ids ?g)"
    using d by (simp add: ran_graph_index node_ids_def)
  moreover have "\<forall>f \<in> set ?fs. \<exists>!i. \<exists>l. (i, Some (l, fn_id f)) \<in> set (g_nodes ?g)"
    using abs_nodes_unique [OF d] fn_in by simp
  ultimately show ?thesis
    using cg ids keys inj_on_graph_index [of ?S] by simp
qed

theorem construct_call_graph_nodes_witness:
  "funcid_2_graphid (init_contract_info ex_contract) = Map.empty \<and>
   (\<exists>g. call_graph (construct_call_graph (init_contract_info ex_contract)) = Some g \<and>
        node_ids g = [0, 1, 2, 3] \<and>
        ran (funcid_2_graphid (construct_call_graph (init_contract_info ex_contract))) = {0, 1, 2, 3})"
proof -
  have h: "funcid_2_graphid (init_contract_info ex_contract) = Map.empty"
    by (simp add: init_contract_info_def)
  show ?thesis
    using construct_call_graph_nodes [OF h] h
    by (simp add: init_contract_info_def ex_defs cg_spec_eval construct_call_graph_eq
        node_ids_def eval_nat_numeral upt_rec)
qed

text \<open>A contract without functions yields a call graph without nodes
  and edges (named after the contract), and an empty \<open>funcid_2_graphid\<close>.\<close>

theorem construct_call_graph_no_functions:
  assumes "funcid_2_graphid ci = Map.empty" and "contract_functions (ci_contract ci) = []"
  shows "call_graph (construct_call_graph ci) = Some (nx_digraph (contract_name (ci_contract ci))) \<and>
         funcid_2_graphid (construct_call_graph ci) = Map.empty"
  using construct_call_graph_eq [OF assms(1)] assms(2)
  by (simp add: nx_digraph_def cg_spec_eval)

theorem construct_call_graph_no_functions_witness:
  "funcid_2_graphid (init_contract_info ex_empty_contract) = Map.empty \<and>
   contract_functions (ci_contract (init_contract_info ex_empty_contract)) = [] \<and>
   g_nodes (the (call_graph (construct_call_graph (init_contract_info ex_empty_contract)))) = [] \<and>
   g_edges (the (call_graph (construct_call_graph (init_contract_info ex_empty_contract)))) = []"
proof -
  let ?ci = "init_contract_info ex_empty_contract"
  have h1: "funcid_2_graphid ?ci = Map.empty" and h2: "contract_functions (ci_contract ?ci) = []"
    by (simp_all add: init_contract_info_def ex_empty_contract_def)
  show ?thesis
    using construct_call_graph_no_functions [OF h1 h2] h1 h2
    by (simp add: nx_digraph_def)
qed

end
