(* ===== verification/Contract_Analyze.thy ===== *)
theory Contract_Analyze
  imports Call_Graph
begin

text \<open>
  \<open>ContractInfo.contract_info_analyze\<close> (lines 123--127) runs the four
  passes in the code's order, and the constructor \<open>ContractInfo(contract)\<close>
  (lines 9--29) runs it on the freshly initialised object.  This theory
  composes the closed forms of \<open>Contract_Info\<close> and \<open>Call_Graph\<close> into
  the contents of every field of \<open>ContractInfo(c)\<close>, and states the
  properties of the whole analyser.
\<close>

subsection \<open>The code\<close>

definition contract_info_analyze :: "contract_info \<Rightarrow> contract_info" where
  "contract_info_analyze ci =
     construct_call_graph (functions_with_transaction_call (stat_vars_info_in_contract (struct_info ci)))"

definition ContractInfo :: "sl_contract \<Rightarrow> contract_info" where
  "ContractInfo c = contract_info_analyze (init_contract_info c)"

subsection \<open>Each pass touches only its own fields\<close>

lemma construct_call_graph_frame [simp]:
  "structs_info (construct_call_graph ci) = structs_info ci"
  "send_function_map (construct_call_graph ci) = send_function_map ci"
  "state_var_declare_function_map (construct_call_graph ci) = state_var_declare_function_map ci"
  "state_var_read_function_map (construct_call_graph ci) = state_var_read_function_map ci"
  "state_var_write_function_map (construct_call_graph ci) = state_var_write_function_map ci"
  "ci_contract (construct_call_graph ci) = ci_contract ci"
  by (simp_all add: construct_call_graph_def Let_def)

lemma pass_fields [simp]:
  "ci_contract (struct_info ci) = ci_contract ci"
  "ci_contract (stat_vars_info_in_contract ci) = ci_contract ci"
  "ci_contract (functions_with_transaction_call ci) = ci_contract ci"
  "funcid_2_graphid (struct_info ci) = funcid_2_graphid ci"
  "funcid_2_graphid (stat_vars_info_in_contract ci) = funcid_2_graphid ci"
  "funcid_2_graphid (functions_with_transaction_call ci) = funcid_2_graphid ci"
  by (simp_all add: struct_info_def stat_vars_info_in_contract_def functions_with_transaction_call_def)

subsection \<open>The dicts of \<open>ContractInfo(contract)\<close>\<close>

lemma analyze_stages:
  "ci_contract (functions_with_transaction_call (stat_vars_info_in_contract (struct_info (init_contract_info c)))) = c"
  "funcid_2_graphid (functions_with_transaction_call (stat_vars_info_in_contract (struct_info (init_contract_info c)))) = Map.empty"
  by (simp_all add: init_contract_info_def)

lemma ContractInfo_structs:
  "structs_info (ContractInfo c) = map_of (rev (map (\<lambda>s. (struct_name s, s)) (structures c)))"
  by (simp add: ContractInfo_def contract_info_analyze_def functions_with_transaction_call_def
      stat_vars_info_in_contract_def struct_info_def init_contract_info_def fold_map_upd)

lemma ContractInfo_declare:
  "state_var_declare_function_map (ContractInfo c) =
     map_of (rev (stub_decls (state_variables c))) ++ map_of (rev (ctor_decls (contract_functions c)))"
  by (simp add: ContractInfo_def contract_info_analyze_def functions_with_transaction_call_def
      stat_vars_info_in_contract_def struct_info_def init_contract_info_def fold_stat_vars_declare
      fold_declare_stub)

lemma ContractInfo_reads:
  "state_var_read_function_map (ContractInfo c) x = list_opt (readers (contract_functions c) x)"
  by (simp add: ContractInfo_def contract_info_analyze_def functions_with_transaction_call_def
      stat_vars_info_in_contract_def struct_info_def init_contract_info_def fold_stat_vars_reads)

lemma ContractInfo_writes:
  "state_var_write_function_map (ContractInfo c) x = list_opt (writers (contract_functions c) x)"
  by (simp add: ContractInfo_def contract_info_analyze_def functions_with_transaction_call_def
      stat_vars_info_in_contract_def struct_info_def init_contract_info_def fold_stat_vars_writes)

lemma ContractInfo_send:
  "send_function_map (ContractInfo c) = map_of (rev (send_records (contract_functions c)))"
proof -
  have "int_keyed (Map.empty :: py_key \<rightharpoonup> send_entry)" by (simp add: int_keyed_def)
  from fold_send_functions [OF this, of "contract_functions c"] show ?thesis
    by (simp add: ContractInfo_def contract_info_analyze_def functions_with_transaction_call_def
        stat_vars_info_in_contract_def struct_info_def init_contract_info_def)
qed

lemma ContractInfo_graph:
  fixes c :: sl_contract
  defines "S \<equiv> first_seen fst (visit_seq (contract_functions c))"
    and "E \<equiv> first_seen id (call_pairs (contract_functions c))"
  shows "funcid_2_graphid (ContractInfo c) = graph_index S"
    and "call_graph (ContractInfo c) =
           Some \<lparr>graph_name = contract_name c, g_nodes = abs_nodes S, g_edges = map (idx_pair S) E\<rparr>"
  using construct_call_graph_eq [OF analyze_stages(2)] analyze_stages(1)
  by (simp_all add: ContractInfo_def contract_info_analyze_def S_def E_def)

lemma set_writers:
  "set (writers fs x) =
     {f \<in> set fs. \<not> is_ctor f \<and> can_send_eth f \<and> x \<in> sv_name ` set (fn_state_variables_written f)}"
  by (auto simp: writers_def split: if_splits)

lemma ctor_decls_keys:
  "fst ` set (ctor_decls fs) =
     {sv_name v |f n v. f \<in> set fs \<and> is_ctor f \<and> n \<in> set (fn_nodes f) \<and>
                        v \<in> set (node_state_variables_written n)}"
proof
  show "fst ` set (ctor_decls fs) \<subseteq> {sv_name v |f n v. f \<in> set fs \<and> is_ctor f \<and>
          n \<in> set (fn_nodes f) \<and> v \<in> set (node_state_variables_written n)}"
    by (auto simp: ctor_decls_def ctor_decls_of_def split: if_splits) blast
next
  show "{sv_name v |f n v. f \<in> set fs \<and> is_ctor f \<and> n \<in> set (fn_nodes f) \<and>
          v \<in> set (node_state_variables_written n)} \<subseteq> fst ` set (ctor_decls fs)"
  proof
    fix x assume "x \<in> {sv_name v |f n v. f \<in> set fs \<and> is_ctor f \<and> n \<in> set (fn_nodes f) \<and>
                          v \<in> set (node_state_variables_written n)}"
    then obtain f n v where *: "f \<in> set fs" "is_ctor f" "n \<in> set (fn_nodes f)"
        "v \<in> set (node_state_variables_written n)" "x = sv_name v" by blast
    then have "(sv_name v, ctor_entry f n v) \<in> set (ctor_decls fs)"
      by (auto simp: ctor_decls_def ctor_decls_of_def)
    with * show "x \<in> fst ` set (ctor_decls fs)" by force
  qed
qed

lemma ctor_decls_values:
  "(x, e) \<in> set (ctor_decls fs) \<Longrightarrow> \<exists>f ex s. e = DeclCtor f ex s \<and> is_ctor f \<and> f \<in> set fs"
  by (auto simp: ctor_decls_def ctor_decls_of_def ctor_entry_def split: if_splits)

lemma stub_decls_lookup:
  "map_of (rev (stub_decls vs)) x = Some e \<Longrightarrow> \<exists>t. e = DeclStub t (t @ '' '' @ x)"
  by (auto simp: stub_decls_def dest!: map_of_SomeD)

lemma stub_decls_keys:
  "fst ` set (stub_decls vs) = {sv_name v |v. v \<in> set vs \<and> sv_expression v = None}"
  by (force simp: stub_decls_def image_iff)

subsection \<open>Properties of the analyser\<close>

text \<open>C8. Every function in the write list of a state variable is a
  function of the contract that is not a constructor, can send ether, and
  writes that variable.\<close>

theorem ContractInfo_writers_send:
  assumes "state_var_write_function_map (ContractInfo c) x = Some fs"
    and "f \<in> set fs"
  shows "f \<in> set (contract_functions c) \<and> \<not> is_ctor f \<and> can_send_eth f \<and>
         x \<in> sv_name ` set (fn_state_variables_written f)"
  using assms by (auto simp: ContractInfo_writes set_writers)

theorem ContractInfo_writers_send_witness:
  "state_var_write_function_map (ContractInfo ex_contract) ''X'' = Some [ex_A] \<and> ex_A \<in> set [ex_A] \<and>
   can_send_eth ex_A"
proof -
  have h: "state_var_write_function_map (ContractInfo ex_contract) ''X'' = Some [ex_A]"
    by (simp add: ContractInfo_writes writers_def ex_defs is_ctor_def)
  show ?thesis using ContractInfo_writers_send [OF h] h by simp
qed

text \<open>C9. A state variable that only functions unable to send ether (or
  constructors) write never appears in \<open>state_var_write_function_map\<close>.\<close>

theorem ContractInfo_write_needs_send:
  assumes "\<forall>f \<in> set (contract_functions c).
             \<not> is_ctor f \<and> x \<in> sv_name ` set (fn_state_variables_written f) \<longrightarrow> \<not> can_send_eth f"
  shows "state_var_write_function_map (ContractInfo c) x = None"
proof -
  from assms have "set (writers (contract_functions c) x) = {}"
    by (auto simp: set_writers)
  then show ?thesis by (simp add: ContractInfo_writes)
qed

theorem ContractInfo_write_needs_send_witness:
  "state_var_write_function_map
     (ContractInfo \<lparr>contract_name = ''Ponzi'', structures = [], state_variables = [ex_X],
                    contract_functions = [ex_B, ex_C]\<rparr>) ''X'' = None"
proof -
  have h: "\<forall>f \<in> set (contract_functions \<lparr>contract_name = ''Ponzi'', structures = [], state_variables = [ex_X],
                    contract_functions = [ex_B, ex_C]\<rparr>).
      \<not> is_ctor f \<and> ''X'' \<in> sv_name ` set (fn_state_variables_written f) \<longrightarrow> \<not> can_send_eth f"
    by (simp add: ex_defs is_ctor_def)
  show ?thesis using ContractInfo_write_needs_send [OF h] .
qed

text \<open>C10. The two declaration shapes: a state variable written by a node of
  a constructor is declared by a \<open>{fun, expr, full_expr}\<close> entry of a
  constructor (replacing its stub if it had none); otherwise a variable
  without initialiser has a \<open>{type, exp}\<close> stub whose \<open>exp\<close> is its type
  and name; every other name has no entry.\<close>

theorem ContractInfo_declare_shapes:
  fixes c :: sl_contract and x :: string
  defines "W \<equiv> {sv_name v |f n v. f \<in> set (contract_functions c) \<and> is_ctor f \<and>
                  n \<in> set (fn_nodes f) \<and> v \<in> set (node_state_variables_written n)}"
    and "U \<equiv> {sv_name v |v. v \<in> set (state_variables c) \<and> sv_expression v = None}"
  shows "(x \<in> W \<longrightarrow> (\<exists>f e s. state_var_declare_function_map (ContractInfo c) x = Some (DeclCtor f e s) \<and>
                              is_ctor f \<and> f \<in> set (contract_functions c))) \<and>
         (x \<notin> W \<and> x \<in> U \<longrightarrow> (\<exists>t. state_var_declare_function_map (ContractInfo c) x = Some (DeclStub t (t @ '' '' @ x)))) \<and>
         (x \<notin> W \<and> x \<notin> U \<longrightarrow> state_var_declare_function_map (ContractInfo c) x = None)"
proof -
  let ?C = "map_of (rev (ctor_decls (contract_functions c)))"
  let ?T = "map_of (rev (stub_decls (state_variables c)))"
  have decl: "state_var_declare_function_map (ContractInfo c) x = (case ?C x of Some e \<Rightarrow> Some e | None \<Rightarrow> ?T x)"
    by (simp add: ContractInfo_declare map_add_def)
  have C_dom: "?C x = None \<longleftrightarrow> x \<notin> W"
    by (simp add: W_def map_of_eq_None_iff ctor_decls_keys [symmetric])
  have T_dom: "?T x = None \<longleftrightarrow> x \<notin> U"
    by (simp add: U_def map_of_eq_None_iff stub_decls_keys [symmetric])
  have C_val: "\<exists>f ex s. e = DeclCtor f ex s \<and> is_ctor f \<and> f \<in> set (contract_functions c)" if "?C x = Some e" for e
    using that by (auto dest!: map_of_SomeD ctor_decls_values)
  show ?thesis
    using decl C_dom T_dom C_val stub_decls_lookup [of "state_variables c" x]
    by (auto split: option.splits)
qed

theorem ContractInfo_declare_shapes_witness:
  "''Y'' \<in> {sv_name v |f n v. f \<in> set (contract_functions ex_contract) \<and> is_ctor f \<and>
                n \<in> set (fn_nodes f) \<and> v \<in> set (node_state_variables_written n)} \<and>
   (\<exists>f e s. state_var_declare_function_map (ContractInfo ex_contract) ''Y'' = Some (DeclCtor f e s)) \<and>
   ''X'' \<notin> {sv_name v |f n v. f \<in> set (contract_functions ex_contract) \<and> is_ctor f \<and>
                n \<in> set (fn_nodes f) \<and> v \<in> set (node_state_variables_written n)} \<and>
   ''X'' \<in> {sv_name v |v. v \<in> set (state_variables ex_contract) \<and> sv_expression v = None} \<and>
   (\<exists>t. state_var_declare_function_map (ContractInfo ex_contract) ''X'' = Some (DeclStub t (t @ '' '' @ ''X''))) \<and>
   ''Z'' \<notin> {sv_name v |f n v. f \<in> set (contract_functions ex_contract) \<and> is_ctor f \<and>
                n \<in> set (fn_nodes f) \<and> v \<in> set (node_state_variables_written n)} \<and>
   ''Z'' \<notin> {sv_name v |v. v \<in> set (state_variables ex_contract) \<and> sv_expression v = None} \<and>
   state_var_declare_function_map (ContractInfo ex_contract) ''Z'' = None"
proof -
  have W: "''Y'' \<in> {sv_name v |f n v. f \<in> set (contract_functions ex_contract) \<and> is_ctor f \<and>
                n \<in> set (fn_nodes f) \<and> v \<in> set (node_state_variables_written n)}"
    "''X'' \<notin> {sv_name v |f n v. f \<in> set (contract_functions ex_contract) \<and> is_ctor f \<and>
                n \<in> set (fn_nodes f) \<and> v \<in> set (node_state_variables_written n)}"
    "''Z'' \<notin> {sv_name v |f n v. f \<in> set (contract_functions ex_contract) \<and> is_ctor f \<and>
                n \<in> set (fn_nodes f) \<and> v \<in> set (node_state_variables_written n)}"
    unfolding ctor_decls_keys [symmetric]
    by (simp_all add: ex_defs ctor_decls_def ctor_decls_of_def is_ctor_def)
  have U: "''X'' \<in> {sv_name v |v. v \<in> set (state_variables ex_contract) \<and> sv_expression v = None}"
    "''Z'' \<notin> {sv_name v |v. v \<in> set (state_variables ex_contract) \<and> sv_expression v = None}"
    unfolding stub_decls_keys [symmetric]
    by (simp_all add: ex_defs stub_decls_def)
  show ?thesis
    using ContractInfo_declare_shapes [where c = ex_contract and x = "''Y''"]
      ContractInfo_declare_shapes [where c = ex_contract and x = "''X''"]
      ContractInfo_declare_shapes [where c = ex_contract and x = "''Z''"] W U
    by blast
qed

end
