(* ===== verification/Debug_Info.thy ===== *)
theory Debug_Info
  imports Contract_Analyze "HOL-Library.AList"
begin

text \<open>
  \<open>ContractInfo.debug_stat_var_info\<close> (contract\_analyze.py, lines
  129--153) prints the three state-variable dicts.  A Python dict iterates
  in insertion order, which the maps of \<open>contract_info\<close> do not record.
  This theory keeps the order: it runs the loops of
  \<open>_stat_vars_info_in_contract\<close> (lines 37--75) again on association
  lists, where \<^const>\<open>AList.update\<close> overwrites a key in place and appends
  a new key at the end, as a Python dict does, and proves that forgetting
  the order gives back the dicts of \<open>ContractInfo(c)\<close>.
  \<open>debug_stat_var_info\<close> then returns the lines it prints, one per
  \<open>print\<close> call (each followed by a newline on stdout); the Chinese
  labels are the UTF-8 bytes of the source's literals.
\<close>

subsection \<open>The dicts in insertion order\<close>

record ordered_dicts =
  od_declare :: "(string \<times> declare_entry) list"
  od_read :: "(string \<times> sl_function list) list"
  od_write :: "(string \<times> sl_function list) list"

text \<open>The create-or-append idiom of lines 61--64 and 72--75.\<close>

definition od_append :: "('k \<times> 'v list) list \<Rightarrow> 'k \<Rightarrow> 'v \<Rightarrow> ('k \<times> 'v list) list" where
  "od_append al k x =
     (case map_of al k of None \<Rightarrow> AList.update k [x] al | Some xs \<Rightarrow> AList.update k (xs @ [x]) al)"

definition declare_stub_od :: "state_variable \<Rightarrow> (string \<times> declare_entry) list \<Rightarrow> (string \<times> declare_entry) list" where
  "declare_stub_od v al =
     (if sv_expression v = None
      then AList.update (sv_name v) (DeclStub (sv_type v) (sv_type v @ '' '' @ sv_name v)) al
      else al)"

definition declare_in_constructor_od ::
  "sl_function \<Rightarrow> (string \<times> declare_entry) list \<Rightarrow> (string \<times> declare_entry) list" where
  "declare_in_constructor_od f al =
     fold (\<lambda>n. fold (\<lambda>v al. AList.update (sv_name v) (ctor_entry f n v) al) (node_state_variables_written n))
       (fn_nodes f) al"

definition record_reads_od ::
  "sl_function \<Rightarrow> (string \<times> sl_function list) list \<Rightarrow> (string \<times> sl_function list) list" where
  "record_reads_od f al = fold (\<lambda>v al. od_append al (sv_name v) f) (fn_state_variables_read f) al"

definition record_writes_od ::
  "sl_function \<Rightarrow> (string \<times> sl_function list) list \<Rightarrow> (string \<times> sl_function list) list" where
  "record_writes_od f al =
     fold (\<lambda>v al. if \<not> can_send_eth f then al else od_append al (sv_name v) f)
       (fn_state_variables_written f) al"

definition stat_vars_function_od :: "sl_function \<Rightarrow> ordered_dicts \<Rightarrow> ordered_dicts" where
  "stat_vars_function_od f D =
     (if is_ctor f then D\<lparr>od_declare := declare_in_constructor_od f (od_declare D)\<rparr>
      else D\<lparr>od_read := record_reads_od f (od_read D), od_write := record_writes_od f (od_write D)\<rparr>)"

text \<open>The three dicts after \<open>__init__\<close> (all empty) and
  \<open>_stat_vars_info_in_contract\<close>; the other passes do not touch them.\<close>

definition stat_vars_dicts :: "sl_contract \<Rightarrow> ordered_dicts" where
  "stat_vars_dicts c =
     fold stat_vars_function_od (contract_functions c)
       \<lparr>od_declare = fold declare_stub_od (state_variables c) [], od_read = [], od_write = []\<rparr>"

subsection \<open>\<open>debug_stat_var_info\<close>\<close>

definition tab :: char where
  "tab = CHR 0x09"

definition utf8 :: "nat list \<Rightarrow> string" where
  "utf8 bs = map char_of bs"

text \<open>The section headers and line labels, as UTF-8 bytes.\<close>

definition zh_declare_header :: string where
  "zh_declare_header = utf8 [0x3D, 0x3D, 0x3D, 0xE5, 0x85, 0xA8, 0xE5, 0xB1, 0x80, 0xE5, 0x8F, 0x98,
     0xE9, 0x87, 0x8F, 0xE5, 0xAE, 0x9A, 0xE4, 0xB9, 0x89, 0xE4, 0xBF, 0xA1, 0xE6, 0x81, 0xAF, 0xEF, 0xBC, 0x9A]"

definition zh_declare_var :: string where
  "zh_declare_var = utf8 [0xE5, 0xAE, 0x9A, 0xE4, 0xB9, 0x89, 0xE5, 0x8F, 0x98, 0xE9, 0x87, 0x8F]"

definition zh_read_header :: string where
  "zh_read_header = utf8 [0x3D, 0x3D, 0x3D, 0xE5, 0x85, 0xA8, 0xE5, 0xB1, 0x80, 0xE5, 0x8F, 0x98,
     0xE9, 0x87, 0x8F, 0xE8, 0xAF, 0xBB, 0xE4, 0xBF, 0xA1, 0xE6, 0x81, 0xAF, 0xEF, 0xBC, 0x9A]"

definition zh_read_var :: string where
  "zh_read_var = utf8 [0xE8, 0xAF, 0xBB, 0xE5, 0x8F, 0x98, 0xE9, 0x87, 0x8F]"

definition zh_write_header :: string where
  "zh_write_header = utf8 [0x3D, 0x3D, 0x3D, 0xE5, 0x85, 0xA8, 0xE5, 0xB1, 0x80, 0xE5, 0x8F, 0x98,
     0xE9, 0x87, 0x8F, 0xE5, 0x86, 0x99, 0xE4, 0xBF, 0xA1, 0xE6, 0x81, 0xAF, 0xEF, 0xBC, 0x9A]"

definition zh_write_var :: string where
  "zh_write_var = utf8 [0xE5, 0x86, 0x99, 0xE5, 0x8F, 0x98, 0xE9, 0x87, 0x8F]"

text \<open>\<open>entry["exp"]\<close> when \<open>"exp" in entry\<close>, and \<open>entry["full_expr"]\<close>
  when \<open>"fun" in entry\<close> (lines 135--139).\<close>

fun entry_exp :: "declare_entry \<Rightarrow> string option" where
  "entry_exp (DeclStub ty e) = Some e"
| "entry_exp (DeclCtor f e full) = None"

fun entry_fun_full_expr :: "declare_entry \<Rightarrow> string option" where
  "entry_fun_full_expr (DeclStub ty e) = None"
| "entry_fun_full_expr (DeclCtor f e full) = Some full"

definition declare_lines :: "string \<times> declare_entry \<Rightarrow> string list" where
  "declare_lines p =
     (case p of (var, entry) \<Rightarrow>
        [tab # zh_declare_var @ var] @
        (case entry_exp entry of Some x \<Rightarrow> [tab # tab # x] | None \<Rightarrow> []) @
        (case entry_fun_full_expr entry of Some x \<Rightarrow> [tab # tab # x] | None \<Rightarrow> []))"

definition users_lines :: "string \<Rightarrow> string \<times> sl_function list \<Rightarrow> string list" where
  "users_lines label p = (case p of (var, fs) \<Rightarrow> (label @ var) # map (\<lambda>f. tab # fn_name f) fs)"

definition debug_stat_var_info :: "ordered_dicts \<Rightarrow> string list" where
  "debug_stat_var_info D =
     [zh_declare_header] @ concat (map declare_lines (od_declare D)) @
     [zh_read_header] @ concat (map (users_lines zh_read_var) (od_read D)) @
     [zh_write_header] @ concat (map (users_lines zh_write_var) (od_write D))"

text \<open>The call on the object \<open>ContractInfo(c)\<close>.\<close>

definition debug_of_contract :: "sl_contract \<Rightarrow> string list" where
  "debug_of_contract c = debug_stat_var_info (stat_vars_dicts c)"

subsection \<open>Forgetting the order gives the dicts of the object\<close>

definition od_rel :: "ordered_dicts \<Rightarrow> contract_info \<Rightarrow> bool" where
  "od_rel D ci \<longleftrightarrow>
     map_of (od_declare D) = state_var_declare_function_map ci \<and>
     map_of (od_read D) = state_var_read_function_map ci \<and>
     map_of (od_write D) = state_var_write_function_map ci"

definition od_distinct :: "ordered_dicts \<Rightarrow> bool" where
  "od_distinct D \<longleftrightarrow>
     distinct (map fst (od_declare D)) \<and> distinct (map fst (od_read D)) \<and> distinct (map fst (od_write D))"

lemma map_of_od_append: "map_of (od_append al k x) = dict_append (map_of al) k x"
  by (simp add: od_append_def dict_append_def update_conv' split: option.split)

lemma distinct_od_append: "distinct (map fst al) \<Longrightarrow> distinct (map fst (od_append al k x))"
  by (simp add: od_append_def distinct_update split: option.split)

lemma map_of_declare_stub_od: "map_of (declare_stub_od v al) = declare_stub v (map_of al)"
  by (simp add: declare_stub_od_def declare_stub_def update_conv')

lemma map_of_fold_update:
  "map_of (fold (\<lambda>v al. AList.update (k v) (g v) al) vs al) = fold (\<lambda>v m. m(k v \<mapsto> g v)) vs (map_of al)"
  by (induction vs arbitrary: al) (simp_all add: update_conv')

lemma map_of_declare_in_constructor_od:
  "map_of (declare_in_constructor_od f al) = declare_in_constructor f (map_of al)"
  unfolding declare_in_constructor_od_def declare_in_constructor_def
  by (rule fold_commute_apply) (simp only: comp_def map_of_fold_update)

lemma map_of_record_reads_od: "map_of (record_reads_od f al) = record_reads f (map_of al)"
  unfolding record_reads_od_def record_reads_def
  by (rule fold_commute_apply) (auto simp: map_of_od_append)

lemma map_of_record_writes_od: "map_of (record_writes_od f al) = record_writes f (map_of al)"
  unfolding record_writes_od_def record_writes_def
  by (rule fold_commute_apply) (auto simp: map_of_od_append)

lemma od_rel_step: "od_rel D ci \<Longrightarrow> od_rel (stat_vars_function_od f D) (stat_vars_function f ci)"
  by (simp add: od_rel_def stat_vars_function_od_def stat_vars_function_def
      map_of_declare_in_constructor_od map_of_record_reads_od map_of_record_writes_od)

lemma od_rel_fold:
  "od_rel D ci \<Longrightarrow> od_rel (fold stat_vars_function_od fs D) (fold stat_vars_function fs ci)"
  by (induction fs arbitrary: D ci) (simp_all add: od_rel_step)

lemma od_rel_ContractInfo: "od_rel (stat_vars_dicts c) (ContractInfo c)"
proof -
  have "map_of (fold declare_stub_od vs al) = fold declare_stub vs (map_of al)" for vs al
    by (rule fold_commute_apply) (auto simp: map_of_declare_stub_od)
  then have "od_rel \<lparr>od_declare = fold declare_stub_od (state_variables c) [], od_read = [], od_write = []\<rparr>
               (struct_info (init_contract_info c)\<lparr>state_var_declare_function_map :=
                  fold declare_stub (state_variables c) (state_var_declare_function_map (struct_info (init_contract_info c)))\<rparr>)"
    by (simp add: od_rel_def struct_info_def init_contract_info_def)
  from od_rel_fold [OF this, of "contract_functions c"] show ?thesis
    by (simp add: od_rel_def stat_vars_dicts_def ContractInfo_def contract_info_analyze_def
        functions_with_transaction_call_def stat_vars_info_in_contract_def struct_info_def init_contract_info_def)
qed

lemma distinct_fold_keys:
  assumes "\<And>x al. distinct (map fst al) \<Longrightarrow> distinct (map fst (g x al))"
  shows "distinct (map fst al) \<Longrightarrow> distinct (map fst (fold g xs al))"
  by (induction xs arbitrary: al) (simp_all add: assms)

lemma od_distinct_step: "od_distinct D \<Longrightarrow> od_distinct (stat_vars_function_od f D)"
  unfolding od_distinct_def stat_vars_function_od_def declare_in_constructor_od_def
    record_reads_od_def record_writes_od_def
  by (auto intro!: distinct_fold_keys simp: distinct_update distinct_od_append)

lemma od_distinct_stat_vars_dicts: "od_distinct (stat_vars_dicts c)"
proof -
  have "distinct (map fst (fold declare_stub_od vs []))" for vs
    by (rule distinct_fold_keys) (simp_all add: declare_stub_od_def distinct_update)
  then have "od_distinct \<lparr>od_declare = fold declare_stub_od (state_variables c) [], od_read = [], od_write = []\<rparr>"
    by (simp add: od_distinct_def)
  moreover have "od_distinct D \<Longrightarrow> od_distinct (fold stat_vars_function_od fs D)" for D fs
    by (induction fs arbitrary: D) (simp_all add: od_distinct_step)
  ultimately show ?thesis by (simp add: stat_vars_dicts_def)
qed

lemma sum_list_distinct_keys:
  "distinct (map fst al) \<Longrightarrow>
   sum_list (map (\<lambda>p. g (fst p) (snd p)) al) = (\<Sum>k \<in> dom (map_of al). g k (the (map_of al k)))"
proof (induction al)
  case (Cons p al)
  obtain k v where p: "p = (k, v)" by fastforce
  with Cons.prems have k: "k \<notin> dom (map_of al)" by (simp add: dom_map_of_conv_image_fst)
  let ?m = "map_of ((k, v) # al)"
  have d: "dom ?m = insert k (dom (map_of al))" by simp
  have "(\<Sum>k' \<in> dom (map_of al). g k' (the (?m k'))) = (\<Sum>k' \<in> dom (map_of al). g k' (the (map_of al k')))"
    using k by (intro sum.cong) auto
  then have f1: "(\<Sum>k' \<in> dom ?m. g k' (the (?m k'))) = g k v + (\<Sum>k' \<in> dom (map_of al). g k' (the (map_of al k')))"
    unfolding d sum.insert [OF finite_dom_map_of k] by simp
  have f2: "sum_list (map (\<lambda>p. g (fst p) (snd p)) ((k, v) # al)) = g k v + sum_list (map (\<lambda>p. g (fst p) (snd p)) al)"
    by simp
  have IH: "sum_list (map (\<lambda>p. g (fst p) (snd p)) al) = (\<Sum>k \<in> dom (map_of al). g k (the (map_of al k)))"
    using Cons.IH Cons.prems by simp
  show ?case unfolding p using f1 f2 IH by (simp only:)
qed simp

lemma length_declare_lines: "length (declare_lines p) = 2"
  by (cases p; cases "snd p") (auto simp: declare_lines_def)

lemma length_users_lines: "length (users_lines l p) = Suc (length (snd p))"
  by (cases p) (simp add: users_lines_def)

lemma length_concat_declare_lines:
  "distinct (map fst al) \<Longrightarrow> length (concat (map declare_lines al)) = 2 * card (dom (map_of al))"
  using sum_list_distinct_keys [of al "\<lambda>k v. 2::nat"]
  by (simp add: length_concat comp_def length_declare_lines sum_list_triv)

lemma length_concat_users_lines:
  "distinct (map fst al) \<Longrightarrow>
   length (concat (map (users_lines l) al)) = (\<Sum>k \<in> dom (map_of al). Suc (length (the (map_of al k))))"
  using sum_list_distinct_keys [of al "\<lambda>k v. Suc (length v)"]
  by (simp add: length_concat comp_def length_users_lines)

text \<open>C31. \<open>debug_stat_var_info\<close> prints three headers, two lines for
  every declared variable (each entry holds exactly one of \<open>"exp"\<close> and
  \<open>"fun"\<close>), and one line for every read or written variable plus one per
  function in its list.\<close>

theorem debug_output_length:
  "length (Debug_Info.debug_of_contract c) =
     3 + 2 * card (dom (state_var_declare_function_map (ContractInfo c))) +
     (\<Sum>x \<in> dom (state_var_read_function_map (ContractInfo c)).
        Suc (length (the (state_var_read_function_map (ContractInfo c) x)))) +
     (\<Sum>x \<in> dom (state_var_write_function_map (ContractInfo c)).
        Suc (length (the (state_var_write_function_map (ContractInfo c) x))))"
proof -
  have r: "od_rel (stat_vars_dicts c) (ContractInfo c)" by (rule od_rel_ContractInfo)
  have d: "od_distinct (stat_vars_dicts c)" by (rule od_distinct_stat_vars_dicts)
  show ?thesis
    using r d unfolding od_rel_def od_distinct_def
    by (simp add: debug_of_contract_def debug_stat_var_info_def length_concat_declare_lines
        length_concat_users_lines)
qed

end
