(* ===== verification/Torch_Ops.thy ===== *)
theory Torch_Ops
  imports Prelude
begin

text \<open>
  The PyTorch operations that \<open>graph_neural_network.py\<close> composes, on
  exact reals (floating-point rounding is not modelled).  A tensor of shape
  (n, c) is a list of n rows of length c.  \<open>torch.nn.Linear\<close> keeps its
  \<open>in_features\<close> and raises on an input of another width; activations
  are \<open>torch.sigmoid\<close>, \<open>F.softplus\<close> (which returns its input above the
  threshold 20) and \<open>torch.relu\<close>.  \<open>BatchNorm1d\<close> normalises with the
  batch statistics and updates its running statistics in training mode, and
  uses the running statistics in evaluation mode; with a batch of one row it
  raises in training mode, as PyTorch does.  \<open>F.dropout\<close> takes the
  random keep-mask as an argument.  These are the library's documented
  behaviours; the repository only calls them.
\<close>

subsection \<open>Vectors and matrices\<close>

definition vadd :: "vec \<Rightarrow> vec \<Rightarrow> vec" where
  "vadd u v = map2 (+) u v"

definition vmul :: "vec \<Rightarrow> vec \<Rightarrow> vec" where
  "vmul u v = map2 (*) u v"

definition dot :: "vec \<Rightarrow> vec \<Rightarrow> real" where
  "dot u v = sum_list (map2 (*) u v)"

definition zeros :: "nat \<Rightarrow> vec" where
  "zeros c = replicate c 0"

definition mat_wf :: "nat \<Rightarrow> mat \<Rightarrow> bool" where
  "mat_wf c X \<longleftrightarrow> (\<forall>r \<in> set X. length r = c)"

subsection \<open>Activations\<close>

definition sigmoid :: "real \<Rightarrow> real" where
  "sigmoid x = 1 / (1 + exp (- x))"

definition softplus :: "real \<Rightarrow> real" where
  "softplus x = (if x > 20 then x else ln (1 + exp x))"

definition relu :: "real \<Rightarrow> real" where
  "relu x = max 0 x"

subsection \<open>\<open>torch.nn.Linear\<close>\<close>

record linear =
  lin_in :: nat
  lin_weight :: mat
  lin_bias :: "vec option"

definition linear_wf :: "nat \<Rightarrow> nat \<Rightarrow> linear \<Rightarrow> bool" where
  "linear_wf n_in n_out L \<longleftrightarrow>
     lin_in L = n_in \<and> length (lin_weight L) = n_out \<and> mat_wf n_in (lin_weight L) \<and>
     (case lin_bias L of None \<Rightarrow> True | Some b \<Rightarrow> length b = n_out)"

definition linear_apply :: "linear \<Rightarrow> vec \<Rightarrow> vec" where
  "linear_apply L x =
     (case lin_bias L of
        None \<Rightarrow> map (\<lambda>w. dot w x) (lin_weight L)
      | Some b \<Rightarrow> map2 (\<lambda>w c. dot w x + c) (lin_weight L) b)"

definition linear_forward :: "linear \<Rightarrow> vec \<Rightarrow> py_error + vec" where
  "linear_forward L x = (if length x = lin_in L then Inr (linear_apply L x) else Inl ShapeMismatch)"

definition linear_rows :: "linear \<Rightarrow> mat \<Rightarrow> py_error + mat" where
  "linear_rows L X = (if mat_wf (lin_in L) X then Inr (map (linear_apply L) X) else Inl ShapeMismatch)"

subsection \<open>\<open>torch.nn.BatchNorm1d\<close>\<close>

record batchnorm =
  bn_weight :: vec
  bn_bias :: vec
  running_mean :: vec
  running_var :: vec
  bn_eps :: real
  bn_momentum :: real

definition col :: "mat \<Rightarrow> nat \<Rightarrow> real list" where
  "col X j = map (\<lambda>r. r ! j) X"

definition mean :: "real list \<Rightarrow> real" where
  "mean xs = sum_list xs / real (length xs)"

definition var_biased :: "real list \<Rightarrow> real" where
  "var_biased xs = mean (map (\<lambda>x. (x - mean xs)\<^sup>2) xs)"

definition bn_affine :: "batchnorm \<Rightarrow> vec \<Rightarrow> vec \<Rightarrow> vec \<Rightarrow> vec" where
  "bn_affine b mu va r =
     map (\<lambda>j. (r ! j - mu ! j) / sqrt (va ! j + bn_eps b) * bn_weight b ! j + bn_bias b ! j)
       [0..<length r]"

definition bn_eval :: "batchnorm \<Rightarrow> mat \<Rightarrow> mat" where
  "bn_eval b X = map (bn_affine b (running_mean b) (running_var b)) X"

definition bn_train :: "batchnorm \<Rightarrow> mat \<Rightarrow> mat \<times> batchnorm" where
  "bn_train b X =
     (let c = length (bn_weight b); n = length X;
          mu = map (\<lambda>j. mean (col X j)) [0..<c];
          va = map (\<lambda>j. var_biased (col X j)) [0..<c];
          m = bn_momentum b
      in (map (bn_affine b mu va) X,
          b\<lparr>running_mean := map2 (\<lambda>r u. (1 - m) * r + m * u) (running_mean b) mu,
            running_var := map2 (\<lambda>r v. (1 - m) * r + m * (v * real n / real (n - 1)))
                             (running_var b) va\<rparr>))"

definition bn_forward :: "bool \<Rightarrow> batchnorm \<Rightarrow> mat \<Rightarrow> py_error + mat \<times> batchnorm" where
  "bn_forward training b X =
     (if \<not> mat_wf (length (bn_weight b)) X then Inl ShapeMismatch
      else if training then
        (if length X = 1 then Inl (ValueError ''Expected more than 1 value per channel when training'')
         else Inr (bn_train b X))
      else Inr (bn_eval b X, b))"

subsection \<open>\<open>F.dropout\<close> and \<open>global_max_pool\<close>\<close>

definition dropout :: "real \<Rightarrow> bool \<Rightarrow> bool list \<Rightarrow> vec \<Rightarrow> vec" where
  "dropout p training keep x =
     (if \<not> training then x
      else map2 (\<lambda>k v. if k then v / (1 - p) else 0) keep x)"

definition vmax :: "vec \<Rightarrow> vec \<Rightarrow> vec" where
  "vmax u v = map2 max u v"

text \<open>The rows of graph \<open>g\<close> reduced by elementwise maximum; a graph index
  with no node gives zeros (the fill value of the scatter).  The number of
  graphs is \<open>batch.max() + 1\<close>, which raises on an empty batch vector; the
  batch vector has one entry per row.\<close>

definition pool_rows :: "nat \<Rightarrow> mat \<Rightarrow> vec" where
  "pool_rows c rs = (case rs of [] \<Rightarrow> zeros c | r # rs' \<Rightarrow> fold vmax rs' r)"

definition global_max_pool :: "nat \<Rightarrow> mat \<Rightarrow> nat list \<Rightarrow> py_error + mat" where
  "global_max_pool c X batch =
     (if length batch \<noteq> length X then Inl ShapeMismatch
      else if batch = [] then Inl (RuntimeError ''max(): Expected reduction dim to be specified for input.numel() == 0'')
      else Inr (map (\<lambda>g. pool_rows c [X ! k. k \<leftarrow> [0..<length X], batch ! k = g]) [0..<Suc (Max (set batch))]))"

subsection \<open>Initialisation\<close>

text \<open>\<open>Linear(n_in, n_out, bias)\<close>: its weights are drawn at random by
  \<open>reset_parameters\<close>, so they are an argument: \<open>w k n_in n_out\<close> is the
  \<open>k\<close>-th draw of a weight matrix and a bias vector.  \<open>BatchNorm1d(c)\<close>
  starts deterministically with weight 1, bias 0, running mean 0, running
  variance 1, \<open>eps = 1e-5\<close> and momentum 0.1.\<close>

definition linear_init :: "(nat \<Rightarrow> nat \<Rightarrow> nat \<Rightarrow> mat \<times> vec) \<Rightarrow> nat \<Rightarrow> bool \<Rightarrow> nat \<Rightarrow> nat \<Rightarrow> linear" where
  "linear_init w k bias n_in n_out =
     \<lparr>lin_in = n_in, lin_weight = fst (w k n_in n_out),
      lin_bias = (if bias then Some (snd (w k n_in n_out)) else None)\<rparr>"

definition bn_init :: "nat \<Rightarrow> batchnorm" where
  "bn_init c = \<lparr>bn_weight = replicate c 1, bn_bias = replicate c 0, running_mean = replicate c 0,
     running_var = replicate c 1, bn_eps = 1 / 100000, bn_momentum = 1 / 10\<rparr>"

subsection \<open>Facts about the operations\<close>

named_theorems torch_shape "lengths of the results of tensor operations"

lemma sigmoid_pos: "0 < sigmoid x"
  by (simp add: sigmoid_def add_pos_pos)

lemma sigmoid_lt_one: "sigmoid x < 1"
proof -
  have "0 < exp (- x)" by simp
  then have pos: "0 < 1 + exp (- x)" and gt: "1 < 1 + exp (- x)" by linarith+
  from gt have "1 / (1 + exp (- x)) < 1" by (rule divide_less_eq_1_pos [OF pos, THEN iffD2])
  then show ?thesis by (simp add: sigmoid_def)
qed

lemma sigmoid_gt_half: "0 < x \<Longrightarrow> 1 / 2 < sigmoid x"
proof -
  assume "0 < x"
  then have "exp (- x) < 1" by simp
  moreover have "0 < exp (- x)" by simp
  ultimately have "0 < 1 + exp (- x)" "1 + exp (- x) < 2" by linarith+
  then show ?thesis by (simp add: sigmoid_def less_divide_eq)
qed

lemma sigmoid_zero [simp]: "sigmoid 0 = 1 / 2"
  by (simp add: sigmoid_def)

lemma softplus_pos: "0 < softplus x"
  by (simp add: softplus_def add_pos_pos)

lemma length_vadd [torch_shape]: "length (vadd u v) = min (length u) (length v)"
  by (simp add: vadd_def)

lemma length_vmul [torch_shape]: "length (vmul u v) = min (length u) (length v)"
  by (simp add: vmul_def)

lemma length_zeros [torch_shape]: "length (zeros c) = c"
  by (simp add: zeros_def)

lemma length_linear_apply [torch_shape]:
  "linear_wf n_in n_out L \<Longrightarrow> length (linear_apply L x) = n_out"
  by (cases "lin_bias L") (simp_all add: linear_wf_def linear_apply_def)

lemma nth_vadd: "k < length u \<Longrightarrow> k < length v \<Longrightarrow> vadd u v ! k = u ! k + v ! k"
  by (simp add: vadd_def)

lemma nth_vmul: "k < length u \<Longrightarrow> k < length v \<Longrightarrow> vmul u v ! k = u ! k * v ! k"
  by (simp add: vmul_def)

lemma vadd_zeros [simp]: "length v = c \<Longrightarrow> vadd (zeros c) v = v"
  by (simp add: vadd_def zeros_def list_eq_iff_nth_eq)

lemma length_bn_affine [torch_shape]: "length (bn_affine b mu va r) = length r"
  by (simp add: bn_affine_def)

lemma mat_wf_map2_vadd: "mat_wf c A \<Longrightarrow> mat_wf c x \<Longrightarrow> mat_wf c (map2 vadd A x)"
  unfolding mat_wf_def
proof
  fix r assume A: "\<forall>r \<in> set A. length r = c" and x: "\<forall>r \<in> set x. length r = c"
    and "r \<in> set (map2 vadd A x)"
  then obtain i where i: "i < length A" "i < length x" "r = vadd (A ! i) (x ! i)"
    by (auto simp: in_set_conv_nth)
  then have "length (A ! i) = c" "length (x ! i) = c"
    using A x by (simp_all add: nth_mem)
  with i show "length r = c" by (simp add: length_vadd)
qed

lemma bn_train_shape:
  assumes "mat_wf c X"
  shows "length (fst (bn_train b X)) = length X" "mat_wf c (fst (bn_train b X))"
  using assms by (auto simp: bn_train_def Let_def mat_wf_def length_bn_affine)

lemma bn_train_params:
  "bn_weight (snd (bn_train b X)) = bn_weight b"
  "bn_bias (snd (bn_train b X)) = bn_bias b"
  "length (running_mean (snd (bn_train b X))) = min (length (running_mean b)) (length (bn_weight b))"
  "length (running_var (snd (bn_train b X))) = min (length (running_var b)) (length (bn_weight b))"
  by (simp_all add: bn_train_def Let_def)

lemma bn_eval_shape:
  assumes "mat_wf c X"
  shows "length (bn_eval b X) = length X" "mat_wf c (bn_eval b X)"
  using assms by (auto simp: bn_eval_def mat_wf_def length_bn_affine)

lemma linear_init_wf:
  "length (fst (w k n_in n_out)) = n_out \<Longrightarrow> mat_wf n_in (fst (w k n_in n_out)) \<Longrightarrow>
   length (snd (w k n_in n_out)) = n_out \<Longrightarrow> linear_wf n_in n_out (linear_init w k bias n_in n_out)"
  by (simp add: linear_wf_def linear_init_def)

lemma bn_init_lengths:
  "length (bn_weight (bn_init c)) = c" "length (bn_bias (bn_init c)) = c"
  "length (running_mean (bn_init c)) = c" "length (running_var (bn_init c)) = c"
  by (simp_all add: bn_init_def)

lemma linear_rows_shape:
  "linear_wf n_in n_out L \<Longrightarrow> linear_rows L X = Inr Y \<Longrightarrow> length Y = length X \<and> mat_wf n_out Y"
  by (auto simp: linear_rows_def mat_wf_def length_linear_apply split: if_splits)

lemma linear_rows_ok:
  "linear_wf n_in n_out L \<Longrightarrow> mat_wf n_in X \<Longrightarrow> linear_rows L X = Inr (map (linear_apply L) X)"
  by (simp add: linear_rows_def linear_wf_def)

lemma length_fold_vmax:
  "\<forall>r \<in> set rs. length r = c \<Longrightarrow> length r0 = c \<Longrightarrow> length (fold vmax rs r0) = c"
  by (induction rs arbitrary: r0) (simp_all add: vmax_def)

lemma length_pool_rows: "\<forall>r \<in> set rs. length r = c \<Longrightarrow> length (pool_rows c rs) = c"
  by (cases rs) (simp_all add: pool_rows_def length_fold_vmax zeros_def)

lemma global_max_pool_shape:
  assumes "mat_wf c X" "global_max_pool c X batch = Inr P"
  shows "length P = Suc (Max (set batch)) \<and> mat_wf c P \<and> batch \<noteq> []"
proof -
  have "\<forall>r \<in> set [X ! k. k \<leftarrow> [0..<length X], batch ! k = g]. length r = c" for g
    using assms(1) by (auto simp: mat_wf_def)
  then show ?thesis
    using assms(2) by (auto simp: global_max_pool_def mat_wf_def length_pool_rows split: if_splits)
qed

end
