(* ===== verification/MYGNN.thy ===== *)
theory MYGNN
  imports Torch_Ops
begin

text \<open>
  \<open>class MYGNN(MessagePassing)\<close> (graph\_neural\_network.py, lines 103--169),
  the message-passing layer of the classifier.  A layer holds its channel
  count, its edge-feature width \<open>dim\<close>, the two \<open>Linear(channels + dim,
  channels)\<close> projections and an optional \<open>BatchNorm1d(channels)\<close>.  For an
  edge \<open>(j, i)\<close> of \<open>edge_index\<close> (source \<open>j\<close>, target \<open>i\<close>, PyG's
  default \<open>source_to_target\<close> flow, so \<open>x_i\<close> is the target's row),
  \<open>message\<close> concatenates \<open>x_i\<close> with the edge's features and returns
  \<open>sigmoid(line_attention z) * softplus(line_node z)\<close>; \<open>propagate\<close> with
  \<open>aggr='add'\<close> scatters the messages onto their targets
  (\<open>scatter_add\<close>, a loop over the edges); \<open>forward\<close> then applies the
  batch norm, if any, and adds the residual \<open>x[1]\<close> (which is \<open>x\<close>).

  \<open>agg_ref\<close> is the per-node specification of the aggregation and
  \<open>layer_spec\<close> the layer as the spec's algorithm describes it (sum of the
  incoming messages plus the node's own row).  The lemmas show that the
  scatter loop equals \<open>agg_ref\<close>, that the forward pass refines
  \<open>layer_spec\<close>, its shapes, its errors and its invariance under edge
  order; they also record where the code departs from the spec: messages
  see only the target's row, the batch norm comes before the residual, and
  training mode updates the layer's running statistics.
\<close>

record mygnn =
  gnn_channels :: nat
  gnn_dim :: nat
  line_attention :: linear
  line_node :: linear
  gnn_bn :: "batchnorm option"

text \<open>The shapes \<open>__init__\<close> gives a layer (lines 104--133).\<close>

definition mygnn_wf :: "mygnn \<Rightarrow> bool" where
  "mygnn_wf g \<longleftrightarrow>
     linear_wf (gnn_channels g + gnn_dim g) (gnn_channels g) (line_attention g) \<and>
     linear_wf (gnn_channels g + gnn_dim g) (gnn_channels g) (line_node g) \<and>
     (case gnn_bn g of None \<Rightarrow> True
      | Some b \<Rightarrow> length (bn_weight b) = gnn_channels g \<and> length (bn_bias b) = gnn_channels g \<and>
                  length (running_mean b) = gnn_channels g \<and> length (running_var b) = gnn_channels g)"

text \<open>\<open>message\<close> (lines 160--166).\<close>

definition gnn_message :: "mygnn \<Rightarrow> vec \<Rightarrow> vec" where
  "gnn_message g z =
     vmul (map sigmoid (linear_apply (line_attention g) z)) (map softplus (linear_apply (line_node g) z))"

text \<open>The edge features as one row per edge; without \<open>edge_attr\<close> the
  concatenation is \<open>x_i\<close> alone (line 162).\<close>

definition attr_rows :: "(nat \<times> nat) list \<Rightarrow> mat option \<Rightarrow> mat" where
  "attr_rows es ea = (case ea of None \<Rightarrow> replicate (length es) [] | Some A \<Rightarrow> A)"

definition edge_messages :: "mygnn \<Rightarrow> mat \<Rightarrow> (nat \<times> nat) list \<Rightarrow> mat option \<Rightarrow> (nat \<times> vec) list" where
  "edge_messages g x es ea =
     map (\<lambda>((j, i), a). (i, gnn_message g (x ! i @ a))) (zip es (attr_rows es ea))"

text \<open>The \<open>aggr='add'\<close> scatter: messages are added, one after the other,
  onto the row of their target.\<close>

definition scatter_add :: "nat \<Rightarrow> nat \<Rightarrow> (nat \<times> vec) list \<Rightarrow> mat" where
  "scatter_add n c ims = fold (\<lambda>(i, m) out. out[i := vadd (out ! i) m]) ims (replicate n (zeros c))"

definition agg_ref :: "nat \<Rightarrow> nat \<Rightarrow> (nat \<times> vec) list \<Rightarrow> mat" where
  "agg_ref n c ims = map (\<lambda>i. map (\<lambda>k. sum_list [m ! k. (i', m) \<leftarrow> ims, i' = i]) [0..<c]) [0..<n]"

text \<open>The checks PyTorch performs on the inputs: every endpoint indexes a
  row of \<open>x\<close>, \<open>edge_attr\<close> has one row of width \<open>dim\<close> per edge (or
  is absent when \<open>dim = 0\<close>), and the rows of \<open>x\<close> have \<open>channels\<close>
  entries.\<close>

definition edges_in_range :: "nat \<Rightarrow> (nat \<times> nat) list \<Rightarrow> bool" where
  "edges_in_range n es \<longleftrightarrow> (\<forall>(j, i) \<in> set es. j < n \<and> i < n)"

definition attrs_ok :: "nat \<Rightarrow> (nat \<times> nat) list \<Rightarrow> mat option \<Rightarrow> bool" where
  "attrs_ok d es ea \<longleftrightarrow>
     (case ea of None \<Rightarrow> d = 0 | Some A \<Rightarrow> length A = length es \<and> mat_wf d A)"

text \<open>\<open>forward\<close> (lines 142--158): the layer in training mode also returns
  its batch norm with updated running statistics.\<close>

definition mygnn_forward ::
  "bool \<Rightarrow> mygnn \<Rightarrow> mat \<Rightarrow> (nat \<times> nat) list \<Rightarrow> mat option \<Rightarrow> py_error + mat \<times> mygnn" where
  "mygnn_forward training g x es ea =
     (if \<not> edges_in_range (length x) es then Inl IndexError
      else if \<not> attrs_ok (gnn_dim g) es ea \<or> \<not> mat_wf (gnn_channels g) x then Inl ShapeMismatch
      else
        (let out = scatter_add (length x) (gnn_channels g) (edge_messages g x es ea)
         in case gnn_bn g of
              None \<Rightarrow> Inr (map2 vadd out x, g)
            | Some b \<Rightarrow>
                bind_err (bn_forward training b out)
                  (\<lambda>(out', b'). Inr (map2 vadd out' x, g\<lparr>gnn_bn := Some b'\<rparr>))))"

text \<open>\<open>__init__\<close> (lines 104--133): the two projections are
  \<open>Linear(channels + dim, channels, bias=bias)\<close>, drawn as the \<open>k\<close>-th and
  \<open>k+1\<close>-th initialiser draws, and the batch norm is \<open>BatchNorm1d(channels)\<close>
  when \<open>batch_norm\<close> is set.  \<open>reset_parameters\<close> re-draws the
  projections and resets the batch norm, which is the same shape.\<close>

definition mygnn_init ::
  "(nat \<Rightarrow> nat \<Rightarrow> nat \<Rightarrow> mat \<times> vec) \<Rightarrow> nat \<Rightarrow> nat \<Rightarrow> nat \<Rightarrow> bool \<Rightarrow> bool \<Rightarrow> mygnn" where
  "mygnn_init w k channels dim' batch_norm bias =
     \<lparr>gnn_channels = channels, gnn_dim = dim',
      line_attention = linear_init w k bias (channels + dim') channels,
      line_node = linear_init w (Suc k) bias (channels + dim') channels,
      gnn_bn = (if batch_norm then Some (bn_init channels) else None)\<rparr>"

subsection \<open>The layer as the spec describes it\<close>

text \<open>The sum of a list of vectors of width \<open>c\<close>.\<close>

definition vsum :: "nat \<Rightarrow> vec list \<Rightarrow> vec" where
  "vsum c vs = foldr vadd vs (zeros c)"

text \<open>The messages node \<open>i\<close> receives, one per edge whose target it is
  (steps 1--3 of the spec's algorithm), and the layer without batch norm as
  steps 4--5 describe it: the sum of the incoming messages plus the node's
  own row.\<close>

definition incoming :: "mygnn \<Rightarrow> mat \<Rightarrow> (nat \<times> nat) list \<Rightarrow> mat option \<Rightarrow> nat \<Rightarrow> vec list" where
  "incoming g x es ea i =
     [gnn_message g (x ! i' @ a). ((j, i'), a) \<leftarrow> zip es (attr_rows es ea), i' = i]"

definition layer_spec :: "mygnn \<Rightarrow> mat \<Rightarrow> (nat \<times> nat) list \<Rightarrow> mat option \<Rightarrow> mat" where
  "layer_spec g x es ea =
     map (\<lambda>i. vadd (vsum (gnn_channels g) (incoming g x es ea i)) (x ! i)) [0..<length x]"

text \<open>The in-degree of node \<open>i\<close>: the number of edges whose target it is.\<close>

definition indeg :: "(nat \<times> nat) list \<Rightarrow> nat \<Rightarrow> nat" where
  "indeg es i = length (filter (\<lambda>e. snd e = i) es)"

text \<open>Example layers for the witnesses: one channel, no edge features,
  weights 1 and bias 0; \<open>ex_bn\<close> is a freshly initialised
  \<open>BatchNorm1d(1)\<close> (weight 1, bias 0, running mean 0, running variance 1,
  \<open>eps = 1e-5\<close>, momentum 0.1).\<close>

definition ex_lin :: linear where
  "ex_lin = \<lparr>lin_in = 1, lin_weight = [[1]], lin_bias = Some [0]\<rparr>"

definition ex_bn :: batchnorm where
  "ex_bn = \<lparr>bn_weight = [1], bn_bias = [0], running_mean = [0], running_var = [1],
     bn_eps = 1 / 100000, bn_momentum = 1 / 10\<rparr>"

definition ex_gnn :: mygnn where
  "ex_gnn = \<lparr>gnn_channels = 1, gnn_dim = 0, line_attention = ex_lin, line_node = ex_lin,
     gnn_bn = None\<rparr>"

definition ex_gnn_bn :: mygnn where
  "ex_gnn_bn = ex_gnn\<lparr>gnn_bn := Some ex_bn\<rparr>"

lemmas ex_gnn_defs = ex_lin_def ex_bn_def ex_gnn_def ex_gnn_bn_def

subsection \<open>The aggregation\<close>

lemma agg_ref_entry:
  "[m ! k. (i', m) \<leftarrow> ims, i' = i] = map (\<lambda>p. snd p ! k) (filter (\<lambda>p. fst p = i) ims)"
  by (induction ims) auto

lemma agg_ref_perm:
  assumes "mset ims = mset ims'"
  shows "agg_ref n c ims = agg_ref n c ims'"
proof -
  note eq = sum_list_map_filter_mset [OF assms]
  show ?thesis unfolding agg_ref_def agg_ref_entry eq ..
qed

lemma agg_ref_Nil: "agg_ref n c [] = replicate n (zeros c)"
  by (simp add: agg_ref_def zeros_def map_replicate_const)
lemma agg_ref_snoc:
  assumes "i < n" "length m = c"
  shows "agg_ref n c (ims @ [(i, m)]) = (agg_ref n c ims)[i := vadd (agg_ref n c ims ! i) m]"
  using assms by (auto simp: agg_ref_def agg_ref_entry list_eq_iff_nth_eq nth_list_update vadd_def)

lemma scatter_add_eq_agg_ref:
  "\<forall>(i, m) \<in> set ims. i < n \<and> length m = c \<Longrightarrow> scatter_add n c ims = agg_ref n c ims"
proof (induction ims rule: rev_induct)
  case Nil
  then show ?case by (simp add: scatter_add_def agg_ref_Nil)
next
  case (snoc p ims)
  obtain i m where p: "p = (i, m)" by fastforce
  with snoc have "scatter_add n c (ims @ [p]) = (agg_ref n c ims)[i := vadd (agg_ref n c ims ! i) m]"
    by (simp add: scatter_add_def)
  with snoc p show ?case by (simp add: agg_ref_snoc)
qed

lemma length_agg_ref [torch_shape]: "length (agg_ref n c ims) = n"
  by (simp add: agg_ref_def)

lemma mat_wf_agg_ref: "mat_wf c (agg_ref n c ims)"
  by (auto simp: agg_ref_def mat_wf_def)

lemma mygnn_wf_linear_lengths:
  assumes "mygnn_wf g"
  shows "length (linear_apply (line_attention g) z) = gnn_channels g"
    and "length (linear_apply (line_node g) z) = gnn_channels g"
  using assms unfolding mygnn_wf_def by (metis length_linear_apply)+

lemma length_gnn_message [torch_shape]:
  "mygnn_wf g \<Longrightarrow> length (gnn_message g z) = gnn_channels g"
  by (simp add: gnn_message_def vmul_def mygnn_wf_linear_lengths)

lemma gnn_message_pos:
  "mygnn_wf g \<Longrightarrow> k < gnn_channels g \<Longrightarrow> 0 < gnn_message g z ! k"
  by (simp add: gnn_message_def vmul_def mygnn_wf_linear_lengths sigmoid_pos softplus_pos)

lemma edge_messages_targets:
  "edges_in_range n es \<Longrightarrow> mygnn_wf g \<Longrightarrow>
   \<forall>(i, m) \<in> set (edge_messages g x es ea). i < n \<and> length m = gnn_channels g"
  by (fastforce simp: edge_messages_def edges_in_range_def length_gnn_message dest: set_zip_leftD)


subsection \<open>The forward pass\<close>

lemma length_vsum: "\<forall>v \<in> set vs. length v = c \<Longrightarrow> length (vsum c vs) = c"
  by (induction vs) (simp_all add: vsum_def length_vadd length_zeros)

lemma nth_vsum:
  "\<forall>v \<in> set vs. length v = c \<Longrightarrow> k < c \<Longrightarrow> vsum c vs ! k = sum_list (map (\<lambda>v. v ! k) vs)"
proof (induction vs)
  case Nil
  then show ?case by (simp add: vsum_def zeros_def)
next
  case (Cons v vs)
  then have "length (vsum c vs) = c" by (simp add: length_vsum)
  with Cons show ?case by (simp add: vsum_def nth_vadd)
qed

lemma incoming_eq:
  "incoming g x es ea i = map snd (filter (\<lambda>p. fst p = i) (edge_messages g x es ea))"
proof -
  have "[gnn_message g (x ! i' @ a). ((j, i'), a) \<leftarrow> zs, i' = i] =
        map snd (filter (\<lambda>p. fst p = i) (map (\<lambda>((j, i), a). (i, gnn_message g (x ! i @ a))) zs))"
    for zs :: "((nat \<times> nat) \<times> vec) list"
    by (induction zs) auto
  then show ?thesis by (simp add: incoming_def edge_messages_def)
qed

lemma agg_ref_row:
  assumes "i < n" "\<forall>(i', m) \<in> set ims. length m = c"
  shows "agg_ref n c ims ! i = vsum c (map snd (filter (\<lambda>p. fst p = i) ims))"
proof -
  have lens: "\<forall>v \<in> set (map snd (filter (\<lambda>p. fst p = i) ims)). length v = c"
    using assms(2) by auto
  show ?thesis
    using assms(1) lens
    by (simp add: agg_ref_def agg_ref_entry list_eq_iff_nth_eq length_vsum nth_vsum comp_def)
qed

lemma mygnn_forward_eq:
  assumes "mygnn_wf g" "edges_in_range (length x) es" "attrs_ok (gnn_dim g) es ea"
    "mat_wf (gnn_channels g) x"
  shows "mygnn_forward tr g x es ea =
    (let out = agg_ref (length x) (gnn_channels g) (edge_messages g x es ea)
     in case gnn_bn g of
          None \<Rightarrow> Inr (map2 vadd out x, g)
        | Some b \<Rightarrow> bind_err (bn_forward tr b out)
                     (\<lambda>(out', b'). Inr (map2 vadd out' x, g\<lparr>gnn_bn := Some b'\<rparr>)))"
  using assms by (simp add: mygnn_forward_def scatter_add_eq_agg_ref edge_messages_targets)

lemma map2_vadd_eq_map:
  "length A = length x \<Longrightarrow> map2 vadd A x = map (\<lambda>i. vadd (A ! i) (x ! i)) [0..<length x]"
  by (rule nth_equalityI) simp_all

lemma agg_layer_spec:
  assumes "mygnn_wf g" "edges_in_range (length x) es"
  shows "map2 vadd (agg_ref (length x) (gnn_channels g) (edge_messages g x es ea)) x = layer_spec g x es ea"
proof -
  have "\<forall>(i', m) \<in> set (edge_messages g x es ea). i' < length x \<and> length m = gnn_channels g"
    by (rule edge_messages_targets [OF assms(2,1)])
  then have "\<forall>(i', m) \<in> set (edge_messages g x es ea). length m = gnn_channels g"
    by auto
  then show ?thesis
    by (simp add: map2_vadd_eq_map length_agg_ref layer_spec_def agg_ref_row incoming_eq)
qed

lemma edge_messages_None:
  "edge_messages g x es None = map (\<lambda>e. (snd e, gnn_message g (x ! snd e))) es"
  by (auto simp: edge_messages_def attr_rows_def zip_replicate2)

lemma sum_list_filter_const:
  "\<forall>e \<in> set xs. P e \<longrightarrow> f e = r \<Longrightarrow> sum_list (map f (filter P xs)) = real (length (filter P xs)) * r"
  by (induction xs) (auto simp: algebra_simps)

lemma agg_ref_no_attr:
  assumes "i < n" "mygnn_wf g" "c = gnn_channels g"
  shows "agg_ref n c (edge_messages g x es None) ! i =
           map (\<lambda>v. real (indeg es i) * v) (gnn_message g (x ! i))"
  using assms unfolding agg_ref_def agg_ref_entry
  by (simp add: edge_messages_None filter_map comp_def indeg_def sum_list_filter_const
      list_eq_iff_nth_eq length_gnn_message)

lemma vadd_replicate_zeros:
  "mat_wf c x \<Longrightarrow> map2 vadd (replicate (length x) (zeros c)) x = x"
  by (simp add: list_eq_iff_nth_eq mat_wf_def)

lemma mygnn_forward_cong_msgs:
  assumes "mygnn_wf g" "set es = set es'" "attrs_ok (gnn_dim g) es ea = attrs_ok (gnn_dim g) es' ea'"
    and "mset (edge_messages g x es ea) = mset (edge_messages g x es' ea')"
  shows "mygnn_forward tr g x es ea = mygnn_forward tr g x es' ea'"
proof -
  have r: "edges_in_range (length x) es' = edges_in_range (length x) es"
    using assms(2) by (simp add: edges_in_range_def)
  show ?thesis
proof (cases "edges_in_range (length x) es \<and> attrs_ok (gnn_dim g) es ea \<and> mat_wf (gnn_channels g) x")
  case True
  then have "edges_in_range (length x) es'" "attrs_ok (gnn_dim g) es' ea'"
    using assms(3) r by simp_all
  with True assms(1) show ?thesis by (simp add: mygnn_forward_eq agg_ref_perm [OF assms(4)])
next
  case False
  from False consider (range) "\<not> edges_in_range (length x) es"
    | (shape) "edges_in_range (length x) es"
        "\<not> attrs_ok (gnn_dim g) es ea \<or> \<not> mat_wf (gnn_channels g) x"
    by blast
  then show ?thesis
  proof cases
    case range
    then show ?thesis by (simp add: mygnn_forward_def r)
  next
    case shape
    then show ?thesis by (simp add: mygnn_forward_def r assms(3))
  qed
qed
qed

lemma mset_zip_fst:
  "mset (zip xs ys) = mset (zip xs' ys') \<Longrightarrow> length ys = length xs \<Longrightarrow> length ys' = length xs' \<Longrightarrow>
   mset xs = mset xs'"
  by (metis map_fst_zip mset_map)

lemma mset_zip_snd:
  "mset (zip xs ys) = mset (zip xs' ys') \<Longrightarrow> length ys = length xs \<Longrightarrow> length ys' = length xs' \<Longrightarrow>
   mset ys = mset ys'"
  by (metis map_snd_zip mset_map)

lemma mygnn_wf_bn:
  "mygnn_wf g \<Longrightarrow> gnn_bn g = Some b \<Longrightarrow>
   length (bn_weight b) = gnn_channels g \<and> length (bn_bias b) = gnn_channels g \<and>
   length (running_mean b) = gnn_channels g \<and> length (running_var b) = gnn_channels g"
  by (simp add: mygnn_wf_def)

lemma mygnn_wf_set_bn:
  "mygnn_wf g \<Longrightarrow> gnn_bn g = Some b \<Longrightarrow> mygnn_wf (g\<lparr>gnn_bn := Some (snd (bn_train b X))\<rparr>)"
  by (simp add: mygnn_wf_def bn_train_params)

lemma attrs_ok_rows: "attrs_ok d es ea \<Longrightarrow> length (attr_rows es ea) = length es"
  by (cases ea) (simp_all add: attrs_ok_def attr_rows_def)

lemma length_filter_edge_messages:
  assumes "length (attr_rows es ea) = length es"
  shows "length (filter (\<lambda>p. fst p = i) (edge_messages g x es ea)) = indeg es i"
proof -
  have "map fst (edge_messages g x es ea) = map snd (map fst (zip es (attr_rows es ea)))"
    by (simp add: edge_messages_def split_beta)
  then have "map fst (edge_messages g x es ea) = map snd es"
    using assms by simp
  then have "length (filter (\<lambda>i'. i' = i) (map fst (edge_messages g x es ea))) = indeg es i"
    by (simp add: indeg_def filter_map comp_def)
  then show ?thesis by (simp add: filter_map comp_def)
qed

lemma edge_messages_pos:
  "mygnn_wf g \<Longrightarrow> p \<in> set (edge_messages g x es ea) \<Longrightarrow> k < gnn_channels g \<Longrightarrow> 0 < snd p ! k"
  by (auto simp: edge_messages_def gnn_message_pos)

lemma sum_list_pos: "\<forall>y \<in> set ys. (0::real) < y \<Longrightarrow> ys \<noteq> [] \<Longrightarrow> 0 < sum_list ys"
proof (induction ys)
  case (Cons y ys)
  then show ?case
    by (cases "ys = []") (simp_all add: add_pos_pos)
qed simp

lemma ex_gnn_wf: "mygnn_wf ex_gnn" "mygnn_wf ex_gnn_bn"
  by (simp_all add: ex_gnn_defs mygnn_wf_def linear_wf_def mat_wf_def)

lemma ex_gnn_fields [simp]:
  "gnn_channels ex_gnn = 1" "gnn_dim ex_gnn = 0" "gnn_bn ex_gnn = None"
  "gnn_channels ex_gnn_bn = 1" "gnn_dim ex_gnn_bn = 0" "gnn_bn ex_gnn_bn = Some ex_bn"
  by (simp_all add: ex_gnn_def ex_gnn_bn_def)

lemma ex_inputs:
  "edges_in_range 2 [(0, 1)]" "edges_in_range 2 [(0, 1), (1, 0)]" "edges_in_range 2 [(1, 0), (0, 1)]"
  "attrs_ok 0 es None" "mat_wf 1 [[1], [2]]" "mat_wf 1 [[1]]"
  by (simp_all add: edges_in_range_def attrs_ok_def mat_wf_def)


lemma mygnn_forward_ok:
  assumes wf: "mygnn_wf g" and ok: "edges_in_range (length x) es" "attrs_ok (gnn_dim g) es ea"
    and x: "mat_wf (gnn_channels g) x"
    and bn1: "\<not> (tr \<and> gnn_bn g \<noteq> None \<and> length x = 1)"
  shows "\<exists>out g'. mygnn_forward tr g x es ea = Inr (out, g') \<and> length out = length x \<and>
           mat_wf (gnn_channels g) out \<and> mygnn_wf g' \<and> gnn_channels g' = gnn_channels g \<and>
           gnn_dim g' = gnn_dim g \<and> (gnn_bn g' = None \<longleftrightarrow> gnn_bn g = None) \<and> (\<not> tr \<longrightarrow> g' = g)"
proof -
  define A where "A = agg_ref (length x) (gnn_channels g) (edge_messages g x es ea)"
  have A: "length A = length x" "mat_wf (gnn_channels g) A"
    by (simp_all add: A_def length_agg_ref mat_wf_agg_ref)
  show ?thesis
  proof (cases "gnn_bn g")
    case None
    with A x show ?thesis by (simp add: mygnn_forward_eq [OF wf ok x] A_def [symmetric] mat_wf_map2_vadd wf)
  next
    case (Some b)
    note lens = mygnn_wf_bn [OF wf Some]
    show ?thesis
    proof (cases tr)
      case True
      with Some bn1 A have "length A \<noteq> 1" by simp
      with True Some A x lens show ?thesis
        by (simp add: mygnn_forward_eq [OF wf ok x] A_def [symmetric] bn_forward_def
            bn_train_shape mat_wf_map2_vadd mygnn_wf_set_bn wf split_beta)
    next
      case False
      have gb: "g\<lparr>gnn_bn := Some b\<rparr> = g" using Some by (cases g) simp
      from False Some A x lens show ?thesis
        by (simp add: mygnn_forward_eq [OF wf ok x] A_def [symmetric] bn_forward_def
            bn_eval_shape mat_wf_map2_vadd wf gb)
    qed
  qed
qed


lemma mygnn_init_wf:
  assumes "\<forall>k n_in n_out. length (fst (w k n_in n_out)) = n_out \<and> mat_wf n_in (fst (w k n_in n_out)) \<and>
             length (snd (w k n_in n_out)) = n_out"
  shows "mygnn_wf (mygnn_init w k channels dim' batch_norm bias)"
  using assms by (simp add: mygnn_wf_def mygnn_init_def linear_init_wf bn_init_lengths)


lemma mygnn_forward_Inr_wf:
  assumes "mygnn_wf g" "mygnn_forward tr g x es ea = Inr (out, g')"
  shows "mygnn_wf g' \<and> gnn_channels g' = gnn_channels g \<and> gnn_dim g' = gnn_dim g \<and>
         (gnn_bn g' = None \<longleftrightarrow> gnn_bn g = None)"
proof (cases "gnn_bn g")
  case None
  with assms show ?thesis by (auto simp: mygnn_forward_def Let_def split: if_splits)
next
  case (Some b)
  have gb: "g\<lparr>gnn_bn := Some b\<rparr> = g" using Some by (cases g) simp
  have tr_wf: "mygnn_wf (g\<lparr>gnn_bn := Some b'\<rparr>)" if "bn_train b X = (a, b')" for X a b'
    using mygnn_wf_set_bn [OF assms(1) Some, of X] that by simp
  from assms Some show ?thesis
    by (auto simp: mygnn_forward_def Let_def bn_forward_def bind_err_eq_Inr gb tr_wf
        split: if_splits)
qed


lemma mygnn_forward_eval_same:
  "mygnn_forward False g x es ea = Inr (out, g') \<Longrightarrow> g' = g"
  by (auto simp: mygnn_forward_def bn_forward_def Let_def bind_err_eq_Inr
      split: if_splits option.splits)


lemma length_scatter_add: "length (scatter_add n c ims) = n"
proof -
  have "length (fold (\<lambda>(i, m) out. out[i := vadd (out ! i) m]) ims xs) = length xs" for xs :: mat
    by (induction ims arbitrary: xs) auto
  then show ?thesis by (simp add: scatter_add_def)
qed

lemma mygnn_forward_Inr_length:
  "mygnn_forward tr g x es ea = Inr (out, g') \<Longrightarrow> length out = length x"
  by (auto simp: mygnn_forward_def Let_def bn_forward_def bn_train_def bn_eval_def bind_err_eq_Inr
      length_scatter_add split: if_splits option.splits)

lemma agg_ref_indeg_cong:
  assumes "\<forall>i < n. indeg es i = indeg es' i" "mygnn_wf g" "c = gnn_channels g"
  shows "agg_ref n c (edge_messages g x es None) = agg_ref n c (edge_messages g x es' None)"
  by (rule nth_equalityI) (simp_all add: length_agg_ref agg_ref_no_attr assms)

lemma mygnn_forward_indeg_cong:
  assumes "mygnn_wf g" "edges_in_range (length x) es" "edges_in_range (length x) es'"
    and "\<forall>i < length x. indeg es i = indeg es' i"
  shows "mygnn_forward tr g x es None = mygnn_forward tr g x es' None"
proof -
  have "scatter_add (length x) (gnn_channels g) (edge_messages g x es None) =
        scatter_add (length x) (gnn_channels g) (edge_messages g x es' None)"
    using assms
    by (simp add: scatter_add_eq_agg_ref edge_messages_targets agg_ref_indeg_cong)
  then show ?thesis using assms(2,3) by (simp add: mygnn_forward_def attrs_ok_def)
qed

subsection \<open>Properties of the layer\<close>

text \<open>C12. The layer without batch norm computes what the spec's algorithm
  describes (steps 1--5): the \<open>propagate\<close> scatter loop over the edges
  refines the per-node specification, so that row \<open>i\<close> of the output is the
  sum of the messages of the edges whose target is \<open>i\<close> plus \<open>x_i\<close>.\<close>

theorem mygnn_forward_refines_spec:
  assumes "mygnn_wf g" "gnn_bn g = None" "edges_in_range (length x) es"
    "attrs_ok (gnn_dim g) es ea" "mat_wf (gnn_channels g) x"
  shows "mygnn_forward tr g x es ea = Inr (layer_spec g x es ea, g)"
  using assms by (simp add: mygnn_forward_eq agg_layer_spec)

theorem mygnn_forward_refines_spec_witness: "mygnn_forward True ex_gnn [[1], [2]] [(0, 1)] None =
    Inr (layer_spec ex_gnn [[1], [2]] [(0, 1)] None, ex_gnn)"
  by (rule mygnn_forward_refines_spec) (simp_all add: ex_gnn_wf ex_inputs edges_in_range_def mat_wf_def)

text \<open>C13. The order in which the edges are enumerated does not change the
  layer's result (errors included): permuting the edges together with their
  feature rows gives the same output.\<close>

theorem mygnn_forward_edge_order:
  assumes "mygnn_wf g"
    and perm: "mset (zip es (attr_rows es ea)) = mset (zip es' (attr_rows es' ea'))"
    and len: "length (attr_rows es ea) = length es" "length (attr_rows es' ea') = length es'"
    and none: "ea = None \<longleftrightarrow> ea' = None"
  shows "mygnn_forward tr g x es ea = mygnn_forward tr g x es' ea'"
proof (rule mygnn_forward_cong_msgs [OF assms(1)])
  have "mset es = mset es'" by (rule mset_zip_fst [OF perm len])
  then show "set es = set es'" by (metis set_mset_mset)
  have rows: "mset (attr_rows es ea) = mset (attr_rows es' ea')" by (rule mset_zip_snd [OF perm len])
  show "attrs_ok (gnn_dim g) es ea = attrs_ok (gnn_dim g) es' ea'"
  proof (cases ea)
    case None
    with none show ?thesis by (simp add: attrs_ok_def)
  next
    case (Some A)
    with none obtain A' where "ea' = Some A'" by auto
    with Some rows len show ?thesis by (simp add: attrs_ok_def attr_rows_def mat_wf_def) (metis set_mset_mset)
  qed
  show "mset (edge_messages g x es ea) = mset (edge_messages g x es' ea')"
    using perm by (simp add: edge_messages_def)
qed

theorem mygnn_forward_edge_order_witness: "mygnn_forward False ex_gnn [[1], [2]] [(0, 1), (1, 0)] None =
    mygnn_forward False ex_gnn [[1], [2]] [(1, 0), (0, 1)] None"
  by (rule mygnn_forward_edge_order) (simp_all add: ex_gnn_wf attr_rows_def add_mset_commute)

text \<open>C14. On well-formed inputs the layer raises nothing (except a one-row
  batch in training mode with batch norm), returns a matrix of shape
  \<open>(n, channels)\<close> for an input of \<open>n\<close> rows whatever the number of edges,
  and leaves a well-formed layer.\<close>

theorem mygnn_forward_shape:
  assumes "mygnn_wf g" "edges_in_range (length x) es" "attrs_ok (gnn_dim g) es ea"
    "mat_wf (gnn_channels g) x" "\<not> (tr \<and> gnn_bn g \<noteq> None \<and> length x = 1)"
  shows "\<exists>out g'. mygnn_forward tr g x es ea = Inr (out, g') \<and> length out = length x \<and>
           mat_wf (gnn_channels g) out \<and> mygnn_wf g' \<and> gnn_channels g' = gnn_channels g"
  using mygnn_forward_ok [OF assms] by blast

theorem mygnn_forward_shape_witness: "\<exists>out g'. mygnn_forward True ex_gnn_bn [[1], [2]] [(0, 1)] None = Inr (out, g') \<and>
    length out = Suc (Suc 0) \<and> mat_wf 1 out \<and> mygnn_wf g' \<and> gnn_channels g' = 1"
  using mygnn_forward_shape [of ex_gnn_bn "[[1], [2]]" "[(0, 1)]" None True]
  by (simp add: ex_gnn_wf ex_inputs edges_in_range_def mat_wf_def)

text \<open>With no edges and no batch norm the layer returns its input
  unchanged: the output is the residual term alone.\<close>

theorem mygnn_forward_no_edges:
  assumes "mygnn_wf g" "gnn_bn g = None" "attrs_ok (gnn_dim g) [] ea" "mat_wf (gnn_channels g) x"
  shows "mygnn_forward tr g x [] ea = Inr (x, g)"
  using assms
  by (simp add: mygnn_forward_eq edges_in_range_def edge_messages_def agg_ref_Nil vadd_replicate_zeros)

theorem mygnn_forward_no_edges_witness: "mygnn_forward True ex_gnn [[1], [2]] [] None = Inr ([[1], [2]], ex_gnn)"
  by (rule mygnn_forward_no_edges) (simp_all add: ex_gnn_wf ex_inputs edges_in_range_def mat_wf_def)

text \<open>C15. Without edge features the message of an edge \<open>(j, i)\<close> is
  computed from the target's row \<open>x_i\<close> alone: row \<open>i\<close> of the output is
  \<open>x_i\<close> plus \<open>indeg i\<close> times the message of \<open>x_i\<close>, so the source rows
  \<open>x_j\<close> never influence the result.\<close>

theorem mygnn_forward_target_only:
  assumes "mygnn_wf g" "gnn_bn g = None" "gnn_dim g = 0" "edges_in_range (length x) es"
    "mat_wf (gnn_channels g) x"
  shows "mygnn_forward tr g x es None =
    Inr (map (\<lambda>i. vadd (map (\<lambda>v. real (indeg es i) * v) (gnn_message g (x ! i))) (x ! i)) [0..<length x], g)"
  using assms
  by (simp add: mygnn_forward_eq attrs_ok_def map2_vadd_eq_map length_agg_ref agg_ref_no_attr)

theorem mygnn_forward_target_only_witness: "mygnn_forward True ex_gnn [[1], [2]] [(0, 1)] None =
    Inr ([vadd (map (\<lambda>v. 0) (gnn_message ex_gnn [1])) [1], vadd (gnn_message ex_gnn [2]) [2]], ex_gnn)"
proof -
  have "mygnn_forward True ex_gnn [[1], [2]] [(0, 1)] None =
    Inr (map (\<lambda>i. vadd (map (\<lambda>v. real (indeg [(0, 1)] i) * v) (gnn_message ex_gnn ([[1], [2]] ! i)))
      ([[1], [2]] ! i)) [0..<length [[1::real], [2]]], ex_gnn)"
    by (rule mygnn_forward_target_only) (simp_all add: ex_gnn_wf ex_inputs edges_in_range_def mat_wf_def)
  moreover have "((*) (0::real)) = (\<lambda>v. 0)" "((*) (1::real)) = (\<lambda>v. v)" by auto
  ultimately show ?thesis by (simp add: indeg_def upt_rec)
qed

text \<open>C16. In evaluation mode the batch norm is applied to the aggregated
  messages and the residual is added afterwards (lines 154--155): row
  \<open>i\<close> of the output is the normalised sum of the messages into \<open>i\<close> plus
  \<open>x_i\<close>, where the spec's algorithm normalises the sum with the residual.\<close>

theorem mygnn_forward_bn_before_residual:
  assumes wf: "mygnn_wf g" and bn: "gnn_bn g = Some b"
    and ok: "edges_in_range (length x) es" "attrs_ok (gnn_dim g) es ea"
    and x: "mat_wf (gnn_channels g) x"
  shows "mygnn_forward False g x es ea =
           Inr (map2 vadd (bn_eval b (agg_ref (length x) (gnn_channels g) (edge_messages g x es ea))) x, g)"
proof -
  have "mat_wf (length (bn_weight b)) (agg_ref (length x) (gnn_channels g) (edge_messages g x es ea))"
    using mygnn_wf_bn [OF wf bn] by (simp add: mat_wf_agg_ref)
  moreover have "g\<lparr>gnn_bn := Some b\<rparr> = g" using bn by (cases g) simp
  ultimately show ?thesis
    by (simp add: mygnn_forward_eq [OF wf ok x] bn bn_forward_def)
qed

theorem mygnn_forward_bn_before_residual_witness:
  "mygnn_forward False ex_gnn_bn [[1], [2]] [] None =
     Inr (map2 vadd (bn_eval ex_bn (agg_ref (length [[1::real], [2]]) (gnn_channels ex_gnn_bn)
            (edge_messages ex_gnn_bn [[1], [2]] [] None))) [[1], [2]], ex_gnn_bn)"
  by (rule mygnn_forward_bn_before_residual [OF ex_gnn_wf(2)]) (simp_all add: ex_inputs edges_in_range_def mat_wf_def ex_gnn_defs)

text \<open>C17. Every message is non-negative (a sigmoid times a softplus),
  so without batch norm the output never falls below the input.\<close>

theorem mygnn_forward_residual_bound:
  assumes wf: "mygnn_wf g" and nobn: "gnn_bn g = None"
    and ok: "edges_in_range (length x) es" "attrs_ok (gnn_dim g) es ea"
    and x: "mat_wf (gnn_channels g) x"
    and run: "mygnn_forward tr g x es ea = Inr (out, g')"
    and i: "i < length x" and k: "k < gnn_channels g"
  shows "x ! i ! k \<le> out ! i ! k"
proof -
  define ems where "ems = edge_messages g x es ea"
  define L where "L = map (\<lambda>p. snd p ! k) (filter (\<lambda>p. fst p = i) ems)"
  have out: "out = map2 vadd (agg_ref (length x) (gnn_channels g) ems) x"
    using run by (auto simp: mygnn_forward_eq [OF wf ok x] nobn ems_def)
  have xi: "length (x ! i) = gnn_channels g" using x i by (simp add: mat_wf_def)
  have "out ! i ! k = sum_list L + x ! i ! k"
    using i k xi by (simp add: out agg_ref_def agg_ref_entry L_def nth_vadd length_agg_ref)
  moreover have pos: "\<forall>y \<in> set L. 0 < y"
    using edge_messages_pos [OF wf _ k] by (auto simp: L_def ems_def)
  ultimately show ?thesis
    using sum_list_nonneg [of L] by fastforce
qed

theorem mygnn_forward_residual_bound_witness: "\<exists>out. mygnn_forward True ex_gnn [[1], [2]] [(0, 1)] None = Inr (out, ex_gnn) \<and>
    2 \<le> out ! 1 ! 0"
proof -
  have "\<exists>out. mygnn_forward True ex_gnn [[1], [2]] [(0, 1)] None = Inr (out, ex_gnn)"
    by (simp add: mygnn_forward_def edges_in_range_def attrs_ok_def mat_wf_def)
  then obtain out where r: "mygnn_forward True ex_gnn [[1], [2]] [(0, 1)] None = Inr (out, ex_gnn)"
    by blast
  have "[[1::real], [2]] ! 1 ! 0 \<le> out ! 1 ! 0"
    using mygnn_forward_residual_bound [OF ex_gnn_wf(1) _ _ _ _ r, of 1 0]
    by (simp add: edges_in_range_def attrs_ok_def mat_wf_def)
  with r show ?thesis by simp
qed

end
