(* ===== verification/Float_Val.thy ===== *)
theory Float_Val
  imports Torch_Ops
begin

text \<open>
  Floating-point values with their special cases, for the part of the
  classifier whose behaviour depends on them: the last linear layer, the
  divergence check \<open>torch.isnan(torch.mean(self.linear2.weight))\<close> and the
  final \<open>torch.sigmoid\<close> (graph\_neural\_network.py, lines 267--272).  A
  value is finite (an exact real; rounding is not modelled), \<open>+inf\<close>,
  \<open>-inf\<close> or \<open>NaN\<close>; addition, multiplication and division follow the
  IEEE 754 rules for the special values: \<open>NaN\<close> propagates,
  \<open>inf + -inf\<close> and \<open>0 * inf\<close> are \<open>NaN\<close>, \<open>0 / 0\<close> is \<open>NaN\<close> (so the mean
  of an empty tensor is \<open>NaN\<close>), and \<open>sigmoid\<close> maps \<open>+inf\<close> to 1 and
  \<open>-inf\<close> to 0.
\<close>

datatype fval = Fin real | PInf | NInf | NaN

fun fadd :: "fval \<Rightarrow> fval \<Rightarrow> fval" where
  "fadd NaN y = NaN"
| "fadd x NaN = NaN"
| "fadd PInf NInf = NaN"
| "fadd NInf PInf = NaN"
| "fadd PInf y = PInf"
| "fadd NInf y = NInf"
| "fadd (Fin a) PInf = PInf"
| "fadd (Fin a) NInf = NInf"
| "fadd (Fin a) (Fin b) = Fin (a + b)"

fun fmul :: "fval \<Rightarrow> fval \<Rightarrow> fval" where
  "fmul NaN y = NaN"
| "fmul x NaN = NaN"
| "fmul (Fin a) (Fin b) = Fin (a * b)"
| "fmul (Fin a) PInf = (if a = 0 then NaN else if 0 < a then PInf else NInf)"
| "fmul (Fin a) NInf = (if a = 0 then NaN else if 0 < a then NInf else PInf)"
| "fmul PInf (Fin b) = (if b = 0 then NaN else if 0 < b then PInf else NInf)"
| "fmul NInf (Fin b) = (if b = 0 then NaN else if 0 < b then NInf else PInf)"
| "fmul PInf PInf = PInf"
| "fmul PInf NInf = NInf"
| "fmul NInf PInf = NInf"
| "fmul NInf NInf = PInf"

text \<open>Division by the element count of a tensor, as \<open>torch.mean\<close> does.\<close>

fun fdiv_nat :: "fval \<Rightarrow> nat \<Rightarrow> fval" where
  "fdiv_nat (Fin a) n =
     (if n = 0 then (if a = 0 then NaN else if 0 < a then PInf else NInf) else Fin (a / real n))"
| "fdiv_nat PInf n = PInf"
| "fdiv_nat NInf n = NInf"
| "fdiv_nat NaN n = NaN"

definition fsum :: "fval list \<Rightarrow> fval" where
  "fsum xs = foldl fadd (Fin 0) xs"

definition fmean :: "fval list \<Rightarrow> fval" where
  "fmean xs = fdiv_nat (fsum xs) (length xs)"

definition isnan :: "fval \<Rightarrow> bool" where
  "isnan x \<longleftrightarrow> x = NaN"

fun fsigmoid :: "fval \<Rightarrow> fval" where
  "fsigmoid (Fin x) = Fin (sigmoid x)"
| "fsigmoid PInf = Fin 1"
| "fsigmoid NInf = Fin 0"
| "fsigmoid NaN = NaN"

definition is_fin :: "fval \<Rightarrow> bool" where
  "is_fin x \<longleftrightarrow> (\<exists>r. x = Fin r)"

subsection \<open>Facts about the special values\<close>

lemma foldl_fadd_NaN_iff:
  "foldl fadd a xs = NaN \<longleftrightarrow>
     a = NaN \<or> NaN \<in> set xs \<or> ((a = PInf \<or> PInf \<in> set xs) \<and> (a = NInf \<or> NInf \<in> set xs))"
proof (induction xs arbitrary: a)
  case Nil
  then show ?case by auto
next
  case (Cons x xs)
  show ?case by (cases a; cases x) (auto simp: Cons.IH)
qed

lemma fsum_NaN_iff:
  "fsum xs = NaN \<longleftrightarrow> NaN \<in> set xs \<or> (PInf \<in> set xs \<and> NInf \<in> set xs)"
  by (simp add: fsum_def foldl_fadd_NaN_iff)

lemma foldl_fadd_Fin:
  "\<forall>x \<in> set xs. is_fin x \<Longrightarrow> \<exists>r. foldl fadd (Fin a) xs = Fin r"
proof (induction xs arbitrary: a)
  case (Cons x xs)
  then obtain b where "x = Fin b" by (auto simp: is_fin_def)
  with Cons show ?case by simp
qed simp

lemma fdiv_nat_NaN_iff:
  "fdiv_nat x n = NaN \<longleftrightarrow> x = NaN \<or> (x = Fin 0 \<and> n = 0)"
  by (cases x) auto

lemma fmean_NaN_iff:
  "fmean xs = NaN \<longleftrightarrow> xs = [] \<or> NaN \<in> set xs \<or> (PInf \<in> set xs \<and> NInf \<in> set xs)"
proof (cases "xs = []")
  case True
  then show ?thesis by (simp add: fmean_def fsum_def)
next
  case False
  then show ?thesis by (simp add: fmean_def fdiv_nat_NaN_iff fsum_NaN_iff)
qed

lemma fsigmoid_Fin_bounds:
  "fsigmoid x = Fin y \<Longrightarrow> is_fin x \<Longrightarrow> 0 < y \<and> y < 1"
  by (auto simp: is_fin_def sigmoid_pos sigmoid_lt_one)

end
