(* ===== verification/CGC_Class.thy ===== *)
theory CGC_Class
  imports MYGNN Float_Val
begin

text \<open>
  \<open>class CGCClass(torch.nn.Module)\<close> (graph\_neural\_network.py, lines
  172--274), the classifier.  Its state is the record \<open>cgc\<close>: the
  \<open>training\<close> flag, the list of \<open>MYGNN\<close> layers (\<open>n_layers\<close> of them,
  each \<open>MYGNN(feature_size, dim=self.edge_dim, batch_norm=True)\<close>), the
  dropout rate, the optional edge encoder (\<open>linear_edge1\<close>,
  \<open>linear_edge2\<close>; absent when \<open>edge_flag = 0\<close>), \<open>self.edge_dim\<close>,
  \<open>linear1\<close>, \<open>bn2\<close> and \<open>linear2\<close>.  The weights and bias of \<open>linear2\<close>
  are floating-point values with their special cases (\<open>Float_Val\<close>), since
  the divergence check of line 269 and the final sigmoid are about them.

  \<open>cgc_forward\<close> is \<open>forward\<close> (lines 231--274): encode the edge features
  or drop them, run the layers in sequence (\<open>run_layers\<close>), max-pool per
  graph, dropout (its random keep-mask is an argument), \<open>relu(linear1)\<close>,
  \<open>bn2\<close>, \<open>linear2\<close>, the NaN check on the mean of \<open>linear2.weight\<close>, and
  the sigmoid.  In training mode the layers' and \<open>bn2\<close>'s running
  statistics change, so the forward pass returns the updated model.
  \<open>cgc_eval\<close> is \<open>model.eval()\<close>.  \<open>cgc_init\<close> builds the model's
  shapes from \<open>model_params\<close> (lines 173--225); the random initial
  weights are its arguments.
\<close>

record flinear =
  fl_in :: nat
  fl_weight :: "fval list list"
  fl_bias :: "fval list"

record graph_batch =
  gb_x :: mat
  gb_edges :: "(nat \<times> nat) list"
  gb_attr :: "mat option"
  gb_batch :: "nat list"
  gb_y :: mat

record cgc =
  cgc_training :: bool
  gnn_layers :: "mygnn list"
  dropout_rate :: real
  edge_encoder :: "(linear \<times> linear) option"
  cgc_edge_dim :: nat
  linear1 :: linear
  bn2 :: batchnorm
  linear2 :: flinear

text \<open>\<open>self.linear2(x)\<close> on a row of finite values: each output is the bias
  plus the products of the weights with the inputs.\<close>

definition flinear_apply :: "flinear \<Rightarrow> vec \<Rightarrow> fval list" where
  "flinear_apply L h =
     map2 (\<lambda>w b. fadd (fsum (map2 (\<lambda>wi hi. fmul wi (Fin hi)) w h)) b) (fl_weight L) (fl_bias L)"

definition flinear_rows :: "flinear \<Rightarrow> mat \<Rightarrow> py_error + fval list list" where
  "flinear_rows L H = (if mat_wf (fl_in L) H then Inr (map (flinear_apply L) H) else Inl ShapeMismatch)"

text \<open>Lines 238--243: with \<open>edge_flag = 1\<close> the edge features go through
  both encoder layers (a missing \<open>edge_attr\<close> is a \<open>TypeError\<close> in
  \<open>Linear\<close>); otherwise they are dropped.\<close>

definition encode_edges :: "(linear \<times> linear) option \<Rightarrow> mat option \<Rightarrow> py_error + mat option" where
  "encode_edges enc ea =
     (case enc of
        None \<Rightarrow> Inr None
      | Some (l1, l2) \<Rightarrow>
          (case ea of
             None \<Rightarrow> Inl TypeError
           | Some A \<Rightarrow> bind_err (linear_rows l1 A) (\<lambda>A1. bind_err (linear_rows l2 A1) (\<lambda>A2. Inr (Some A2)))))"

text \<open>Lines 257--258: \<open>x = self.gnn_layers[i](x, edge_index, edge_attr)\<close>
  for each layer in turn; each layer returns itself updated.\<close>

fun run_layers ::
  "bool \<Rightarrow> mygnn list \<Rightarrow> mat \<Rightarrow> (nat \<times> nat) list \<Rightarrow> mat option \<Rightarrow> py_error + mat \<times> mygnn list" where
  "run_layers tr [] x es ea = Inr (x, [])"
| "run_layers tr (g # gs) x es ea =
     bind_err (mygnn_forward tr g x es ea)
       (\<lambda>(x', g'). bind_err (run_layers tr gs x' es ea) (\<lambda>(x'', gs'). Inr (x'', g' # gs')))"

definition mat_width :: "mat \<Rightarrow> nat" where
  "mat_width X = (case X of [] \<Rightarrow> 0 | r # _ \<Rightarrow> length r)"

definition dropout_rows :: "real \<Rightarrow> bool \<Rightarrow> bool list list \<Rightarrow> mat \<Rightarrow> mat" where
  "dropout_rows p tr keeps X = map (\<lambda>k. dropout p tr (keeps ! k) (X ! k)) [0..<length X]"

definition relu_rows :: "mat \<Rightarrow> mat" where
  "relu_rows X = map (map relu) X"

text \<open>Lines 267--272: \<open>linear2\<close>, the divergence check and the sigmoid.\<close>

definition cgc_head :: "flinear \<Rightarrow> mat \<Rightarrow> py_error + fval list list" where
  "cgc_head L2 H =
     bind_err (flinear_rows L2 H)
       (\<lambda>Z. if isnan (fmean (concat (fl_weight L2)))
            then Inl (RuntimeError ''Exploding gradients. Tune learning rate'')
            else Inr (map (map fsigmoid) Z))"

definition cgc_forward :: "cgc \<Rightarrow> graph_batch \<Rightarrow> bool list list \<Rightarrow> py_error + fval list list \<times> cgc" where
  "cgc_forward M d keeps =
     bind_err (encode_edges (edge_encoder M) (gb_attr d)) (\<lambda>ea.
     bind_err (run_layers (cgc_training M) (gnn_layers M) (gb_x d) (gb_edges d) ea) (\<lambda>(x, gs).
     bind_err (global_max_pool (mat_width x) x (gb_batch d)) (\<lambda>P.
     bind_err (linear_rows (linear1 M) (dropout_rows (dropout_rate M) (cgc_training M) keeps P)) (\<lambda>H.
     bind_err (bn_forward (cgc_training M) (bn2 M) (relu_rows H)) (\<lambda>(H2, b2).
     bind_err (cgc_head (linear2 M) H2) (\<lambda>out.
     Inr (out, M\<lparr>gnn_layers := gs, bn2 := b2\<rparr>)))))))"

definition cgc_eval :: "cgc \<Rightarrow> cgc" where
  "cgc_eval M = M\<lparr>cgc_training := False\<rparr>"

text \<open>\<open>__init__\<close> (lines 173--225) from the \<open>model_params\<close> dict.  The
  layers take initialiser draws \<open>2 i\<close> and \<open>2 i + 1\<close>, the edge encoder
  draws \<open>2 n\<close> and \<open>2 n + 1\<close>, \<open>linear1\<close> draw \<open>2 n + 2\<close> and \<open>linear2\<close>
  draw \<open>2 n + 3\<close> (a fresh model has finite weights).  The SMOTE sampler of
  line 224 is not used by \<open>forward\<close>.\<close>

record model_params =
  mp_feat_size :: nat
  mp_layers :: nat
  mp_dropout_rate :: real
  mp_edge_dense_neurons :: nat
  mp_edge_neurons :: nat
  mp_dense_neurons :: nat
  mp_edge_dim :: nat
  mp_out_channels :: nat

definition flinear_init :: "(nat \<Rightarrow> nat \<Rightarrow> nat \<Rightarrow> mat \<times> vec) \<Rightarrow> nat \<Rightarrow> nat \<Rightarrow> nat \<Rightarrow> flinear" where
  "flinear_init w k n_in n_out =
     \<lparr>fl_in = n_in, fl_weight = map (map Fin) (fst (w k n_in n_out)), fl_bias = map Fin (snd (w k n_in n_out))\<rparr>"

definition cgc_init :: "(nat \<Rightarrow> nat \<Rightarrow> nat \<Rightarrow> mat \<times> vec) \<Rightarrow> model_params \<Rightarrow> cgc" where
  "cgc_init w P =
     (let n = mp_layers P;
          edim = (if mp_edge_dim P \<noteq> 0 then mp_edge_neurons P else 0);
          enc = (if mp_edge_dim P \<noteq> 0
                 then Some (linear_init w (2 * n) True (mp_edge_dim P) (mp_edge_dense_neurons P),
                            linear_init w (2 * n + 1) True (mp_edge_dense_neurons P) (mp_edge_neurons P))
                 else None)
      in \<lparr>cgc_training = True,
          gnn_layers = map (\<lambda>i. mygnn_init w (2 * i) (mp_feat_size P) edim True True) [0..<n],
          dropout_rate = mp_dropout_rate P, edge_encoder = enc, cgc_edge_dim = edim,
          linear1 = linear_init w (2 * n + 2) True (mp_feat_size P) (mp_dense_neurons P),
          bn2 = bn_init (mp_dense_neurons P),
          linear2 = flinear_init w (2 * n + 3) (mp_dense_neurons P) (mp_out_channels P)\<rparr>)"

text \<open>The shapes \<open>__init__\<close> gives the model: \<open>n\<close> layers of width
  \<open>c\<close> (the feature size) and edge width \<open>d\<close>, each with a batch norm;
  \<open>linear1 : c \<rightarrow> dense\<close>, \<open>bn2\<close> of width \<open>dense\<close>, \<open>linear2 : dense \<rightarrow> out\<close>;
  the edge encoder exactly when the configured edge dimension is not 0.\<close>

definition bn_wf :: "nat \<Rightarrow> batchnorm \<Rightarrow> bool" where
  "bn_wf c b \<longleftrightarrow> length (bn_weight b) = c \<and> length (bn_bias b) = c \<and>
     length (running_mean b) = c \<and> length (running_var b) = c"

definition flinear_wf :: "nat \<Rightarrow> nat \<Rightarrow> flinear \<Rightarrow> bool" where
  "flinear_wf n_in n_out L \<longleftrightarrow>
     fl_in L = n_in \<and> length (fl_weight L) = n_out \<and> (\<forall>w \<in> set (fl_weight L). length w = n_in) \<and>
     length (fl_bias L) = n_out"

definition layer_ok :: "nat \<Rightarrow> nat \<Rightarrow> mygnn \<Rightarrow> bool" where
  "layer_ok c d g \<longleftrightarrow> mygnn_wf g \<and> gnn_channels g = c \<and> gnn_dim g = d \<and> gnn_bn g \<noteq> None"

definition cgc_wf :: "nat \<Rightarrow> nat \<Rightarrow> nat \<Rightarrow> cgc \<Rightarrow> bool" where
  "cgc_wf c dense n_out M \<longleftrightarrow>
     (\<forall>g \<in> set (gnn_layers M). layer_ok c (cgc_edge_dim M) g) \<and>
     (case edge_encoder M of
        None \<Rightarrow> cgc_edge_dim M = 0
      | Some (l1, l2) \<Rightarrow> linear_wf (lin_in l1) (lin_in l2) l1 \<and> linear_wf (lin_in l2) (cgc_edge_dim M) l2) \<and>
     linear_wf c dense (linear1 M) \<and> bn_wf dense (bn2 M) \<and> flinear_wf dense n_out (linear2 M)"

text \<open>Examples for the witnesses: a classifier with one layer
  (\<open>ex_gnn_bn\<close>), no edge encoder, \<open>linear1 = ex_lin\<close>, \<open>bn2 = ex_bn\<close>
  and two output channels; a batch of one graph with two nodes and one
  edge; and \<open>ex_inf_head\<close>, a \<open>linear2\<close> with a \<open>+inf\<close> weight.\<close>

definition ex_head :: flinear where
  "ex_head = \<lparr>fl_in = 1, fl_weight = [[Fin 1], [Fin 0]], fl_bias = [Fin 0, Fin 1]\<rparr>"

definition ex_cgc :: cgc where
  "ex_cgc = \<lparr>cgc_training = False, gnn_layers = [ex_gnn_bn], dropout_rate = 1 / 10,
     edge_encoder = None, cgc_edge_dim = 0, linear1 = ex_lin, bn2 = ex_bn, linear2 = ex_head\<rparr>"

definition ex_data :: graph_batch where
  "ex_data = \<lparr>gb_x = [[1], [2]], gb_edges = [(0, 1)], gb_attr = None, gb_batch = [0, 0], gb_y = [[0, 1]]\<rparr>"

definition ex_data3 :: graph_batch where
  "ex_data3 = \<lparr>gb_x = [[1], [2], [3]], gb_edges = [(0, 1)], gb_attr = None, gb_batch = [0, 0, 0],
     gb_y = [[0, 1]]\<rparr>"

definition ex_inf_head :: flinear where
  "ex_inf_head = \<lparr>fl_in = 1, fl_weight = [[PInf]], fl_bias = [Fin 0]\<rparr>"

definition ex_params :: model_params where
  "ex_params = \<lparr>mp_feat_size = 2, mp_layers = 3, mp_dropout_rate = 1 / 10, mp_edge_dense_neurons = 8,
     mp_edge_neurons = 8, mp_dense_neurons = 4, mp_edge_dim = 0, mp_out_channels = 2\<rparr>"

definition ex_init :: "nat \<Rightarrow> nat \<Rightarrow> nat \<Rightarrow> mat \<times> vec" where
  "ex_init k n_in n_out = (replicate n_out (replicate n_in 0), replicate n_out 0)"

definition ex_nan_head :: flinear where
  "ex_nan_head = \<lparr>fl_in = 1, fl_weight = [[NaN], [Fin 0]], fl_bias = [Fin 0, Fin 1]\<rparr>"

lemmas ex_cgc_defs = ex_nan_head_def ex_data3_def ex_head_def ex_cgc_def ex_data_def ex_inf_head_def ex_params_def ex_init_def

subsection \<open>The output block\<close>

lemma fmul_fin: "is_fin a \<Longrightarrow> is_fin b \<Longrightarrow> is_fin (fmul a b)"
  by (auto simp: is_fin_def)

lemma fadd_fin: "is_fin a \<Longrightarrow> is_fin b \<Longrightarrow> is_fin (fadd a b)"
  by (auto simp: is_fin_def)

lemma fsum_fin: "\<forall>x \<in> set xs. is_fin x \<Longrightarrow> is_fin (fsum xs)"
  using foldl_fadd_Fin [of xs 0] by (simp add: fsum_def is_fin_def)

lemma flinear_apply_fin:
  assumes "\<forall>w \<in> set (fl_weight L). \<forall>v \<in> set w. is_fin v" "\<forall>v \<in> set (fl_bias L). is_fin v"
  shows "\<forall>v \<in> set (flinear_apply L h). is_fin v"
proof
  fix v assume "v \<in> set (flinear_apply L h)"
  then obtain w b where wb: "w \<in> set (fl_weight L)" "b \<in> set (fl_bias L)"
    and v: "v = fadd (fsum (map2 (\<lambda>wi hi. fmul wi (Fin hi)) w h)) b"
    by (auto simp: flinear_apply_def dest: set_zip_leftD set_zip_rightD)
  have "\<forall>x \<in> set (map2 (\<lambda>wi hi. fmul wi (Fin hi)) w h). is_fin x"
  proof
    fix x assume "x \<in> set (map2 (\<lambda>wi hi. fmul wi (Fin hi)) w h)"
    then obtain wi hi where wi: "wi \<in> set w" and x: "x = fmul wi (Fin hi)"
      by (auto dest: set_zip_leftD)
    from wi wb(1) assms(1) obtain r where "wi = Fin r" by (auto simp: is_fin_def)
    then show "is_fin x" by (simp add: x is_fin_def)
  qed
  with wb assms(2) show "is_fin v" by (simp add: v fadd_fin fsum_fin)
qed

lemma length_flinear_apply:
  "flinear_wf n_in n_out L \<Longrightarrow> length (flinear_apply L h) = n_out"
  by (simp add: flinear_wf_def flinear_apply_def)

lemma fmean_fin_not_nan:
  "\<forall>v \<in> set xs. is_fin v \<Longrightarrow> xs \<noteq> [] \<Longrightarrow> \<not> isnan (fmean xs)"
  by (auto simp: isnan_def fmean_NaN_iff is_fin_def)

lemma cgc_head_ok:
  assumes wf: "flinear_wf dense n_out L2" and H: "mat_wf dense H"
    and fin: "\<forall>w \<in> set (fl_weight L2). \<forall>v \<in> set w. is_fin v" "\<forall>v \<in> set (fl_bias L2). is_fin v"
    and ne: "0 < dense" "0 < n_out"
  shows "\<exists>out. cgc_head L2 H = Inr out \<and> length out = length H \<and>
           (\<forall>row \<in> set out. length row = n_out \<and> (\<forall>v \<in> set row. \<exists>y. v = Fin y \<and> 0 < y \<and> y < 1))"
proof -
  have "concat (fl_weight L2) \<noteq> []"
    using wf ne by (cases "fl_weight L2") (auto simp: flinear_wf_def)
  moreover have "\<forall>v \<in> set (concat (fl_weight L2)). is_fin v" using fin(1) by auto
  ultimately have nn: "\<not> isnan (fmean (concat (fl_weight L2)))" by (rule fmean_fin_not_nan [rotated])
  have rows: "\<forall>row \<in> set (map (map fsigmoid) (map (flinear_apply L2) H)).
      length row = n_out \<and> (\<forall>v \<in> set row. \<exists>y. v = Fin y \<and> 0 < y \<and> y < 1)"
  proof
    fix row assume "row \<in> set (map (map fsigmoid) (map (flinear_apply L2) H))"
    then obtain h where row: "row = map fsigmoid (flinear_apply L2 h)" by auto
    have "\<forall>v \<in> set (flinear_apply L2 h). is_fin v" by (rule flinear_apply_fin [OF fin])
    then show "length row = n_out \<and> (\<forall>v \<in> set row. \<exists>y. v = Fin y \<and> 0 < y \<and> y < 1)"
      using wf by (auto simp: row length_flinear_apply is_fin_def sigmoid_pos sigmoid_lt_one)
  qed
  show ?thesis
    using wf H nn rows by (simp add: cgc_head_def flinear_rows_def flinear_wf_def)
qed

subsection \<open>The layer stack and the edge encoder\<close>

lemma run_layers_ok:
  assumes "\<forall>g \<in> set gs. layer_ok c d g" "edges_in_range (length x) es" "attrs_ok d es ea"
    "mat_wf c x" "\<not> (tr \<and> gs \<noteq> [] \<and> length x = 1)"
  shows "\<exists>x' gs'. run_layers tr gs x es ea = Inr (x', gs') \<and> length x' = length x \<and> mat_wf c x' \<and>
           (\<forall>g \<in> set gs'. layer_ok c d g) \<and> (\<not> tr \<longrightarrow> gs' = gs)"
  using assms
proof (induction gs arbitrary: x)
  case Nil
  then show ?case by simp
next
  case (Cons g gs)
  then have g: "mygnn_wf g" "gnn_channels g = c" "gnn_dim g = d" "gnn_bn g \<noteq> None"
    by (simp_all add: layer_ok_def)
  obtain out g' where run: "mygnn_forward tr g x es ea = Inr (out, g')" and
    out: "length out = length x" "mat_wf c out" and
    g': "mygnn_wf g'" "gnn_channels g' = c" "gnn_dim g' = d" "gnn_bn g' \<noteq> None" "\<not> tr \<longrightarrow> g' = g"
    using mygnn_forward_ok [OF g(1), of x es ea tr] Cons.prems g by auto
  have "\<not> (tr \<and> gs \<noteq> [] \<and> length out = 1)" using Cons.prems(5) out(1) by simp
  then obtain x' gs' where "run_layers tr gs out es ea = Inr (x', gs')" "length x' = length out"
    "mat_wf c x'" "\<forall>g \<in> set gs'. layer_ok c d g" "\<not> tr \<longrightarrow> gs' = gs"
    using Cons.IH [of out] Cons.prems(1,3) out by (auto simp: Cons.prems(2))
  with run out g' show ?case by (auto simp: layer_ok_def)
qed

lemma run_layers_Inr_ok:
  "\<forall>g \<in> set gs. layer_ok c d g \<Longrightarrow> run_layers tr gs x es ea = Inr (x', gs') \<Longrightarrow>
   \<forall>g \<in> set gs'. layer_ok c d g"
proof (induction gs arbitrary: x gs')
  case (Cons g gs)
  then obtain out g1 gs1 where run: "mygnn_forward tr g x es ea = Inr (out, g1)"
    and rest: "run_layers tr gs out es ea = Inr (x', gs1)" and gs': "gs' = g1 # gs1"
    by (auto simp: bind_err_eq_Inr split: prod.splits)
  have "layer_ok c d g1"
    using mygnn_forward_Inr_wf [OF _ run] Cons.prems(1) by (auto simp: layer_ok_def)
  with Cons.IH [OF _ rest] Cons.prems(1) show ?case by (simp add: gs')
qed simp

lemma encode_edges_ok:
  assumes "case enc of None \<Rightarrow> d = 0
             | Some (l1, l2) \<Rightarrow> linear_wf (lin_in l1) (lin_in l2) l1 \<and> linear_wf (lin_in l2) d l2"
    and "case enc of None \<Rightarrow> True
             | Some (l1, l2) \<Rightarrow> \<exists>A. ea = Some A \<and> length A = length es \<and> mat_wf (lin_in l1) A"
  shows "\<exists>ea'. encode_edges enc ea = Inr ea' \<and> attrs_ok d es ea'"
proof (cases enc)
  case None
  with assms show ?thesis by (simp add: encode_edges_def attrs_ok_def)
next
  case (Some p)
  then obtain l1 l2 where p: "enc = Some (l1, l2)" by (cases p) auto
  with assms obtain A where A: "ea = Some A" "length A = length es" "mat_wf (lin_in l1) A"
    and w: "linear_wf (lin_in l1) (lin_in l2) l1" "linear_wf (lin_in l2) d l2" by auto
  have A1: "mat_wf (lin_in l2) (map (linear_apply l1) A)"
    using linear_rows_shape [OF w(1) linear_rows_ok [OF w(1) A(3)]] by simp
  have "mat_wf d (map (linear_apply l2) (map (linear_apply l1) A))"
    using linear_rows_shape [OF w(2) linear_rows_ok [OF w(2) A1]] by simp
  with A1 A w show ?thesis
    by (auto simp: encode_edges_def p linear_rows_ok attrs_ok_def dest: linear_rows_shape)
qed

lemma dropout_rows_eval: "dropout_rows p False keeps X = X"
  by (simp add: dropout_rows_def dropout_def map_nth)

lemma relu_rows_shape: "mat_wf c X \<Longrightarrow> mat_wf c (relu_rows X) \<and> length (relu_rows X) = length X"
  by (auto simp: relu_rows_def mat_wf_def)

lemma mat_width_wf: "mat_wf c X \<Longrightarrow> X \<noteq> [] \<Longrightarrow> mat_width X = c"
  by (cases X) (simp_all add: mat_width_def mat_wf_def)

lemma cgc_wfD:
  assumes "cgc_wf c dense n_out M"
  shows "\<forall>g \<in> set (gnn_layers M). layer_ok c (cgc_edge_dim M) g"
    "case edge_encoder M of None \<Rightarrow> cgc_edge_dim M = 0
       | Some (l1, l2) \<Rightarrow> linear_wf (lin_in l1) (lin_in l2) l1 \<and> linear_wf (lin_in l2) (cgc_edge_dim M) l2"
    "linear_wf c dense (linear1 M)" "bn_wf dense (bn2 M)" "flinear_wf dense n_out (linear2 M)"
  using assms by (simp_all add: cgc_wf_def)

lemma cgc_forward_eval_head:
  assumes wf: "cgc_wf c dense n_out M" and ev: "\<not> cgc_training M"
    and enc: "case edge_encoder M of None \<Rightarrow> True
      | Some (l1, l2) \<Rightarrow> \<exists>A. gb_attr d = Some A \<and> length A = length (gb_edges d) \<and> mat_wf (lin_in l1) A"
    and es: "edges_in_range (length (gb_x d)) (gb_edges d)" and x: "mat_wf c (gb_x d)"
    and b: "length (gb_batch d) = length (gb_x d)" "gb_batch d \<noteq> []"
  shows "\<exists>H2. mat_wf dense H2 \<and> length H2 = Suc (Max (set (gb_batch d))) \<and>
           cgc_forward M d keeps = bind_err (cgc_head (linear2 M) H2) (\<lambda>out. Inr (out, M))"
proof -
  note w = cgc_wfD [OF wf]
  obtain ea where ea: "encode_edges (edge_encoder M) (gb_attr d) = Inr ea"
    "attrs_ok (cgc_edge_dim M) (gb_edges d) ea"
    using encode_edges_ok [OF w(2) enc] by blast
  obtain x' where run: "run_layers False (gnn_layers M) (gb_x d) (gb_edges d) ea = Inr (x', gnn_layers M)"
    and x': "length x' = length (gb_x d)" "mat_wf c x'"
    using run_layers_ok [OF w(1) es ea(2) x, of False] by auto
  have width: "mat_width x' = c" using x' b by (auto intro: mat_width_wf)
  define P where "P = map (\<lambda>g. pool_rows c [x' ! k. k \<leftarrow> [0..<length x'], gb_batch d ! k = g])
      [0..<Suc (Max (set (gb_batch d)))]"
  have pool: "global_max_pool c x' (gb_batch d) = Inr P"
    using b x' by (simp add: global_max_pool_def P_def)
  have P: "length P = Suc (Max (set (gb_batch d)))" "mat_wf c P"
    using global_max_pool_shape [OF x'(2) pool] by simp_all
  define H where "H = map (linear_apply (linear1 M)) P"
  have lin1: "linear_rows (linear1 M) P = Inr H" by (simp add: H_def linear_rows_ok [OF w(3) P(2)])
  have H: "length H = length P" "mat_wf dense H" using linear_rows_shape [OF w(3) lin1] by simp_all
  have R: "mat_wf dense (relu_rows H)" "length (relu_rows H) = length H"
    using relu_rows_shape [OF H(2)] by simp_all
  have bn: "bn_forward False (bn2 M) (relu_rows H) = Inr (bn_eval (bn2 M) (relu_rows H), bn2 M)"
    using R w(4) by (simp add: bn_forward_def bn_wf_def)
  have H2: "length (bn_eval (bn2 M) (relu_rows H)) = length H" "mat_wf dense (bn_eval (bn2 M) (relu_rows H))"
    using bn_eval_shape [OF R(1)] R(2) by simp_all
  have "cgc_forward M d keeps = bind_err (cgc_head (linear2 M) (bn_eval (bn2 M) (relu_rows H))) (\<lambda>out. Inr (out, M))"
    using ev by (simp add: cgc_forward_def ea(1) run width pool dropout_rows_eval lin1 bn)
  with H2 H P show ?thesis by auto
qed

lemma bn_forward_wf:
  assumes "bn_wf c b" "bn_forward tr b X = Inr (Y, b')"
  shows "bn_wf c b'"
proof (cases "tr \<and> length X \<noteq> 1")
  case True
  with assms(2) have "b' = snd (bn_train b X)"
    by (auto simp: bn_forward_def split: if_splits)
  with assms(1) show ?thesis by (simp add: bn_wf_def bn_train_params)
next
  case False
  with assms show ?thesis by (auto simp: bn_forward_def split: if_splits)
qed

lemma dropout_rows_shape:
  assumes "mat_wf c X" "length X \<le> length keeps" "\<forall>r \<in> set keeps. length r = c"
  shows "mat_wf c (dropout_rows p tr keeps X) \<and> length (dropout_rows p tr keeps X) = length X"
proof -
  have "length (dropout p tr (keeps ! k) (X ! k)) = c" if "k < length X" for k
  proof -
    have "X ! k \<in> set X" "keeps ! k \<in> set keeps" using that assms(2) by simp_all
    then show ?thesis using assms(1,3) by (simp add: dropout_def mat_wf_def)
  qed
  then show ?thesis by (auto simp: dropout_rows_def mat_wf_def)
qed

lemma ex_cgc_wf:
  "cgc_wf 1 1 2 ex_cgc" "cgc_wf 1 1 2 (ex_cgc\<lparr>linear2 := ex_nan_head\<rparr>)"
  "cgc_wf 1 1 2 (ex_cgc\<lparr>cgc_training := True\<rparr>)"
  by (simp_all add: cgc_wf_def ex_cgc_def layer_ok_def ex_gnn_wf ex_lin_def linear_wf_def mat_wf_def
      bn_wf_def ex_bn_def flinear_wf_def ex_head_def ex_nan_head_def)

lemma ex_data_ok:
  "edges_in_range (length (gb_x ex_data)) (gb_edges ex_data)" "mat_wf 1 (gb_x ex_data)"
  "length (gb_batch ex_data) = length (gb_x ex_data)" "gb_batch ex_data \<noteq> []"
  "gb_batch ex_data = replicate (length (gb_x ex_data)) 0" "2 \<le> length (gb_x ex_data)"
  by (simp_all add: ex_data_def edges_in_range_def mat_wf_def)

lemma ex_cgc_fields [simp]:
  "cgc_training ex_cgc = False" "edge_encoder ex_cgc = None" "linear2 ex_cgc = ex_head"
  by (simp_all add: ex_cgc_def)

lemma run_layers_eval_same:
  "run_layers False gs x es ea = Inr (x', gs') \<Longrightarrow> gs' = gs"
proof (induction gs arbitrary: x gs')
  case (Cons g gs)
  then obtain out g1 gs1 where run: "mygnn_forward False g x es ea = Inr (out, g1)"
    and rest: "run_layers False gs out es ea = Inr (x', gs1)" and gs': "gs' = g1 # gs1"
    by (auto simp: bind_err_eq_Inr split: prod.splits)
  with Cons.IH [OF rest] mygnn_forward_eval_same [OF run] show ?case by simp
qed simp

lemma cgc_forward_eval_same:
  assumes "\<not> cgc_training M" "cgc_forward M d keeps = Inr (out, M')"
  shows "M' = M"
proof -
  from assms obtain ea x gs H2 b2 where
    layers: "run_layers False (gnn_layers M) (gb_x d) (gb_edges d) ea = Inr (x, gs)" and
    bn: "\<exists>H. bn_forward False (bn2 M) (relu_rows H) = Inr (H2, b2)" and
    M': "M' = M\<lparr>gnn_layers := gs, bn2 := b2\<rparr>"
    by (fastforce simp: cgc_forward_def bind_err_eq_Inr split: prod.splits)
  have "gs = gnn_layers M" by (rule run_layers_eval_same [OF layers])
  moreover have "b2 = bn2 M" using bn by (auto simp: bn_forward_def split: if_splits)
  ultimately show ?thesis by (simp add: M')
qed

lemma run_layers_indeg_cong:
  assumes "\<forall>g \<in> set gs. mygnn_wf g" "edges_in_range (length x) es" "edges_in_range (length x) es'"
    and "\<forall>i < length x. indeg es i = indeg es' i"
  shows "run_layers tr gs x es None = run_layers tr gs x es' None"
  using assms
proof (induction gs arbitrary: x)
  case (Cons g gs)
  have eq: "mygnn_forward tr g x es None = mygnn_forward tr g x es' None"
    by (rule mygnn_forward_indeg_cong) (use Cons.prems in simp_all)
  show ?case
  proof (cases "mygnn_forward tr g x es None")
    case (Inr p)
    obtain x' g' where p: "p = (x', g')" by fastforce
    with Inr have "length x' = length x" by (simp add: mygnn_forward_Inr_length)
    with Cons.prems have "run_layers tr gs x' es None = run_layers tr gs x' es' None"
      by (intro Cons.IH) simp_all
    with Inr p eq show ?thesis by simp
  qed (use eq in simp)
qed simp

subsection \<open>Properties of the classifier\<close>

text \<open>C18. In evaluation mode, on inputs of the model's widths and with
  finite \<open>linear2\<close> parameters, \<open>forward\<close> raises nothing, returns one row
  per graph of the batch with one value per output channel, and leaves the
  model unchanged.\<close>

theorem cgc_forward_eval:
  assumes wf: "cgc_wf c dense n_out M" and ev: "\<not> cgc_training M"
    and enc: "case edge_encoder M of None \<Rightarrow> True
      | Some (l1, l2) \<Rightarrow> \<exists>A. gb_attr d = Some A \<and> length A = length (gb_edges d) \<and> mat_wf (lin_in l1) A"
    and es: "edges_in_range (length (gb_x d)) (gb_edges d)" and x: "mat_wf c (gb_x d)"
    and b: "length (gb_batch d) = length (gb_x d)" "gb_batch d \<noteq> []"
    and fin: "\<forall>w \<in> set (fl_weight (linear2 M)). \<forall>v \<in> set w. is_fin v"
      "\<forall>v \<in> set (fl_bias (linear2 M)). is_fin v"
    and ne: "0 < dense" "0 < n_out"
  shows "\<exists>out. cgc_forward M d keeps = Inr (out, M) \<and> length out = Suc (Max (set (gb_batch d))) \<and>
      (\<forall>row \<in> set out. length row = n_out)"
proof -
  obtain H2 where H2: "mat_wf dense H2" "length H2 = Suc (Max (set (gb_batch d)))"
    and fw: "cgc_forward M d keeps = bind_err (cgc_head (linear2 M) H2) (\<lambda>out. Inr (out, M))"
    using cgc_forward_eval_head [OF wf ev enc es x b] by blast
  obtain out where "cgc_head (linear2 M) H2 = Inr out" "length out = length H2"
      "\<forall>row \<in> set out. length row = n_out \<and> (\<forall>v \<in> set row. \<exists>y. v = Fin y \<and> 0 < y \<and> y < 1)"
    using cgc_head_ok [OF cgc_wfD(5) [OF wf] H2(1) fin ne] by blast
  with fw H2 show ?thesis by fastforce
qed

theorem cgc_forward_eval_witness: "\<exists>out. cgc_forward ex_cgc ex_data [] = Inr (out, ex_cgc) \<and> length out = 1"
  using cgc_forward_eval [where c = 1 and dense = 1 and n_out = 2 and M = ex_cgc and d = ex_data
      and keeps = "[]", OF ex_cgc_wf(1) _ _ ex_data_ok(1-4)]
  by (simp add: ex_head_def is_fin_def ex_data_def) blast

text \<open>C19. The divergence scenario of the spec: in evaluation mode, on
  inputs of the model's widths, when the weights of \<open>linear2\<close> contain a
  \<open>NaN\<close> or both infinities (so that their mean is \<open>NaN\<close>), \<open>forward\<close>
  raises \<open>RuntimeError("Exploding gradients. Tune learning rate")\<close> and
  returns no output.\<close>

theorem cgc_forward_divergence:
  assumes wf: "cgc_wf c dense n_out M" and ev: "\<not> cgc_training M"
    and enc: "case edge_encoder M of None \<Rightarrow> True
      | Some (l1, l2) \<Rightarrow> \<exists>A. gb_attr d = Some A \<and> length A = length (gb_edges d) \<and> mat_wf (lin_in l1) A"
    and es: "edges_in_range (length (gb_x d)) (gb_edges d)" and x: "mat_wf c (gb_x d)"
    and b: "length (gb_batch d) = length (gb_x d)" "gb_batch d \<noteq> []"
    and nan: "NaN \<in> set (concat (fl_weight (linear2 M))) \<or>
      (PInf \<in> set (concat (fl_weight (linear2 M))) \<and> NInf \<in> set (concat (fl_weight (linear2 M))))"
  shows "cgc_forward M d keeps = Inl (RuntimeError ''Exploding gradients. Tune learning rate'')"
proof -
  obtain H2 where H2: "mat_wf dense H2"
    and fw: "cgc_forward M d keeps = bind_err (cgc_head (linear2 M) H2) (\<lambda>out. Inr (out, M))"
    using cgc_forward_eval_head [OF wf ev enc es x b] by blast
  have "fl_in (linear2 M) = dense" using cgc_wfD(5) [OF wf] by (simp add: flinear_wf_def)
  with H2 nan show ?thesis
    by (auto simp: fw cgc_head_def flinear_rows_def isnan_def fmean_NaN_iff)
qed

theorem cgc_forward_divergence_witness: "cgc_forward (ex_cgc\<lparr>linear2 := ex_nan_head\<rparr>) ex_data [] =
    Inl (RuntimeError ''Exploding gradients. Tune learning rate'')"
  by (rule cgc_forward_divergence [OF ex_cgc_wf(2) _ _ ex_data_ok(1-4)]) (simp_all add: ex_nan_head_def)

text \<open>C20. The divergence check does not catch infinite weights: when
  the weights of \<open>linear2\<close> hold no \<open>NaN\<close> and no \<open>-inf\<close>, their mean is
  not \<open>NaN\<close> and the check passes, even with a \<open>+inf\<close> weight; and any
  input row with a 0 facing that weight yields a \<open>NaN\<close> output
  (\<open>inf * 0\<close>), which \<open>forward\<close> returns.\<close>

theorem cgc_head_inf_weight_nan:
  assumes W: "NaN \<notin> set (concat (fl_weight L2))" "NInf \<notin> set (concat (fl_weight L2))"
    and H: "mat_wf (fl_in L2) H" and h: "h \<in> set H"
    and i: "i < length (fl_weight L2)" "i < length (fl_bias L2)"
    and j: "j < length (fl_weight L2 ! i)" "j < length h"
    and inf: "fl_weight L2 ! i ! j = PInf" and z: "h ! j = 0"
  shows "\<exists>out. cgc_head L2 H = Inr out \<and> (\<exists>row \<in> set out. row ! i = NaN)"
proof -
  have P: "PInf \<in> set (concat (fl_weight L2))"
    using nth_mem [OF i(1)] nth_mem [OF j(1)] inf by auto
  then have "concat (fl_weight L2) \<noteq> []" by (metis empty_iff list.set(1))
  with W P have pass: "\<not> isnan (fmean (concat (fl_weight L2)))"
    by (simp add: isnan_def fmean_NaN_iff)
  have "map2 (\<lambda>wi hi. fmul wi (Fin hi)) (fl_weight L2 ! i) h ! j = NaN"
    using j inf z by simp
  then have "NaN \<in> set (map2 (\<lambda>wi hi. fmul wi (Fin hi)) (fl_weight L2 ! i) h)"
    using j nth_mem [of j "map2 (\<lambda>wi hi. fmul wi (Fin hi)) (fl_weight L2 ! i) h"] by simp
  then have "fsum (map2 (\<lambda>wi hi. fmul wi (Fin hi)) (fl_weight L2 ! i) h) = NaN"
    by (simp add: fsum_NaN_iff)
  then have "map fsigmoid (flinear_apply L2 h) ! i = NaN"
    using i by (simp add: flinear_apply_def)
  with h H pass show ?thesis
    by (auto simp: cgc_head_def flinear_rows_def)
qed

theorem cgc_head_inf_weight_nan_witness:
  "\<exists>out. cgc_head ex_inf_head [[0]] = Inr out \<and> (\<exists>row \<in> set out. row ! 0 = NaN)"
  by (rule cgc_head_inf_weight_nan [where h = "[0]" and j = 0]) (simp_all add: ex_inf_head_def mat_wf_def)

text \<open>C21. For any initialiser that draws matrices of the requested shapes,
  \<open>__init__\<close> builds a well-formed model in training mode with
  \<open>MODEL_LAYERS\<close> layers, all \<open>linear2\<close> parameters finite.\<close>

theorem cgc_init_wf:
  assumes "\<forall>k n_in n_out. length (fst (w k n_in n_out)) = n_out \<and> mat_wf n_in (fst (w k n_in n_out)) \<and>
             length (snd (w k n_in n_out)) = n_out"
  shows "cgc_wf (mp_feat_size P) (mp_dense_neurons P) (mp_out_channels P) (cgc_init w P) \<and>
    length (gnn_layers (cgc_init w P)) = mp_layers P \<and> cgc_training (cgc_init w P) \<and>
    (\<forall>r \<in> set (fl_weight (linear2 (cgc_init w P))). \<forall>v \<in> set r. is_fin v) \<and>
    (\<forall>v \<in> set (fl_bias (linear2 (cgc_init w P))). is_fin v)"
proof -
  have lw: "linear_wf i n (linear_init w k b i n)" for k b i n
    using assms by (simp add: linear_init_wf)
  have gw: "mygnn_wf (mygnn_init w k ch d bn b)" for k ch d bn b
    by (rule mygnn_init_wf [OF assms])
  have fields: "gnn_channels (mygnn_init w k ch d bn b) = ch" "gnn_dim (mygnn_init w k ch d bn b) = d"
    "gnn_bn (mygnn_init w k ch d True b) = Some (bn_init ch)" "lin_in (linear_init w k b i n) = i" for k ch d bn b i n
    by (simp_all add: mygnn_init_def linear_init_def)
  have fl: "flinear_wf i n (flinear_init w k i n)" for k i n
    using assms by (simp add: flinear_wf_def flinear_init_def mat_wf_def)
  have fin: "\<forall>r \<in> set (fl_weight (flinear_init w k i n)). \<forall>v \<in> set r. is_fin v"
    "\<forall>v \<in> set (fl_bias (flinear_init w k i n)). is_fin v" for k i n
    by (auto simp: flinear_init_def is_fin_def)
  show ?thesis
    by (auto simp: cgc_init_def Let_def cgc_wf_def layer_ok_def lw gw fields fl fin bn_wf_def
        bn_init_lengths)
qed

theorem cgc_init_wf_witness: "cgc_wf 2 4 2 (cgc_init ex_init ex_params) \<and> length (gnn_layers (cgc_init ex_init ex_params)) = 3"
  using cgc_init_wf [of ex_init ex_params]
  by (simp add: ex_init_def mat_wf_def) (simp add: ex_params_def)

text \<open>C22. In training mode a batch holding a single graph (of at least two
  nodes) always fails: the pooled batch has one row and \<open>bn2\<close> raises
  \<open>Expected more than 1 value per channel when training\<close>.\<close>

theorem cgc_forward_train_single_graph:
  assumes wf: "cgc_wf c dense n_out M" and tr: "cgc_training M"
    and enc: "case edge_encoder M of None \<Rightarrow> True
      | Some (l1, l2) \<Rightarrow> \<exists>A. gb_attr d = Some A \<and> length A = length (gb_edges d) \<and> mat_wf (lin_in l1) A"
    and es: "edges_in_range (length (gb_x d)) (gb_edges d)" and x: "mat_wf c (gb_x d)"
    and one: "gb_batch d = replicate (length (gb_x d)) 0" "2 \<le> length (gb_x d)"
    and keeps: "keeps \<noteq> []" "\<forall>r \<in> set keeps. length r = c"
  shows "cgc_forward M d keeps = Inl (ValueError ''Expected more than 1 value per channel when training'')"
proof -
  note w = cgc_wfD [OF wf]
  obtain ea where ea: "encode_edges (edge_encoder M) (gb_attr d) = Inr ea"
    "attrs_ok (cgc_edge_dim M) (gb_edges d) ea"
    using encode_edges_ok [OF w(2) enc] by blast
  obtain x' gs where run: "run_layers True (gnn_layers M) (gb_x d) (gb_edges d) ea = Inr (x', gs)"
    and x': "length x' = length (gb_x d)" "mat_wf c x'"
    using run_layers_ok [OF w(1) es ea(2) x, of True] one(2) by auto
  have width: "mat_width x' = c" using x' one(2) by (auto intro: mat_width_wf)
  define P where "P = [pool_rows c [x' ! k. k \<leftarrow> [0..<length x'], gb_batch d ! k = 0]]"
  have ne: "gb_x d \<noteq> []" using one(2) by auto
  have "set (gb_batch d) = {0}" using one ne by auto
  then have pool: "global_max_pool c x' (gb_batch d) = Inr P"
    using one x' ne by (simp add: global_max_pool_def P_def)
  have P: "length P = 1" "mat_wf c P"
    using global_max_pool_shape [OF x'(2) pool] by (simp_all add: P_def)
  define D where "D = dropout_rows (dropout_rate M) True keeps P"
  have D: "mat_wf c D" "length D = 1"
    using dropout_rows_shape [OF P(2), of keeps "dropout_rate M" True] P(1) keeps
    by (simp_all add: D_def Suc_leI)
  define H where "H = map (linear_apply (linear1 M)) D"
  have lin1: "linear_rows (linear1 M) D = Inr H" by (simp add: H_def linear_rows_ok [OF w(3) D(1)])
  have H: "length H = 1" "mat_wf dense H" using linear_rows_shape [OF w(3) lin1] D(2) by simp_all
  have R: "mat_wf dense (relu_rows H)" "length (relu_rows H) = 1"
    using relu_rows_shape [OF H(2)] H(1) by simp_all
  have "bn_forward True (bn2 M) (relu_rows H) =
      Inl (ValueError ''Expected more than 1 value per channel when training'')"
    using R w(4) by (simp add: bn_forward_def bn_wf_def)
  then show ?thesis
    using tr by (simp add: cgc_forward_def ea(1) run width pool D_def [symmetric] lin1)
qed

theorem cgc_forward_train_single_graph_witness: "cgc_forward (ex_cgc\<lparr>cgc_training := True\<rparr>) ex_data [[True]] =
    Inl (ValueError ''Expected more than 1 value per channel when training'')"
  by (rule cgc_forward_train_single_graph [OF ex_cgc_wf(3) _ _ ex_data_ok(1,2,5,6)]) simp_all


text \<open>C26. Without an edge encoder the classifier sees a graph only through
  its node features and in-degrees: two batches whose edge lists give every
  node the same in-degree produce the same result, in either mode (for
  example a single edge \<open>0 \<rightarrow> 1\<close> and a single edge \<open>2 \<rightarrow> 1\<close>).\<close>

theorem cgc_forward_indeg_only:
  assumes "\<forall>g \<in> set (gnn_layers M). mygnn_wf g" "edge_encoder M = None"
    and "edges_in_range (length (gb_x d)) es" "edges_in_range (length (gb_x d)) es'"
    and "\<forall>i < length (gb_x d). indeg es i = indeg es' i"
  shows "cgc_forward M (d\<lparr>gb_edges := es\<rparr>) keeps = cgc_forward M (d\<lparr>gb_edges := es'\<rparr>) keeps"
proof -
  have "run_layers (cgc_training M) (gnn_layers M) (gb_x d) es None =
        run_layers (cgc_training M) (gnn_layers M) (gb_x d) es' None"
    using assms(1,3-5) by (rule run_layers_indeg_cong)
  then show ?thesis using assms(2) by (simp add: cgc_forward_def encode_edges_def)
qed

theorem cgc_forward_indeg_only_witness:
  "cgc_forward ex_cgc (ex_data3\<lparr>gb_edges := [(0, 1)]\<rparr>) [] = cgc_forward ex_cgc (ex_data3\<lparr>gb_edges := [(2, 1)]\<rparr>) []"
  by (rule cgc_forward_indeg_only)
    (simp_all add: ex_cgc_def ex_gnn_wf ex_data3_def edges_in_range_def indeg_def less_Suc_eq numeral_3_eq_3)

end
