(* ===== verification/Evaluation.thy ===== *)
theory Evaluation
  imports CGC_Class
begin

text \<open>
  \<open>test(model, loader, device)\<close> (graph\_neural\_network.py, lines
  277--293).  It switches the model to evaluation mode (and never back),
  runs every batch of the loader through the model, counts the graphs whose
  predicted class (\<open>argmax\<close> of the output row) equals the label's
  \<open>argmax\<close>, adds up the batches' mean cross-entropy losses, and divides
  both sums by \<open>len(loader.dataset)\<close>.

  The routine is written against an interface: \<open>ev\<close> is \<open>model.eval()\<close>,
  \<open>fwd m d\<close> is \<open>model(data)\<close> returning the output rows and the model
  after the call, \<open>lab d\<close> is \<open>data.y\<close>, and \<open>n\<close> is
  \<open>len(loader.dataset)\<close>.  The classifier of \<open>CGC_Class\<close> implements it
  with \<open>cgc_eval\<close> and \<open>cgc_forward\<close>; its outputs are finite there, and
  \<open>fval_real\<close> reads them as reals.  \<open>@torch.no_grad()\<close> and
  \<open>data.to(device)\<close> do not change the values and are not modelled.
\<close>

text \<open>\<open>torch.argmax\<close> along a row: the index of the first maximal entry.\<close>

fun argmax_from :: "nat \<Rightarrow> nat \<Rightarrow> real \<Rightarrow> real list \<Rightarrow> nat" where
  "argmax_from i bi bx [] = bi"
| "argmax_from i bi bx (x # xs) = (if bx < x then argmax_from (Suc i) i x xs else argmax_from (Suc i) bi bx xs)"

definition argmax :: "real list \<Rightarrow> nat" where
  "argmax xs = (case xs of [] \<Rightarrow> 0 | x # xs' \<Rightarrow> argmax_from 1 0 x xs')"

text \<open>\<open>int((pred == label).sum())\<close>.\<close>

definition count_correct :: "real list list \<Rightarrow> real list list \<Rightarrow> nat" where
  "count_correct out y = length (filter (\<lambda>(o', t). argmax o' = argmax t) (zip out y))"

text \<open>\<open>torch.nn.CrossEntropyLoss()\<close> with class-probability targets and the
  default \<open>reduction='mean'\<close>: the mean over the batch of
  \<open>- sum_c y_c log_softmax(out)_c\<close>.\<close>

definition log_softmax :: "real list \<Rightarrow> real list" where
  "log_softmax o' = map (\<lambda>v. v - ln (sum_list (map exp o'))) o'"

definition cross_entropy :: "real list list \<Rightarrow> real list list \<Rightarrow> real" where
  "cross_entropy out y =
     sum_list (map2 (\<lambda>o' t. - sum_list (map2 (*) t (log_softmax o'))) out y) / real (length out)"

text \<open>The loop of lines 283--292, with the running \<open>correct\<close> and \<open>loss\<close>.\<close>

fun test_loop ::
  "('m \<Rightarrow> 'd \<Rightarrow> py_error + real list list \<times> 'm) \<Rightarrow> ('d \<Rightarrow> real list list) \<Rightarrow> 'm \<Rightarrow> 'd list \<Rightarrow>
   nat \<Rightarrow> real \<Rightarrow> py_error + (nat \<times> real) \<times> 'm" where
  "test_loop fwd lab m [] correct loss = Inr ((correct, loss), m)"
| "test_loop fwd lab m (d # ds) correct loss =
     bind_err (fwd m d) (\<lambda>(out, m').
       test_loop fwd lab m' ds (correct + count_correct out (lab d)) (loss + cross_entropy out (lab d)))"

text \<open>\<open>correct / len(loader.dataset)\<close> divides Python ints and raises
  \<open>ZeroDivisionError\<close> on an empty dataset.\<close>

definition test ::
  "('m \<Rightarrow> 'm) \<Rightarrow> ('m \<Rightarrow> 'd \<Rightarrow> py_error + real list list \<times> 'm) \<Rightarrow> ('d \<Rightarrow> real list list) \<Rightarrow>
   'm \<Rightarrow> 'd list \<Rightarrow> nat \<Rightarrow> py_error + (real \<times> real) \<times> 'm" where
  "test ev fwd lab m loader n =
     bind_err (test_loop fwd lab (ev m) loader 0 0)
       (\<lambda>((correct, loss), m').
          if n = 0 then Inl ZeroDivisionError else Inr ((real correct / real n, loss / real n), m'))"

text \<open>An example model for the witnesses: it ignores its state and outputs
  \<open>[0, 0]\<close> for every graph of a batch; a batch is its list of labels.\<close>

definition ex_fwd :: "unit \<Rightarrow> real list list \<Rightarrow> py_error + real list list \<times> unit" where
  "ex_fwd m y = Inr (replicate (length y) [0, 0], m)"

definition ex_loader :: "real list list list" where
  "ex_loader = [[[1, 0]], [[1, 0], [1, 0], [1, 0]]]"

subsection \<open>The classifier as the evaluated model\<close>

fun fval_real :: "fval \<Rightarrow> real" where
  "fval_real (Fin r) = r"
| "fval_real PInf = 0"
| "fval_real NInf = 0"
| "fval_real NaN = 0"

definition cgc_model_call :: "cgc \<Rightarrow> graph_batch \<Rightarrow> py_error + real list list \<times> cgc" where
  "cgc_model_call M d =
     bind_err (cgc_forward M d []) (\<lambda>(out, M'). Inr (map (map fval_real) out, M'))"

definition cgc_test :: "cgc \<Rightarrow> graph_batch list \<Rightarrow> nat \<Rightarrow> py_error + (real \<times> real) \<times> cgc" where
  "cgc_test M loader n = test cgc_eval cgc_model_call gb_y M loader n"

subsection \<open>Facts about the loop\<close>

lemma test_loop_fixed:
  assumes "\<forall>d \<in> set ds. fwd m d = Inr (outs d, m)"
  shows "test_loop fwd lab m ds c l =
    Inr ((c + sum_list (map (\<lambda>d. count_correct (outs d) (lab d)) ds),
          l + sum_list (map (\<lambda>d. cross_entropy (outs d) (lab d)) ds)), m)"
  using assms by (induction ds arbitrary: c l) (simp_all add: algebra_simps)

lemma test_loop_model:
  assumes "\<And>m' d out m''. P m' \<Longrightarrow> fwd m' d = Inr (out, m'') \<Longrightarrow> m'' = m'"
    and "P m" and "test_loop fwd lab m ds c l = Inr (r, m2)"
  shows "m2 = m"
  using assms(2,3)
proof (induction ds arbitrary: c l)
  case (Cons d ds)
  then obtain out m' where f: "fwd m d = Inr (out, m')"
    and rest: "test_loop fwd lab m' ds (c + count_correct out (lab d)) (l + cross_entropy out (lab d)) = Inr (r, m2)"
    by (auto simp: bind_err_eq_Inr split: prod.splits)
  have "m' = m" by (rule assms(1) [OF Cons.prems(1) f])
  with Cons.IH [OF Cons.prems(1)] rest show ?case by simp
qed simp

lemma count_correct_le: "count_correct out y \<le> length y"
proof -
  have "count_correct out y \<le> length (zip out y)" unfolding count_correct_def by (rule length_filter_le)
  also have "\<dots> \<le> length y" by simp
  finally show ?thesis .
qed

lemma cgc_model_call_same:
  "\<not> cgc_training M \<Longrightarrow> cgc_model_call M d = Inr (out, M') \<Longrightarrow> M' = M"
  by (auto simp: cgc_model_call_def bind_err_eq_Inr dest: cgc_forward_eval_same)

subsection \<open>Properties of the evaluation\<close>

text \<open>C23. For a model whose evaluation-mode calls return outputs \<open>outs d\<close>
  and leave it unchanged, \<open>test\<close> returns the number of correct
  predictions over all batches divided by the dataset size, the sum of the
  batches' mean losses divided by the dataset size, and the model in
  evaluation mode.\<close>

theorem test_result:
  assumes "\<forall>d \<in> set loader. fwd (ev m) d = Inr (outs d, ev m)" and "0 < n"
  shows "test ev fwd lab m loader n =
    Inr ((real (sum_list (map (\<lambda>d. count_correct (outs d) (lab d)) loader)) / real n,
          sum_list (map (\<lambda>d. cross_entropy (outs d) (lab d)) loader) / real n), ev m)"
  using assms(2) by (simp add: test_def test_loop_fixed [where outs = outs and fwd = fwd and m = "ev m", OF assms(1)])

theorem test_result_witness: "test id ex_fwd id () ex_loader 4 = Inr ((1, ln 2 / 2), ())"
proof -
  have "test id ex_fwd id () ex_loader 4 =
    Inr ((real (sum_list (map (\<lambda>d. count_correct (replicate (length d) [0, 0]) (id d)) ex_loader)) / real 4,
          sum_list (map (\<lambda>d. cross_entropy (replicate (length d) [0, 0]) (id d)) ex_loader) / real 4), id ())"
    by (rule test_result) (simp_all add: ex_loader_def ex_fwd_def)
  then show ?thesis
    by (simp add: ex_loader_def count_correct_def argmax_def cross_entropy_def log_softmax_def)
qed

text \<open>C24. On an empty dataset \<open>test\<close> raises \<open>ZeroDivisionError\<close> once
  the loop has run without error.\<close>

theorem test_empty_dataset:
  assumes "\<forall>d \<in> set loader. \<exists>out. fwd (ev m) d = Inr (out, ev m)"
  shows "test ev fwd lab m loader 0 = Inl ZeroDivisionError"
proof -
  from assms obtain outs where "\<forall>d \<in> set loader. fwd (ev m) d = Inr (outs d, ev m)"
    by metis
  then show ?thesis by (simp add: test_def test_loop_fixed [where outs = outs])
qed

theorem test_empty_dataset_witness: "test id ex_fwd id () [] 0 = Inl ZeroDivisionError"
  by (rule test_empty_dataset) simp

text \<open>When the dataset size is the number of graphs in the loader,
  the reported accuracy lies in \<open>[0, 1]\<close>.\<close>

theorem test_accuracy_bounds:
  assumes "\<forall>d \<in> set loader. fwd (ev m) d = Inr (outs d, ev m)"
    and "n = sum_list (map (\<lambda>d. length (lab d)) loader)" "0 < n"
    and "test ev fwd lab m loader n = Inr ((acc, loss), m')"
  shows "0 \<le> acc \<and> acc \<le> 1"
proof -
  have "sum_list (map (\<lambda>d. count_correct (outs d) (lab d)) loader) \<le> n"
    unfolding assms(2) by (rule sum_list_mono) (simp add: count_correct_le)
  moreover have "acc = real (sum_list (map (\<lambda>d. count_correct (outs d) (lab d)) loader)) / real n"
    using assms(3,4) by (simp add: test_def test_loop_fixed [where outs = outs and fwd = fwd and m = "ev m", OF assms(1)])
  ultimately show ?thesis using assms(3) by simp
qed

theorem test_accuracy_bounds_witness: "\<exists>acc loss. test id ex_fwd id () ex_loader 4 = Inr ((acc, loss), ()) \<and> acc \<le> 1"
proof -
  have r: "test id ex_fwd id () ex_loader 4 = Inr ((1, ln 2 / 2), ())"
    by (simp add: test_def ex_loader_def ex_fwd_def count_correct_def argmax_def cross_entropy_def
        log_softmax_def)
  have "(1::real) \<le> 1"
    using test_accuracy_bounds [OF _ _ _ r, of "\<lambda>d. replicate (length d) [0, 0]"]
    by (simp add: ex_loader_def ex_fwd_def)
  with r show ?thesis by blast
qed

text \<open>C25. \<open>test\<close> on the classifier leaves it in evaluation mode with all
  its parameters and running statistics unchanged: it calls
  \<open>model.eval()\<close> and never restores training mode.\<close>

theorem cgc_test_leaves_eval:
  "cgc_test M loader n = Inr (r, M') \<Longrightarrow> M' = cgc_eval M"
proof -
  assume run: "cgc_test M loader n = Inr (r, M')"
  then obtain r0 where loop: "test_loop cgc_model_call gb_y (cgc_eval M) loader 0 0 = Inr (r0, M')"
    by (auto simp: cgc_test_def test_def bind_err_eq_Inr split: prod.splits if_splits)
  show "M' = cgc_eval M"
    by (rule test_loop_model [where P = "\<lambda>m. \<not> cgc_training m", OF cgc_model_call_same _ loop])
      (simp_all add: cgc_eval_def)
qed

theorem cgc_test_leaves_eval_witness:
  "\<exists>r M'. cgc_test ex_cgc [ex_data] 1 = Inr (r, M') \<and> M' = cgc_eval ex_cgc"
proof -
  obtain H2 where H2: "mat_wf 1 H2"
    and fw: "cgc_forward ex_cgc ex_data [] = bind_err (cgc_head ex_head H2) (\<lambda>out. Inr (out, ex_cgc))"
    using cgc_forward_eval_head [OF ex_cgc_wf(1) _ _ ex_data_ok(1-4), of "[]"] by auto
  obtain out where "cgc_head ex_head H2 = Inr out"
    using cgc_head_ok [of 1 2 ex_head H2] H2
    by (auto simp: ex_head_def flinear_wf_def is_fin_def)
  with fw have f: "cgc_forward ex_cgc ex_data [] = Inr (out, ex_cgc)" by simp
  have ev: "cgc_eval ex_cgc = ex_cgc" by (simp add: cgc_eval_def ex_cgc_def)
  obtain r where r: "cgc_test ex_cgc [ex_data] 1 = Inr (r, cgc_eval ex_cgc)"
    by (simp add: cgc_test_def test_def cgc_model_call_def ev f)
  with cgc_test_leaves_eval [OF r] show ?thesis by blast
qed

end
