(* ===== verification/GAL.thy ===== *)
theory GAL
  imports MYGNN
begin

text \<open>
  \<open>class GAL(MessagePassing)\<close> (graph\_neural\_network.py, lines 36--100),
  an attention layer the classifier does not use (its use in \<open>MYGNN\<close> is
  commented out).  A layer holds the attention vector \<open>a\<close> (of length
  \<open>2 out\<close>) and a \<open>Linear(in, out)\<close>.  \<open>forward\<close> unpacks
  \<open>col, row = edge_index\<close> (so \<open>col\<close> holds the sources and \<open>row\<close> the
  targets), scores each edge by \<open>leakyrelu(a . [x_row, x_col])\<close>
  (\<open>gal_scores\<close>), sums the scores per source in the loop of lines 75--77
  (\<open>gal_score_sums\<close>), normalises each score by
  \<open>exp(e_k) / exp(e_all[col_k])\<close> in the loop of lines 82--83
  (\<open>gal_alpha\<close>), and propagates \<open>alpha_k * x_col\<close> onto the target with
  \<open>aggr='add'\<close>.  With exactly one edge \<open>squeeze()\<close> turns the scores into
  a 0-dimensional tensor and \<open>e[count]\<close> raises \<open>IndexError\<close>.  The
  weights of line 83 are computed with Python's \<open>math.exp\<close> on binary64
  floats: it raises \<open>OverflowError\<close> when the result reaches the overflow
  threshold of the format, and the division raises \<open>ZeroDivisionError\<close>
  when \<open>exp(e_all[col_k])\<close> underflows to 0.0 (\<open>gal_exp_error\<close>, the first
  failing iteration of the loop).  Other rounding is not modelled.
\<close>

record gal =
  gal_a :: vec
  gal_linear :: linear

text \<open>\<open>torch.nn.LeakyReLU()\<close> with the default negative slope 0.01.\<close>

definition leaky_relu :: "real \<Rightarrow> real" where
  "leaky_relu v = (if 0 \<le> v then v else v / 100)"

definition gal_scores :: "gal \<Rightarrow> mat \<Rightarrow> (nat \<times> nat) list \<Rightarrow> real list" where
  "gal_scores G x es = map (\<lambda>(c, r). leaky_relu (dot (gal_a G) (x ! r @ x ! c))) es"

definition gal_score_sums :: "nat \<Rightarrow> (nat \<times> nat) list \<Rightarrow> real list \<Rightarrow> real list" where
  "gal_score_sums n es e = fold (\<lambda>(c, ek) acc. acc[c := acc ! c + ek]) (zip (map fst es) e) (replicate n 0)"

definition gal_alpha :: "nat \<Rightarrow> (nat \<times> nat) list \<Rightarrow> real list \<Rightarrow> real list" where
  "gal_alpha n es e =
     (let e_all = gal_score_sums n es e
      in map (\<lambda>k. exp (e ! k) / exp (e_all ! fst (es ! k))) [0..<length e])"

text \<open>\<open>message\<close> (lines 91--100): the source's row scaled by the edge's weight.\<close>

definition gal_message :: "real \<Rightarrow> vec \<Rightarrow> vec" where
  "gal_message norm_k x_j = map (\<lambda>v. norm_k * v) x_j"

text \<open>The binary64 thresholds of \<open>math.exp\<close>: the result rounds to
  infinity (and \<open>math.exp\<close> raises) from \<open>2^1023 (2 - 2^-53)\<close> on, and
  rounds to 0.0 up to \<open>2^-1075\<close>.\<close>

definition exp_overflows :: "real \<Rightarrow> bool" where
  "exp_overflows v \<longleftrightarrow> 2 ^ 1023 * (2 - 1 / 2 ^ 53) \<le> exp v"

definition exp_underflows :: "real \<Rightarrow> bool" where
  "exp_underflows v \<longleftrightarrow> exp v \<le> 1 / 2 ^ 1075"

text \<open>The exception of iteration \<open>k\<close> of the loop of lines 82--83:
  \<open>math.exp(e[k])\<close>, then \<open>math.exp(e_all[col[k]])\<close>, then the division.\<close>

definition gal_exp_step :: "(nat \<times> nat) list \<Rightarrow> real list \<Rightarrow> real list \<Rightarrow> nat \<Rightarrow> py_error option" where
  "gal_exp_step es e e_all k =
     (if exp_overflows (e ! k) then Some OverflowError
      else if exp_overflows (e_all ! fst (es ! k)) then Some OverflowError
      else if exp_underflows (e_all ! fst (es ! k)) then Some ZeroDivisionError
      else None)"

definition gal_exp_error :: "nat \<Rightarrow> (nat \<times> nat) list \<Rightarrow> real list \<Rightarrow> py_error option" where
  "gal_exp_error n es e =
     fold (\<lambda>k r. case r of Some err \<Rightarrow> Some err | None \<Rightarrow> gal_exp_step es e (gal_score_sums n es e) k)
       [0..<length e] None"

definition gal_forward :: "gal \<Rightarrow> mat \<Rightarrow> (nat \<times> nat) list \<Rightarrow> py_error + mat" where
  "gal_forward G x es =
     bind_err (linear_rows (gal_linear G) x) (\<lambda>x'.
       (let n = length x'; w = length (lin_weight (gal_linear G)) in
        if \<not> edges_in_range n es then Inl IndexError
        else if length (gal_a G) \<noteq> 2 * w then Inl ShapeMismatch
        else if length es = 1 then Inl IndexError
        else
          (let e = gal_scores G x' es;
               alpha = gal_alpha n es e
           in case gal_exp_error n es e of
                Some err \<Rightarrow> Inl err
              | None \<Rightarrow> Inr (scatter_add n w
                     (map (\<lambda>k. (snd (es ! k), gal_message (alpha ! k) (x' ! fst (es ! k))))
                        [0..<length es])))))"

text \<open>\<open>__init__\<close> (lines 37--48): the attention vector is drawn by
  \<open>xavier_uniform_\<close> (the draw \<open>a\<close>, given its length \<open>2 out\<close>) and the
  linear layer by its initialiser.\<close>

definition gal_init :: "(nat \<Rightarrow> vec) \<Rightarrow> (nat \<Rightarrow> nat \<Rightarrow> nat \<Rightarrow> mat \<times> vec) \<Rightarrow> nat \<Rightarrow> nat \<Rightarrow> nat \<Rightarrow> gal" where
  "gal_init a w k in_features out_features =
     \<lparr>gal_a = a (2 * out_features), gal_linear = linear_init w k True in_features out_features\<rparr>"

definition gal_wf :: "nat \<Rightarrow> nat \<Rightarrow> gal \<Rightarrow> bool" where
  "gal_wf n_in n_out G \<longleftrightarrow> length (gal_a G) = 2 * n_out \<and> linear_wf n_in n_out (gal_linear G)"

text \<open>Example: one input and output channel, a zero attention vector and
  the identity as the linear map.\<close>

definition ex_gal :: gal where
  "ex_gal = \<lparr>gal_a = [0, 0], gal_linear = \<lparr>lin_in = 1, lin_weight = [[1]], lin_bias = Some [0]\<rparr>\<rparr>"

subsection \<open>The score sums\<close>

lemma length_gal_score_sums_fold:
  "length (fold (\<lambda>(c, ek) acc. acc[c := acc ! c + ek]) ps acc) = length acc"
  by (induction ps arbitrary: acc) auto

lemma gal_score_sums_fold:
  assumes "\<forall>p \<in> set ps. fst p < length acc" "i < length acc"
  shows "fold (\<lambda>(c, ek) acc. acc[c := acc ! c + ek]) ps acc ! i =
         acc ! i + sum_list (map snd (filter (\<lambda>p. fst p = i) ps))"
  using assms
proof (induction ps arbitrary: acc)
  case (Cons p ps)
  obtain c ek where p: "p = (c, ek)" by fastforce
  with Cons.prems have "c < length acc" by simp
  with Cons.IH [of "acc[c := acc ! c + ek]"] Cons.prems p show ?case
    by (auto simp: nth_list_update add.assoc)
qed simp

lemma edges_in_range_mem:
  "edges_in_range n es \<Longrightarrow> p \<in> set es \<Longrightarrow> fst p < n \<and> snd p < n"
  unfolding edges_in_range_def by (cases p) fastforce

lemma gal_score_sums_nth:
  assumes "edges_in_range n es" "i < n"
  shows "gal_score_sums n es e ! i = sum_list (map snd (filter (\<lambda>p. fst p = i) (zip (map fst es) e)))"
proof -
  have "\<forall>p \<in> set (zip (map fst es) e). fst p < length (replicate n (0::real))"
    using assms(1) by (auto dest!: set_zip_leftD dest: edges_in_range_mem)
  with assms(2) show ?thesis
    by (simp add: gal_score_sums_def gal_score_sums_fold)
qed

lemma length_gal_scores [simp]: "length (gal_scores G x es) = length es"
  by (simp add: gal_scores_def)

lemma gal_wf_init:
  "length (a (2 * out_f)) = 2 * out_f \<Longrightarrow> length (fst (w k in_f out_f)) = out_f \<Longrightarrow>
   mat_wf in_f (fst (w k in_f out_f)) \<Longrightarrow> length (snd (w k in_f out_f)) = out_f \<Longrightarrow>
   gal_wf in_f out_f (gal_init a w k in_f out_f)"
  by (simp add: gal_wf_def gal_init_def linear_init_wf)

lemma gal_forward_eq:
  assumes "gal_wf n_in n_out G" "mat_wf n_in x" "edges_in_range (length x) es" "length es \<noteq> 1"
  shows "gal_forward G x es =
           (case gal_exp_error (length x) es (gal_scores G (map (linear_apply (gal_linear G)) x) es) of
              Some err \<Rightarrow> Inl err
            | None \<Rightarrow> Inr (scatter_add (length x) n_out
                  (map (\<lambda>k. (snd (es ! k), gal_message (gal_alpha (length x) es
                       (gal_scores G (map (linear_apply (gal_linear G)) x) es) ! k)
                       (map (linear_apply (gal_linear G)) x ! fst (es ! k))))
                     [0..<length es])))"
proof -
  have L: "linear_wf n_in n_out (gal_linear G)" and a: "length (gal_a G) = 2 * n_out"
    and w: "length (lin_weight (gal_linear G)) = n_out"
    using assms(1) by (simp_all add: gal_wf_def linear_wf_def)
  show ?thesis
    using assms(3,4) a w
    by (simp add: gal_forward_def linear_rows_ok [OF L assms(2)] Let_def cong: option.case_cong)
qed

text \<open>C27. The loops of lines 74--83 compute, for the edge \<open>k\<close> from node
  \<open>c\<close>, the weight \<open>exp(e_k - S_c)\<close>, where \<open>S_c\<close> is the sum of the scores
  of all edges leaving \<open>c\<close>.\<close>

theorem gal_alpha_closed_form:
  assumes "edges_in_range n es" "length e = length es" "k < length es"
  shows "GAL.gal_alpha n es e ! k =
           exp (e ! k - sum_list (map snd (filter (\<lambda>p. fst p = fst (es ! k)) (zip (map fst es) e))))"
proof -
  have "fst (es ! k) < n"
    using edges_in_range_mem [OF assms(1) nth_mem [OF assms(3)]] by simp
  with assms show ?thesis
    by (simp add: gal_alpha_def gal_score_sums_nth exp_diff)
qed

theorem gal_alpha_closed_form_witness:
  "GAL.gal_alpha 3 [(0, 1), (0, 2)] [1, 2] ! 1 = exp (2 - (1 + 2))"
  using gal_alpha_closed_form [of 3 "[(0, 1), (0, 2)]" "[1, 2]" 1]
  by (simp add: edges_in_range_def)

lemma gal_forward_single_edge:
  assumes "gal_wf n_in n_out G" "mat_wf n_in x" "edges_in_range (length x) es" "length es = 1"
  shows "gal_forward G x es = Inl IndexError"
proof -
  have L: "linear_wf n_in n_out (gal_linear G)" and a: "length (gal_a G) = 2 * n_out"
    and w: "length (lin_weight (gal_linear G)) = n_out"
    using assms(1) by (simp_all add: gal_wf_def linear_wf_def)
  show ?thesis
    using assms(3,4) a w by (simp add: gal_forward_def linear_rows_ok [OF L assms(2)] Let_def)
qed

lemma gal_messages_wf:
  assumes "gal_wf n_in n_out G" "edges_in_range (length x) es"
  shows "\<forall>(i, m) \<in> set (map (\<lambda>k. (snd (es ! k), gal_message (\<alpha> ! k)
            (map (linear_apply (gal_linear G)) x ! fst (es ! k)))) [0..<length es]).
           i < length x \<and> length m = n_out"
proof -
  have L: "linear_wf n_in n_out (gal_linear G)" using assms(1) by (simp add: gal_wf_def)
  have "snd (es ! k) < length x \<and> fst (es ! k) < length x" if "k < length es" for k
    using edges_in_range_mem [OF assms(2) nth_mem [OF that]] by simp
  then show ?thesis by (auto simp: gal_message_def length_linear_apply [OF L])
qed

lemma fold_first_error:
  "fold (\<lambda>k r. case r of Some err \<Rightarrow> Some err | None \<Rightarrow> f k) ks r0 = Some err \<Longrightarrow>
   r0 = Some err \<or> (\<exists>k \<in> set ks. f k = Some err)"
  by (induction ks arbitrary: r0) (auto split: option.splits)

lemma gal_exp_error_Some:
  assumes "gal_exp_error n es e = Some err"
  shows "(err = OverflowError \<and> (\<exists>k < length e. exp_overflows (e ! k) \<or>
            exp_overflows (gal_score_sums n es e ! fst (es ! k)))) \<or>
         (err = ZeroDivisionError \<and> (\<exists>k < length e. exp_underflows (gal_score_sums n es e ! fst (es ! k))))"
proof -
  obtain k where "k < length e" "gal_exp_step es e (gal_score_sums n es e) k = Some err"
    using fold_first_error [OF assms [unfolded gal_exp_error_def]] by auto
  then show ?thesis by (auto simp: gal_exp_step_def split: if_splits)
qed

text \<open>C28. On a well-formed layer, features of the declared width and
  edges between existing nodes, the forward pass fails only with exactly one
  edge (then \<open>squeeze()\<close> leaves a 0-dimensional tensor and \<open>e[count]\<close>
  raises \<open>IndexError\<close>) or when \<open>math.exp\<close> of a score or of a score sum
  overflows (\<open>OverflowError\<close>) or a score sum's exponential underflows to
  0.0 (\<open>ZeroDivisionError\<close>); otherwise it returns one row of width
  \<open>out\<close> per node.\<close>

theorem gal_forward_result:
  assumes "gal_wf n_in n_out G" "mat_wf n_in x" "edges_in_range (length x) es"
  shows "case GAL.gal_forward G x es of
           Inl err \<Rightarrow> (err = IndexError \<and> length es = 1) \<or>
             (length es \<noteq> 1 \<and>
              (let e = gal_scores G (map (linear_apply (gal_linear G)) x) es;
                   s = gal_score_sums (length x) es e
               in (err = OverflowError \<and> (\<exists>k < length es. exp_overflows (e ! k) \<or> exp_overflows (s ! fst (es ! k)))) \<or>
                  (err = ZeroDivisionError \<and> (\<exists>k < length es. exp_underflows (s ! fst (es ! k))))))
         | Inr y \<Rightarrow> length es \<noteq> 1 \<and> length y = length x \<and> mat_wf n_out y"
proof (cases "length es = 1")
  case True
  then show ?thesis using gal_forward_single_edge [OF assms True] by simp
next
  case False
  show ?thesis
  proof (cases "gal_exp_error (length x) es (gal_scores G (map (linear_apply (gal_linear G)) x) es)")
    case None
    with False show ?thesis
      using assms gal_forward_eq [OF assms False]
      by (simp add: length_scatter_add scatter_add_eq_agg_ref [OF gal_messages_wf [OF assms(1,3)]]
          mat_wf_agg_ref length_agg_ref)
  next
    case (Some err)
    with False show ?thesis
      using gal_forward_eq [OF assms False] gal_exp_error_Some [OF Some] by (simp add: Let_def)
  qed
qed

theorem gal_forward_result_witness:
  "(case GAL.gal_forward ex_gal [[1], [2], [3]] [(0, 1)] of
      Inl err \<Rightarrow> (err = IndexError \<and> length [(0::nat, 1::nat)] = 1) \<or>
        (length [(0::nat, 1::nat)] \<noteq> 1 \<and>
         (let e = gal_scores ex_gal (map (linear_apply (gal_linear ex_gal)) [[1], [2], [3]]) [(0, 1)];
              s = gal_score_sums (length [[1::real], [2], [3]]) [(0, 1)] e
          in (err = OverflowError \<and> (\<exists>k < length [(0::nat, 1::nat)]. exp_overflows (e ! k) \<or> exp_overflows (s ! fst ([(0::nat, 1::nat)] ! k)))) \<or>
             (err = ZeroDivisionError \<and> (\<exists>k < length [(0::nat, 1::nat)]. exp_underflows (s ! fst ([(0::nat, 1::nat)] ! k))))))
    | Inr y \<Rightarrow> length [(0::nat, 1::nat)] \<noteq> 1 \<and> length y = length [[1::real], [2], [3]] \<and> mat_wf 1 y)"
  by (rule gal_forward_result) (simp_all add: gal_wf_def ex_gal_def linear_wf_def mat_wf_def edges_in_range_def)

end
