(* ===== verification/Glorot.thy ===== *)
theory Glorot
  imports Prelude
begin

text \<open>
  \<open>glorot(value)\<close> (graph\_neural\_network.py, lines 25--33), the Xavier
  initialiser of PyTorch Geometric copied into the file.  A tensor is
  refilled in place by \<open>uniform_(-stdv, stdv)\<close> with
  \<open>stdv = sqrt(6 / (size(-2) + size(-1)))\<close>; any other object has its
  \<open>parameters()\<close> and then its \<open>buffers()\<close> initialised one by one, and an
  object with neither is left alone.  Tensors are objects on a heap: the
  store maps addresses to tensors and is updated in place, so when a tensor
  raises (\<open>size(-2)\<close> of a tensor with fewer than two dimensions is an
  \<open>IndexError\<close>, \<open>6.0 / 0\<close> a \<open>ZeroDivisionError\<close>) the tensors before it
  stay re-initialised.  The result pairs the state with the exception
  raised, if any.  The random generator is a draw function \<open>u k s n\<close>
  (the \<open>k\<close>-th call of \<open>uniform_\<close>, bound \<open>s\<close>, \<open>n\<close> values) and the state
  counts its calls.
\<close>

record tensor =
  t_shape :: "nat list"
  t_data :: "real list"

type_synonym addr = nat

type_synonym store = "addr \<Rightarrow> tensor"

text \<open>The argument of \<open>glorot\<close>: a tensor, an object with \<open>parameters()\<close>
  and \<open>buffers()\<close> (an \<open>nn.Module\<close>; the lists are the addresses they
  yield), or any other object.\<close>

datatype pyvalue = PyTensor addr | PyModule "addr list" "addr list" | PyPlain

record init_state =
  st_store :: store
  st_draws :: nat

text \<open>\<open>value.size(-2) + value.size(-1)\<close>: the two last dimensions.\<close>

definition glorot_fan :: "nat list \<Rightarrow> nat" where
  "glorot_fan sh = sh ! (length sh - 2) + sh ! (length sh - 1)"

definition glorot_bound :: "nat list \<Rightarrow> real" where
  "glorot_bound sh = sqrt (6 / real (glorot_fan sh))"

text \<open>The tensors \<open>glorot\<close> accepts, and the exception it raises on the others.\<close>

definition glorot_applicable :: "tensor \<Rightarrow> bool" where
  "glorot_applicable t \<longleftrightarrow> 2 \<le> length (t_shape t) \<and> 0 < glorot_fan (t_shape t)"

definition glorot_error :: "tensor \<Rightarrow> py_error" where
  "glorot_error t = (if length (t_shape t) < 2 then IndexError else ZeroDivisionError)"

definition glorot_tensor ::
  "(nat \<Rightarrow> real \<Rightarrow> nat \<Rightarrow> real list) \<Rightarrow> init_state \<Rightarrow> addr \<Rightarrow> init_state \<times> py_error option" where
  "glorot_tensor u st a =
     (let t = st_store st a in
      if length (t_shape t) < 2 then (st, Some IndexError)
      else if glorot_fan (t_shape t) = 0 then (st, Some ZeroDivisionError)
      else
        (st\<lparr>st_store := (st_store st)(a := t\<lparr>t_data := u (st_draws st) (glorot_bound (t_shape t)) (length (t_data t))\<rparr>),
            st_draws := Suc (st_draws st)\<rparr>, None))"

text \<open>\<open>for v in ...: glorot(v)\<close>: the loop stops at the first exception.\<close>

fun glorot_each ::
  "(nat \<Rightarrow> real \<Rightarrow> nat \<Rightarrow> real list) \<Rightarrow> init_state \<Rightarrow> addr list \<Rightarrow> init_state \<times> py_error option" where
  "glorot_each u st [] = (st, None)"
| "glorot_each u st (a # as) =
     (case glorot_tensor u st a of
        (st', None) \<Rightarrow> glorot_each u st' as
      | (st', Some e) \<Rightarrow> (st', Some e))"

definition glorot :: "(nat \<Rightarrow> real \<Rightarrow> nat \<Rightarrow> real list) \<Rightarrow> init_state \<Rightarrow> pyvalue \<Rightarrow> init_state \<times> py_error option" where
  "glorot u st v =
     (case v of
        PyTensor a \<Rightarrow> glorot_tensor u st a
      | PyModule ps bs \<Rightarrow>
          (case glorot_each u st ps of
             (st', None) \<Rightarrow> glorot_each u st' bs
           | (st', Some e) \<Rightarrow> (st', Some e))
      | PyPlain \<Rightarrow> (st, None))"

text \<open>The contract of \<open>uniform_(-s, s)\<close>: as many values as the tensor
  holds, all within \<open>[-s, s]\<close>.\<close>

definition uniform_ok :: "(nat \<Rightarrow> real \<Rightarrow> nat \<Rightarrow> real list) \<Rightarrow> bool" where
  "uniform_ok u \<longleftrightarrow> (\<forall>k s n. 0 \<le> s \<longrightarrow> length (u k s n) = n \<and> (\<forall>x \<in> set (u k s n). \<bar>x\<bar> \<le> s))"

text \<open>What a run of \<open>glorot\<close> over the addresses \<open>A\<close> leaves behind:
  shapes and sizes unchanged, the tensors of \<open>A\<close> within their bound, all
  other tensors untouched.\<close>

definition glorot_post :: "store \<Rightarrow> store \<Rightarrow> addr set \<Rightarrow> bool" where
  "glorot_post s s' A \<longleftrightarrow>
     (\<forall>a. t_shape (s' a) = t_shape (s a) \<and> length (t_data (s' a)) = length (t_data (s a))) \<and>
     (\<forall>a \<in> A. \<forall>x \<in> set (t_data (s' a)). \<bar>x\<bar> \<le> glorot_bound (t_shape (s a))) \<and>
     (\<forall>a. a \<notin> A \<longrightarrow> s' a = s a)"

text \<open>Example: \<open>nn.Linear(2, 3)\<close>, whose \<open>parameters()\<close> yield the weight
  of shape \<open>(3, 2)\<close> (address 0) and the bias of shape \<open>(3,)\<close> (address 1),
  and a generator drawing the upper bound.\<close>

definition ex_linear_store :: store where
  "ex_linear_store a =
     (if a = 0 then \<lparr>t_shape = [3, 2], t_data = replicate 6 1\<rparr>
      else \<lparr>t_shape = [3], t_data = [1, 1, 1]\<rparr>)"

definition ex_u :: "nat \<Rightarrow> real \<Rightarrow> nat \<Rightarrow> real list" where
  "ex_u k s n = replicate n s"

definition ex_init_state :: init_state where
  "ex_init_state = \<lparr>st_store = ex_linear_store, st_draws = 0\<rparr>"

subsection \<open>Facts\<close>

lemma glorot_bound_nonneg: "0 \<le> glorot_bound sh"
  by (simp add: glorot_bound_def)

lemma glorot_tensor_ok:
  assumes "glorot_applicable (st_store st a)"
  shows "glorot_tensor u st a =
           (st\<lparr>st_store := (st_store st)(a := (st_store st a)\<lparr>t_data :=
                 u (st_draws st) (glorot_bound (t_shape (st_store st a))) (length (t_data (st_store st a)))\<rparr>),
               st_draws := Suc (st_draws st)\<rparr>, None)"
  using assms by (simp add: glorot_tensor_def glorot_applicable_def Let_def)

lemma glorot_tensor_fail:
  "\<not> glorot_applicable (st_store st a) \<Longrightarrow> glorot_tensor u st a = (st, Some (glorot_error (st_store st a)))"
  by (auto simp: glorot_tensor_def glorot_applicable_def glorot_error_def Let_def)

lemma glorot_post_refl: "glorot_post s s {}"
  by (simp add: glorot_post_def)

lemma glorot_post_trans:
  "glorot_post s1 s2 A \<Longrightarrow> glorot_post s2 s3 B \<Longrightarrow> glorot_post s1 s3 (A \<union> B)"
  unfolding glorot_post_def by (metis Un_iff)

lemma glorot_post_tensor:
  assumes "uniform_ok u" "glorot_applicable (st_store st a)"
  shows "glorot_post (st_store st) (st_store (fst (glorot_tensor u st a))) {a}"
  using assms glorot_bound_nonneg
  by (simp add: glorot_tensor_ok glorot_post_def uniform_ok_def)

lemma glorot_post_shape:
  "glorot_post s s' A \<Longrightarrow> t_shape (s' a) = t_shape (s a)"
  by (simp add: glorot_post_def)

lemma glorot_post_applicable:
  "glorot_post s s' A \<Longrightarrow> glorot_applicable (s' a) = glorot_applicable (s a)"
  by (simp add: glorot_applicable_def glorot_post_shape)

lemma glorot_post_error:
  "glorot_post s s' A \<Longrightarrow> glorot_error (s' a) = glorot_error (s a)"
  by (simp add: glorot_error_def glorot_post_shape)

lemma glorot_tensor_draws:
  "glorot_applicable (st_store st a) \<Longrightarrow> st_draws (fst (glorot_tensor u st a)) = Suc (st_draws st)"
  by (simp add: glorot_tensor_ok)

lemma glorot_each_append:
  "glorot_each u st (xs @ ys) =
     (case glorot_each u st xs of (st', None) \<Rightarrow> glorot_each u st' ys | (st', Some e) \<Rightarrow> (st', Some e))"
  by (induction xs arbitrary: st) (auto split: prod.split option.split)

lemma glorot_module_each: "glorot u st (PyModule ps bs) = glorot_each u st (ps @ bs)"
  by (simp add: glorot_def glorot_each_append)

lemma glorot_each_ok:
  assumes "uniform_ok u" "\<forall>a \<in> set as. glorot_applicable (st_store st a)"
  shows "\<exists>st'. glorot_each u st as = (st', None) \<and> glorot_post (st_store st) (st_store st') (set as) \<and>
           st_draws st' = st_draws st + length as"
  using assms(2)
proof (induction as arbitrary: st)
  case Nil
  then show ?case by (simp add: glorot_post_refl)
next
  case (Cons a as)
  define st1 where "st1 = fst (glorot_tensor u st a)"
  have app: "glorot_applicable (st_store st a)" using Cons.prems by simp
  have t: "glorot_tensor u st a = (st1, None)" using app by (simp add: st1_def glorot_tensor_ok)
  have p1: "glorot_post (st_store st) (st_store st1) {a}"
    unfolding st1_def using glorot_post_tensor [OF assms(1) app] .
  have "\<forall>b \<in> set as. glorot_applicable (st_store st1 b)"
    using Cons.prems glorot_post_applicable [OF p1] by simp
  then obtain st' where r: "glorot_each u st1 as = (st', None)"
    and p2: "glorot_post (st_store st1) (st_store st') (set as)"
    and d: "st_draws st' = st_draws st1 + length as"
    using Cons.IH by blast
  have "st_draws st1 = Suc (st_draws st)" using app by (simp add: st1_def glorot_tensor_draws)
  with t r d glorot_post_trans [OF p1 p2] show ?case by simp
qed

lemma glorot_each_fail:
  assumes "uniform_ok u" "i < length as" "\<not> glorot_applicable (st_store st (as ! i))"
    "\<forall>j < i. glorot_applicable (st_store st (as ! j))"
  shows "\<exists>st'. glorot_each u st as = (st', Some (glorot_error (st_store st (as ! i)))) \<and>
           glorot_post (st_store st) (st_store st') (set (take i as)) \<and> st_draws st' = st_draws st + i"
  using assms(2-)
proof (induction as arbitrary: st i)
  case Nil
  then show ?case by simp
next
  case (Cons a as)
  show ?case
  proof (cases i)
    case 0
    with Cons.prems show ?thesis by (simp add: glorot_tensor_fail glorot_post_refl)
  next
    case (Suc i')
    define st1 where "st1 = fst (glorot_tensor u st a)"
    have app: "glorot_applicable (st_store st a)" using Cons.prems(3) Suc by auto
    have t: "glorot_tensor u st a = (st1, None)" using app by (simp add: st1_def glorot_tensor_ok)
    have p1: "glorot_post (st_store st) (st_store st1) {a}"
      unfolding st1_def using glorot_post_tensor [OF assms(1) app] .
    have "i' < length as" "\<not> glorot_applicable (st_store st1 (as ! i'))"
      "\<forall>j < i'. glorot_applicable (st_store st1 (as ! j))"
      using Cons.prems Suc glorot_post_applicable [OF p1] by auto
    then obtain st' where r: "glorot_each u st1 as = (st', Some (glorot_error (st_store st1 (as ! i'))))"
      and p2: "glorot_post (st_store st1) (st_store st') (set (take i' as))"
      and d: "st_draws st' = st_draws st1 + i'"
      using Cons.IH by blast
    have "st_draws st1 = Suc (st_draws st)" using app by (simp add: st1_def glorot_tensor_draws)
    with t r d Suc glorot_post_trans [OF p1 p2] glorot_post_error [OF p1] show ?thesis by simp
  qed
qed

lemma nth_in_take: "j < i \<Longrightarrow> i \<le> length xs \<Longrightarrow> xs ! j \<in> set (take i xs)"
  using nth_mem [of j "take i xs"] by simp

lemma distinct_nth_notin_take:
  "distinct xs \<Longrightarrow> i \<le> j \<Longrightarrow> j < length xs \<Longrightarrow> xs ! j \<notin> set (take i xs)"
  by (auto simp: in_set_conv_nth nth_eq_iff_index_eq)

lemma ex_u_ok: "uniform_ok ex_u"
  by (simp add: uniform_ok_def ex_u_def)

text \<open>C29. If every parameter and buffer has at least two dimensions and a
  non-zero fan, \<open>glorot\<close> of a module returns without exception, keeps every
  shape, leaves every value it draws within
  \<open>sqrt(6 / (fan_in + fan_out))\<close> of zero, and touches no other tensor.\<close>

theorem glorot_module_bounds:
  assumes "uniform_ok u" "\<forall>a \<in> set (ps @ bs). glorot_applicable (st_store st a)"
  shows "\<exists>st'. Glorot.glorot u st (PyModule ps bs) = (st', None) \<and>
           (\<forall>a. t_shape (st_store st' a) = t_shape (st_store st a) \<and>
                length (t_data (st_store st' a)) = length (t_data (st_store st a))) \<and>
           (\<forall>a \<in> set (ps @ bs). \<forall>x \<in> set (t_data (st_store st' a)). \<bar>x\<bar> \<le> glorot_bound (t_shape (st_store st a))) \<and>
           (\<forall>a. a \<notin> set (ps @ bs) \<longrightarrow> st_store st' a = st_store st a)"
proof -
  obtain st' where "glorot_each u st (ps @ bs) = (st', None)"
    and "glorot_post (st_store st) (st_store st') (set (ps @ bs))"
    using glorot_each_ok [OF assms] by blast
  then show ?thesis by (simp add: glorot_module_each glorot_post_def)
qed

theorem glorot_module_bounds_witness:
  "\<exists>st'. Glorot.glorot ex_u ex_init_state (PyModule [0] []) = (st', None) \<and>
     t_shape (st_store st' 0) = [3, 2] \<and> \<bar>hd (t_data (st_store st' 0))\<bar> \<le> sqrt (6 / 5) \<and>
     st_store st' 1 = ex_linear_store 1"
proof -
  have "\<forall>a \<in> set ([0] @ []). glorot_applicable (st_store ex_init_state a)"
    by (simp add: ex_init_state_def ex_linear_store_def glorot_applicable_def glorot_fan_def)
  from glorot_module_bounds [OF ex_u_ok this] obtain st' where
    r: "Glorot.glorot ex_u ex_init_state (PyModule [0] []) = (st', None)"
    and sh: "\<forall>a. t_shape (st_store st' a) = t_shape (st_store ex_init_state a) \<and>
                length (t_data (st_store st' a)) = length (t_data (st_store ex_init_state a))"
    and b: "\<forall>a \<in> set ([0] @ []). \<forall>x \<in> set (t_data (st_store st' a)). \<bar>x\<bar> \<le> glorot_bound (t_shape (st_store ex_init_state a))"
    and fr: "\<forall>a. a \<notin> set ([0] @ []) \<longrightarrow> st_store st' a = st_store ex_init_state a"
    by blast
  have len: "length (t_data (st_store st' 0)) = 6" using sh by (simp add: ex_init_state_def ex_linear_store_def)
  then have "hd (t_data (st_store st' 0)) \<in> set (t_data (st_store st' 0))"
    by (intro hd_in_set) auto
  with b have "\<bar>hd (t_data (st_store st' 0))\<bar> \<le> sqrt (6 / 5)"
    by (simp add: ex_init_state_def ex_linear_store_def glorot_bound_def glorot_fan_def)
  with r sh fr show ?thesis by (auto simp: ex_init_state_def ex_linear_store_def)
qed

text \<open>C30. When the \<open>i\<close>-th tensor yielded by \<open>parameters()\<close> and
  \<open>buffers()\<close> is the first one \<open>glorot\<close> cannot handle, the call raises
  that tensor's exception after re-drawing exactly the \<open>i\<close> tensors before
  it (their values within bound) and leaves that tensor and the ones after
  it unchanged: the exception escapes with the module half initialised.\<close>

theorem glorot_module_partial_error:
  assumes "uniform_ok u" "i < length (ps @ bs)" "\<not> glorot_applicable (st_store st ((ps @ bs) ! i))"
    "\<forall>j < i. glorot_applicable (st_store st ((ps @ bs) ! j))" "distinct (ps @ bs)"
  shows "\<exists>st'. Glorot.glorot u st (PyModule ps bs) = (st', Some (glorot_error (st_store st ((ps @ bs) ! i)))) \<and>
           st_draws st' = st_draws st + i \<and>
           (\<forall>j < i. \<forall>x \<in> set (t_data (st_store st' ((ps @ bs) ! j))).
               \<bar>x\<bar> \<le> glorot_bound (t_shape (st_store st ((ps @ bs) ! j)))) \<and>
           (\<forall>j. i \<le> j \<and> j < length (ps @ bs) \<longrightarrow> st_store st' ((ps @ bs) ! j) = st_store st ((ps @ bs) ! j))"
proof -
  obtain st' where r: "glorot_each u st (ps @ bs) = (st', Some (glorot_error (st_store st ((ps @ bs) ! i))))"
    and p: "glorot_post (st_store st) (st_store st') (set (take i (ps @ bs)))"
    and d: "st_draws st' = st_draws st + i"
    using glorot_each_fail [OF assms(1-4)] by blast
  have "\<forall>j < i. \<forall>x \<in> set (t_data (st_store st' ((ps @ bs) ! j))).
          \<bar>x\<bar> \<le> glorot_bound (t_shape (st_store st ((ps @ bs) ! j)))"
    using p assms(2) nth_in_take [of _ i "ps @ bs"] by (simp add: glorot_post_def)
  moreover have "\<forall>j. i \<le> j \<and> j < length (ps @ bs) \<longrightarrow> st_store st' ((ps @ bs) ! j) = st_store st ((ps @ bs) ! j)"
    using p distinct_nth_notin_take [OF assms(5)] by (simp add: glorot_post_def)
  ultimately show ?thesis using r d by (simp add: glorot_module_each)
qed

text \<open>On \<open>nn.Linear(2, 3)\<close> the bias is 1-dimensional: \<open>glorot\<close> raises
  \<open>IndexError\<close> on it after re-drawing the weight.\<close>

theorem glorot_module_partial_error_witness:
  "\<exists>st'. Glorot.glorot ex_u ex_init_state (PyModule [0, 1] []) = (st', Some IndexError) \<and>
     st_draws st' = 1 \<and> st_store st' 1 = ex_linear_store 1"
proof -
  have h: "1 < length ([0, 1] @ [])" "\<not> glorot_applicable (st_store ex_init_state (([0, 1] @ []) ! 1))"
    "\<forall>j < 1. glorot_applicable (st_store ex_init_state (([0, 1] @ []) ! j))" "distinct ([0::nat, 1] @ [])"
    by (simp_all add: ex_init_state_def ex_linear_store_def glorot_applicable_def glorot_fan_def)
  have e: "glorot_error (st_store ex_init_state (([0, 1] @ []) ! 1)) = IndexError"
    by (simp add: ex_init_state_def ex_linear_store_def glorot_error_def)
  from glorot_module_partial_error [OF ex_u_ok h] e show ?thesis
    by (auto simp: ex_init_state_def)
qed

end
