(* ===== verification/Printed_Text.thy ===== *)
theory Printed_Text
  imports MYGNN Py_Text
begin

text \<open>
  The text the network code produces or holds besides its tensors:
  \<open>MYGNN.__repr__\<close> (graph\_neural\_network.py, lines 168--169), built with
  the \<open>str\<close> of \<open>Py_Text\<close>; the banner \<open>CGCClass.__init__\<close> prints
  (lines 222 and 227--229); and the constant table \<open>dataset_info\<close>
  (lines 296--306), a dict literal kept as an association list in its
  source order.  The main fact is that the representation of a layer reads
  back as its channel count and edge dimension.
\<close>

text \<open>\<open>f'{self.__class__.__name__}({self.channels}, dim={self.dim})'\<close>.\<close>

definition mygnn_repr :: "mygnn \<Rightarrow> string" where
  "mygnn_repr g = ''MYGNN('' @ py_str_nat (gnn_channels g) @ '', dim='' @ py_str_nat (gnn_dim g) @ '')''"

definition newline :: string where
  "newline = [CHR 0x0A]"

text \<open>\<open>self.model_name = "RS-GCN"\<close> and the three \<open>print\<close> calls: each
  prints its argument and a newline, and \<open>"\n"\<close> is itself a newline.\<close>

definition cgc_model_name :: string where
  "cgc_model_name = ''RS-GCN''"

definition cgc_init_stdout :: string where
  "cgc_init_stdout =
     (''#### current model is '' @ cgc_model_name @ '' #####'' @ newline) @
     (newline @ newline) @ (newline @ newline)"

definition dataset_info :: "(string \<times> (string \<times> string) list) list" where
  "dataset_info =
     [(''cfg'', [(''root'', ''examples/ponzi_src/dataset/cfg'')]),
      (''sliced'', [(''root'', ''examples/ponzi_src/dataset/sliced'')]),
      (''etherscan'', [(''root'', ''examples/ponzi_src/dataset/etherscan'')])]"

subsection \<open>Reading a representation back\<close>

lemma comma_notin_py_str_nat [simp]: "CHR '','' \<notin> set (py_str_nat n)"
proof (induction n rule: py_str_nat.induct)
  case (1 n)
  have "CHR '','' \<noteq> digit_char d" if "d < 10" for d
  proof
    assume "CHR '','' = digit_char d"
    then have "(of_char (CHR '','') :: nat) = of_char (digit_char d)" by simp
    with of_char_digit_char [OF that] show False by simp
  qed
  with 1 show ?case by (subst py_str_nat.simps) auto
qed

lemma mygnn_repr_split:
  "drop 6 (mygnn_repr g) = py_str_nat (gnn_channels g) @ '', dim='' @ py_str_nat (gnn_dim g) @ '')''"
  by (simp add: mygnn_repr_def)

lemma takeWhile_mygnn_repr:
  "takeWhile (\<lambda>c. c \<noteq> CHR '','') (drop 6 (mygnn_repr g)) = py_str_nat (gnn_channels g)"
  unfolding mygnn_repr_split
  by (subst takeWhile_append2) (auto dest: comma_notin_py_str_nat [of "gnn_channels g", THEN notE])

lemma dropWhile_mygnn_repr:
  "dropWhile (\<lambda>c. c \<noteq> CHR '','') (drop 6 (mygnn_repr g)) = '', dim='' @ py_str_nat (gnn_dim g) @ '')''"
  unfolding mygnn_repr_split
  by (subst dropWhile_append2) (auto dest: comma_notin_py_str_nat [of "gnn_channels g", THEN notE])

lemma mygnn_repr_inj:
  "mygnn_repr g = mygnn_repr g' \<longleftrightarrow> gnn_channels g = gnn_channels g' \<and> gnn_dim g = gnn_dim g'"
proof
  assume eq: "mygnn_repr g = mygnn_repr g'"
  then have "py_str_nat (gnn_channels g) = py_str_nat (gnn_channels g')"
    using takeWhile_mygnn_repr [of g] takeWhile_mygnn_repr [of g'] by simp
  moreover have "py_str_nat (gnn_dim g) = py_str_nat (gnn_dim g')"
    using eq dropWhile_mygnn_repr [of g] dropWhile_mygnn_repr [of g'] by simp
  ultimately show "gnn_channels g = gnn_channels g' \<and> gnn_dim g = gnn_dim g'"
    by (simp add: py_str_nat_inj)
qed (simp add: mygnn_repr_def)

text \<open>C32. Round trip of \<open>MYGNN.__repr__\<close>: after the class name and the
  parenthesis, the text up to the first comma reads back as the channel
  count, and the text between \<open>", dim="\<close> and the closing parenthesis as
  the edge dimension.\<close>

theorem mygnn_repr_roundtrip:
  "read_nat (takeWhile (\<lambda>c. c \<noteq> CHR '','') (drop 6 (Printed_Text.mygnn_repr g))) = gnn_channels g \<and>
   read_nat (butlast (drop 6 (dropWhile (\<lambda>c. c \<noteq> CHR '','') (drop 6 (Printed_Text.mygnn_repr g))))) = gnn_dim g"
  by (simp add: takeWhile_mygnn_repr dropWhile_mygnn_repr)

end
