(* ===== verification/Spec2Isabelle.thy ===== *)
theory Spec2Isabelle
  imports Contract_Analyze Debug_Info Evaluation GAL Glorot Printed_Text
begin

text \<open>
  \<^bold>\<open>A verified model of the Ponzi-scheme detector.\<close>

  The repository's core has two parts.  The contract analyser
  (\<open>src/ponzi_detector/info_analyze/contract_analyze.py\<close>, class
  \<open>ContractInfo\<close>) reads a Slither contract object and extracts its
  structures, the state variables each function declares, reads and writes,
  the functions containing an ether transfer, and a call graph over function
  ids.  The graph neural network
  (\<open>src/ponzi_detector/model/graph_neural_network.py\<close>) classifies graphs:
  \<open>MYGNN\<close> is a gated message-passing layer, \<open>CGCClass\<close> stacks such layers
  and maps the pooled embedding of each graph to two sigmoid outputs, and
  \<open>test\<close> evaluates a model over a loader.  The analyser's output feeds the
  graph construction outside the core; the two parts share no code.

  \<^bold>\<open>Theories and what they model.\<close>
  \<^item> \<open>Prelude\<close>: the Python error values (\<open>py_error\<close>, propagated by
    \<open>bind_err\<close>), the dict idioms (\<open>dict_append\<close> for create-or-append,
    \<open>fold\<close> for assignment loops) and their closed forms.
  \<^item> \<open>Py_Text\<close>: \<open>str(int)\<close> (\<open>py_str_nat\<close>), the \<open>"{}-{}"\<close> edge key of
    \<open>_construct_call_graph\<close> (\<open>edge_key\<close>) and the substring test
    \<open>pat in s\<close> (\<open>py_contains\<close>).
  \<^item> \<open>Slither_Model\<close>, \<open>Nx_Graph\<close>: the Slither declarations the analyser
    reads and the part of \<open>networkx.DiGraph\<close> it uses (library code,
    modelled from its documentation); \<open>Example_Contracts\<close> holds inputs for
    the witnesses, among them the spec's end-to-end contract.
  \<^item> \<open>Contract_Info\<close>: the record \<open>contract_info\<close> is the \<open>ContractInfo\<close>
    object; \<open>init_contract_info\<close>, \<open>struct_info\<close>,
    \<open>stat_vars_info_in_contract\<close> and \<open>functions_with_transaction_call\<close>
    are \<open>__init__\<close> and the passes of lines 31--89, each a function on the
    record.
  \<^item> \<open>Call_Graph\<close>: \<open>construct_call_graph\<close> is \<open>_construct_call_graph\<close>
    (lines 91--121), its loop state a record; it is refined to an abstract
    graph over the ids in first-seen order.
  \<^item> \<open>Contract_Analyze\<close>: \<open>contract_info_analyze\<close> and the constructor
    \<open>ContractInfo\<close>, composed from the passes.
  \<^item> \<open>Debug_Info\<close>: \<open>debug_stat_var_info\<close> (lines 129--153).  Python dicts
    iterate in insertion order, which the maps of \<open>contract_info\<close> forget,
    so the loops of \<open>_stat_vars_info_in_contract\<close> are rerun on
    association lists (\<open>stat_vars_dicts\<close>, with \<^const>\<open>AList.update\<close>
    overwriting in place and appending new keys) and refined to the
    record's maps; \<open>debug_stat_var_info\<close> returns the printed lines.
  \<^item> \<open>Torch_Ops\<close>, \<open>Float_Val\<close>: the PyTorch and PyG operations the network
    calls (linear layers, batch norm in both modes, softplus with threshold
    20, dropout with an explicit mask, max-pooling, initialisation), on exact
    reals, and IEEE special values (\<open>NaN\<close>, infinities) for the last layer.
  \<^item> \<open>MYGNN\<close>: the layer's parameters as the record \<open>mygnn\<close>;
    \<open>mygnn_init\<close> is \<open>__init__\<close>, \<open>gnn_message\<close> is \<open>message\<close>,
    \<open>scatter_add\<close> the add-aggregation of \<open>propagate\<close>, \<open>mygnn_forward\<close>
    is \<open>forward\<close>, returning the layer with its batch norm updated in
    training mode.
  \<^item> \<open>CGC_Class\<close>: the classifier as the record \<open>cgc\<close>; \<open>cgc_init\<close> is
    \<open>__init__\<close>, \<open>cgc_forward\<close> is \<open>forward\<close> (edge encoder, layer stack
    \<open>run_layers\<close>, pooling, dropout, \<open>relu(linear1)\<close>, \<open>bn2\<close>, the output
    block \<open>cgc_head\<close> with its NaN check), \<open>cgc_eval\<close> is
    \<open>model.eval()\<close>.
  \<^item> \<open>Evaluation\<close>: \<open>test\<close> over an interface of the model (its
    \<open>eval\<close>, its call and the labels), and \<open>cgc_test\<close>, the classifier
    plugged into it.
  \<^item> \<open>GAL\<close>: the attention layer \<open>GAL\<close> (lines 36--100), which the
    classifier does not use; \<open>gal_init\<close> is \<open>__init__\<close>, \<open>gal_scores\<close>,
    \<open>gal_score_sums\<close> and \<open>gal_alpha\<close> are the steps and loops of
    \<open>forward\<close>, \<open>gal_message\<close> is \<open>message\<close>, \<open>gal_forward\<close> the whole
    forward pass with the shared add-aggregation \<open>scatter_add\<close>.
  \<^item> \<open>Glorot\<close>: \<open>glorot\<close> (lines 25--33) over an explicit store of tensors
    (\<open>init_state\<close>: the store and the count of random draws);
    \<open>glorot_tensor\<close> is the tensor branch, \<open>glorot_each\<close> the loops over
    \<open>parameters()\<close> and \<open>buffers()\<close>, which stop at the first exception.
    It is the one place where the model keeps the state an escaping
    exception leaves behind.
  \<^item> \<open>Printed_Text\<close>: \<open>MYGNN.__repr__\<close> (\<open>mygnn_repr\<close>, built with
    \<open>Py_Text.py_str_nat\<close>), the banner \<open>CGCClass.__init__\<close> prints
    (\<open>cgc_init_stdout\<close>) and the constant \<open>dataset_info\<close>.

  \<^bold>\<open>What is proved.\<close>
  For the analyser: the call graph refines an abstract first-seen graph,
  has no duplicate edges and one node per function, the constructor
  included (so the spec's end-to-end contract has four nodes, not three);
  the read, write and declaration maps have closed forms, writes being
  recorded only for functions that can send ether; the transfer map keeps
  the last matching statement (a bug: the guard of line 82 compares a name
  with id keys); the edge key parses back into its ids.  The debug printout
  has a line count fixed by the dicts (each declaration entry has exactly
  one of \<open>"exp"\<close> and \<open>"fun"\<close>).
  For the layer: the scatter loop refines the spec's per-node sum of
  incoming messages plus the residual, the result does not depend on the
  edge order, well-shaped inputs give well-shaped outputs (the only error
  being the one-row batch in training mode), and the output never falls
  below the input without batch norm.  Two places where the code departs
  from the spec are general theorems: messages see only the target's
  features, and the batch norm is applied to the aggregate before the
  residual is added.
  For the classifier: \<open>__init__\<close> builds a well-formed model, evaluation
  mode returns one row of \<open>out_channels\<close> values per graph and leaves the
  model unchanged, a \<open>NaN\<close> (or both infinities) in the last weights raises
  the divergence error while weights without \<open>NaN\<close> and \<open>-inf\<close> pass the
  check even when a \<open>+inf\<close> turns an output into \<open>NaN\<close>, and a training
  batch of one graph always raises \<open>ValueError\<close> in \<open>bn2\<close>.  Without an
  edge encoder the classifier sees a graph only through its node features
  and in-degrees.  For \<open>test\<close>: its result formula (the sum of the batch
  means divided by the dataset size, not the batch-size-weighted mean of
  the spec), the error on an empty dataset, and that it leaves the
  classifier in evaluation mode.
  For \<open>GAL\<close>: the closed form \<open>exp(e_k - S_c)\<close> of its normalisation loops,
  which is not the softmax its comment announces, and that on well-formed
  inputs it fails only on graphs with one edge (\<open>squeeze()\<close> leaves a
  0-dimensional tensor) or when \<open>math.exp\<close> overflows or underflows in
  binary64.
  For \<open>glorot\<close>: on a module whose tensors all have two dimensions and a
  non-zero fan, every drawn value lies within
  \<open>sqrt(6 / (fan_in + fan_out))\<close> and no other tensor changes; otherwise
  the first bad tensor raises after the tensors before it are redrawn, so
  \<open>glorot\<close> of an \<open>nn.Linear\<close> with bias raises \<open>IndexError\<close> with the
  weight already overwritten.  \<open>MYGNN.__repr__\<close> reads back as the layer's
  channel count and edge dimension.

  \<^bold>\<open>Choices and limits.\<close>
  Every loop of the code runs over a finite list and is a \<open>fold\<close> or a
  structural recursion, so no fuel is needed.  Reals stand for
  floating-point numbers: rounding is not modelled, so the edge-order
  theorem holds exactly where the spec allows a floating-point tolerance,
  and the theorems state no strict inequality or value range that float32
  saturation or absorption could break; only the last layer uses IEEE
  special values, and \<open>GAL\<close> the binary64 overflow and underflow
  thresholds of \<open>math.exp\<close>.  Random weights are
  arguments (an initialiser function, a dropout mask, the xavier draw of
  \<open>GAL.a\<close>, the draws of \<open>uniform_\<close> in \<open>glorot\<close>, given only their
  documented range).  Shape errors are modelled as one exception where
  PyTorch would broadcast a width-1 residual or keep the width of an empty
  matrix; \<open>model_params\<close> is a record, so a missing key (a \<open>KeyError\<close>) is
  not modelled.  Not modelled: the training script (lines 307--383, all
  commented out), the module imports and the seed call
  \<open>torch.manual_seed(8)\<close> (the random draws are arguments), and, outside
  \<open>glorot\<close>, the state left behind when a Python exception escapes midway
  (the model returns only the error).
\<close>

end
